theory Spec2Isabelle
  imports Complex_Main
begin

section \<open>Strings and arrays of the host language\<close>

text \<open>
  A JavaScript string is modelled as a \<^typ>\<open>string\<close>, one \<^typ>\<open>char\<close> per code unit;
  an array as a list.  \<open>raw\<close> writes the \<^verbatim>\<open>String.raw\<close> literals of the source:
  no literal of the source contains a tilde, so a tilde stands for the backslash.
\<close>

definition raw :: "string \<Rightarrow> string" where
  "raw s = map (\<lambda>c. if c = CHR ''~'' then CHR 0x5C else c) s"

text \<open>\<^verbatim>\<open>xs.join(sep)\<close>\<close>

fun join :: "string \<Rightarrow> string list \<Rightarrow> string" where
  "join sep [] = []"
| "join sep [x] = x"
| "join sep (x # y # ys) = x @ sep @ join sep (y # ys)"

text \<open>\<^verbatim>\<open>xs.filter((_, i) => P(i))\<close>, the index counted from \<open>i\<close>.\<close>

fun filterIndex :: "(nat \<Rightarrow> bool) \<Rightarrow> nat \<Rightarrow> 'a list \<Rightarrow> 'a list" where
  "filterIndex P i [] = []"
| "filterIndex P i (x # xs) =
     (if P i then x # filterIndex P (Suc i) xs else filterIndex P (Suc i) xs)"

text \<open>
  \<^verbatim>\<open>xs.splice(start, 1)\<close>: a negative start counts from the end, a start beyond the
  end removes nothing.
\<close>

definition spliceOne :: "int \<Rightarrow> 'a list \<Rightarrow> 'a list" where
  "spliceOne start xs =
     (let len = int (length xs);
          k = nat (if start < 0 then max (len + start) 0 else min start len)
      in take k xs @ drop (Suc k) xs)"


section \<open>util/ast.ts: extractClassnamesFromValue\<close>

text \<open>\<^verbatim>\<open>const separatorRegEx = /([\t\n\f\r ]+)/;\<close>\<close>

definition isSeparator :: "char \<Rightarrow> bool" where
  "isSeparator c \<longleftrightarrow>
     c = CHR 0x09 \<or> c = CHR 0x0A \<or> c = CHR 0x0C \<or> c = CHR 0x0D \<or> c = CHR 0x20"

text \<open>
  \<^verbatim>\<open>classStr.split(separatorRegEx)\<close>.  The separator has one capturing group, so the
  matched run is spliced between the pieces; it never matches the empty string, so the
  empty input gives one empty piece.
\<close>

function splitSeparator :: "string \<Rightarrow> string list" where
  "splitSeparator s =
     (let piece = takeWhile (\<lambda>c. \<not> isSeparator c) s;
          rest = dropWhile (\<lambda>c. \<not> isSeparator c) s
      in if rest = [] then [piece]
         else piece # takeWhile isSeparator rest # splitSeparator (dropWhile isSeparator rest))"
  by pat_completeness auto
termination
proof (relation "measure length")
  fix s :: string and piece rest
  assume r: "rest = dropWhile (\<lambda>c. \<not> isSeparator c) s" and ne: "rest \<noteq> []"
  from ne obtain c cs where rc: "rest = c # cs" by (cases rest) auto
  have "isSeparator (hd rest)"
    using hd_dropWhile [of "\<lambda>c. \<not> isSeparator c" s] r ne by auto
  then have "dropWhile isSeparator rest = dropWhile isSeparator cs"
    using rc by simp
  then have "length (dropWhile isSeparator rest) < length rest"
    using rc length_dropWhile_le [of isSeparator cs] by simp
  moreover have "length rest \<le> length s"
    using r length_dropWhile_le by blast
  ultimately show "(dropWhile isSeparator rest, s) \<in> measure length" by simp
qed simp

declare splitSeparator.simps [simp del]

text \<open>
  \<^verbatim>\<open>separatorRegEx.test(x)\<close>; an absent element is \<^verbatim>\<open>undefined\<close>, which the test
  reads as the text "undefined".
\<close>

definition separatorTest :: "string option \<Rightarrow> bool" where
  "separatorTest x = list_ex isSeparator (case x of None \<Rightarrow> ''undefined'' | Some s \<Rightarrow> s)"

datatype JsValue = JsString string | JsUndefined | JsNull | JsBoolean bool | JsNumber int

record ExtractedClassNamesResult =
  classNames :: "string list"
  whitespaces :: "string list"
  headSpace :: bool
  tailSpace :: bool

definition firstOf :: "'a list \<Rightarrow> 'a option" where
  "firstOf xs = (case xs of [] \<Rightarrow> None | x # _ \<Rightarrow> Some x)"

definition lastOf :: "'a list \<Rightarrow> 'a option" where
  "lastOf xs = (if xs = [] then None else Some (last xs))"

definition extractParts :: "string \<Rightarrow> string list" where
  "extractParts classStr =
     (let parts = splitSeparator classStr;
          parts = (if firstOf parts = Some [] then tl parts else parts);
          parts = (if lastOf parts = Some [] then butlast parts else parts)
      in parts)"

definition extractClassnamesFromValue :: "JsValue \<Rightarrow> ExtractedClassNamesResult" where
  "extractClassnamesFromValue v =
     (case v of
        JsString classStr \<Rightarrow>
          (let parts = extractParts classStr;
               h = separatorTest (firstOf parts);
               t = separatorTest (lastOf parts)
           in \<lparr> classNames = filterIndex (\<lambda>i. if h then i mod 2 \<noteq> 0 else i mod 2 = 0) 0 parts,
                whitespaces = filterIndex (\<lambda>i. if h then i mod 2 = 0 else i mod 2 \<noteq> 0) 0 parts,
                headSpace = h,
                tailSpace = t \<rparr>)
      | _ \<Rightarrow> \<lparr> classNames = [], whitespaces = [], headSpace = False, tailSpace = False \<rparr>)"

text \<open>
  The text the two arrays stand for: the elements of the first array alternate with those
  of the second, the first array leading.
\<close>

fun interleave :: "'a list \<Rightarrow> 'a list \<Rightarrow> 'a list" where
  "interleave [] ys = ys"
| "interleave (x # xs) [] = x # xs"
| "interleave (x # xs) (y # ys) = x # y # interleave xs ys"

definition rebuild :: "ExtractedClassNamesResult \<Rightarrow> string" where
  "rebuild r =
     concat (if headSpace r then interleave (whitespaces r) (classNames r)
             else interleave (classNames r) (whitespaces r))"


section \<open>rules/classnames-order.ts: removeDuplicatesFromClassnamesAndWhitespaces\<close>

text \<open>
  The loop of the function, from index \<open>i\<close> with the class name seen last; a removed
  duplicate leaves the index where it is.  The two arrays are mutated in place; the model
  returns them.
\<close>

function dedupLoop ::
  "int \<Rightarrow> nat \<Rightarrow> string option \<Rightarrow> string list \<Rightarrow> string list \<Rightarrow> string list \<times> string list" where
  "dedupLoop offset i previous ordered spaces =
     (if i < length ordered then
        (let cls = ordered ! i in
         if Some cls = previous
         then dedupLoop offset i (Some cls) (spliceOne (int i) ordered) (spliceOne (int i + offset) spaces)
         else dedupLoop offset (Suc i) (Some cls) ordered spaces)
      else (ordered, spaces))"
  by pat_completeness auto
termination
  by (relation "measure (\<lambda>(offset, i, previous, ordered, spaces). length ordered - i)")
     (auto simp: spliceOne_def Let_def)

declare dedupLoop.simps [simp del]

definition removeDuplicatesFromClassnamesAndWhitespaces ::
  "string list \<Rightarrow> string list \<Rightarrow> bool \<Rightarrow> bool \<Rightarrow> string list \<times> string list" where
  "removeDuplicatesFromClassnamesAndWhitespaces ordered spaces h t =
     (let previous = firstOf ordered;
          offset = (if (\<not> h \<and> \<not> t) \<or> t then - 1 else 0)
      in dedupLoop offset 1 previous ordered spaces)"


section \<open>util/groupMethods.ts: theme, options and pattern compilation\<close>

subsection \<open>Characters and small string operations\<close>

definition isDigit :: "char \<Rightarrow> bool" where
  "isDigit c \<longleftrightarrow> 48 \<le> (of_char c :: nat) \<and> (of_char c :: nat) \<le> 57"

definition isLower :: "char \<Rightarrow> bool" where
  "isLower c \<longleftrightarrow> 97 \<le> (of_char c :: nat) \<and> (of_char c :: nat) \<le> 122"

definition isUpper :: "char \<Rightarrow> bool" where
  "isUpper c \<longleftrightarrow> 65 \<le> (of_char c :: nat) \<and> (of_char c :: nat) \<le> 90"

text \<open>The class \<^verbatim>\<open>\w\<close>; \<^verbatim>\<open>\W\<close> is its complement.\<close>

definition isWordChar :: "char \<Rightarrow> bool" where
  "isWordChar c \<longleftrightarrow> isDigit c \<or> isLower c \<or> isUpper c \<or> c = CHR ''_''"

text \<open>
  The class \<^verbatim>\<open>\s\<close>, which is also what \<^verbatim>\<open>parseFloat\<close> skips: tab, line feed, vertical
  tab, form feed, carriage return, space and the no-break space.  The further white space
  characters of Unicode lie beyond the code units a \<^typ>\<open>char\<close> holds.
\<close>

definition isJsSpace :: "char \<Rightarrow> bool" where
  "isJsSpace c \<longleftrightarrow>
     (9 \<le> (of_char c :: nat) \<and> (of_char c :: nat) \<le> 13) \<or> c = CHR 0x20 \<or> c = CHR 0xA0"

text \<open>\<^verbatim>\<open>s.startsWith(p)\<close>\<close>

definition startsWith :: "string \<Rightarrow> string \<Rightarrow> bool" where
  "startsWith p s \<longleftrightarrow> take (length p) s = p"

text \<open>The index of the first occurrence of a literal text, as \<^verbatim>\<open>indexOf\<close> gives it.\<close>

fun findSub :: "string \<Rightarrow> string \<Rightarrow> nat option" where
  "findSub tok [] = (if tok = [] then Some 0 else None)"
| "findSub tok (c # cs) =
     (if startsWith tok (c # cs) then Some 0
      else map_option Suc (findSub tok cs))"

text \<open>
  The replacement text of \<^verbatim>\<open>String.prototype.replace\<close> for a pattern without capturing
  groups: \<^verbatim>\<open>$$\<close> is a dollar sign, \<^verbatim>\<open>$&\<close> the matched text, \<^verbatim>\<open>$`\<close> the text
  before the match and \<^verbatim>\<open>$'\<close> the text after it; every other character stands for
  itself.
\<close>

fun getSubstitution :: "string \<Rightarrow> string \<Rightarrow> string \<Rightarrow> string \<Rightarrow> string" where
  "getSubstitution pre matched post [] = []"
| "getSubstitution pre matched post [c] = [c]"
| "getSubstitution pre matched post (c # d # r) =
     (if c = CHR ''$'' \<and> d = CHR ''$'' then CHR ''$'' # getSubstitution pre matched post r
      else if c = CHR ''$'' \<and> d = CHR ''&'' then matched @ getSubstitution pre matched post r
      else if c = CHR ''$'' \<and> d = CHR 0x60 then pre @ getSubstitution pre matched post r
      else if c = CHR ''$'' \<and> d = CHR 0x27 then post @ getSubstitution pre matched post r
      else c # getSubstitution pre matched post (d # r))"

text \<open>
  \<^verbatim>\<open>s.replace(new RegExp(...), replacement)\<close> for a pattern that matches the literal text
  \<open>tok\<close> and is not global: the first occurrence is replaced, if there is one.
\<close>

definition jsReplaceFirst :: "string \<Rightarrow> string \<Rightarrow> string \<Rightarrow> string" where
  "jsReplaceFirst tok replacement s =
     (case findSub tok s of
        None \<Rightarrow> s
      | Some i \<Rightarrow>
          (let pre = take i s; post = drop (i + length tok) s
           in pre @ getSubstitution pre tok post replacement @ post))"

text \<open>\<^verbatim>\<open>String(i)\<close> for an array index.\<close>

fun showNat :: "nat \<Rightarrow> string" where
  "showNat n =
     (if n < 10 then [char_of (48 + n)]
      else showNat (n div 10) @ [char_of (48 + n mod 10)])"

declare showNat.simps [simp del]

text \<open>\<^verbatim>\<open>uniq\<close> of es-toolkit: the first occurrence of every element is kept.\<close>

fun uniqFrom :: "'a list \<Rightarrow> 'a list \<Rightarrow> 'a list" where
  "uniqFrom seen [] = []"
| "uniqFrom seen (x # xs) =
     (if x \<in> set seen then uniqFrom seen xs else x # uniqFrom (seen @ [x]) xs)"

definition uniq :: "'a list \<Rightarrow> 'a list" where
  "uniq xs = uniqFrom [] xs"

subsection \<open>The theme and the configuration\<close>

text \<open>
  A number of the theme: only whether it is \<^verbatim>\<open>NaN\<close>, whether it is zero and whether two
  numbers are equal are ever observed.
\<close>

datatype JsNum = Finite rat | PosInfinity | NegInfinity | NaN

text \<open>
  A value of the theme: a scalar, a nested scale or nothing (\<^verbatim>\<open>null\<close>, \<^verbatim>\<open>undefined\<close>).
  A scale is a plain object, as the declared type \<^verbatim>\<open>TailwindThemeScale\<close> has it; it
  is modelled by the list of its own enumerable properties in the order of
  \<^verbatim>\<open>Object.keys\<close>.
\<close>

datatype ThemeValue =
    TString string
  | TNumber JsNum
  | TScale "(string \<times> ThemeValue) list"
  | TNullish

type_synonym TailwindThemeScale = "(string \<times> ThemeValue) list"

datatype DarkMode = DarkModeString string | DarkModePair string string

text \<open>
  The configuration object.  \<open>address\<close> is the identity of the object, which is what the
  \<^verbatim>\<open>WeakMap\<close> of compiled patterns is keyed by.
\<close>

record GroupTailwindConfig =
  address :: nat
  prefix :: string
  theme :: "(string \<times> ThemeValue) list"
  darkMode :: "DarkMode option"

text \<open>
  \<^verbatim>\<open>obj[key]\<close> for the own properties of a scale: an absent property reads as
  \<^verbatim>\<open>undefined\<close>.
\<close>

definition lookupKey :: "TailwindThemeScale \<Rightarrow> string \<Rightarrow> ThemeValue" where
  "lookupKey sc k = (case map_of sc k of None \<Rightarrow> TNullish | Some v \<Rightarrow> v)"

definition hasOwn :: "TailwindThemeScale \<Rightarrow> string \<Rightarrow> bool" where
  "hasOwn sc k \<longleftrightarrow> map_of sc k \<noteq> None"

text \<open>\<^verbatim>\<open>Object.keys(v)\<close>; a string has its indices as keys, a number has none.\<close>

definition objectKeys :: "ThemeValue \<Rightarrow> string list" where
  "objectKeys v =
     (case v of
        TScale sc \<Rightarrow> map fst sc
      | TString s \<Rightarrow> map showNat [0..<length s]
      | _ \<Rightarrow> [])"

text \<open>Whether a value counts as true in a condition.\<close>

definition truthy :: "ThemeValue \<Rightarrow> bool" where
  "truthy v =
     (case v of
        TString s \<Rightarrow> s \<noteq> []
      | TNumber n \<Rightarrow> n \<noteq> Finite 0 \<and> n \<noteq> NaN
      | TScale _ \<Rightarrow> True
      | TNullish \<Rightarrow> False)"

definition isThemeScale :: "ThemeValue \<Rightarrow> bool" where
  "isThemeScale v = (case v of TScale _ \<Rightarrow> True | _ \<Rightarrow> False)"

definition getThemeScale :: "GroupTailwindConfig \<Rightarrow> string \<Rightarrow> TailwindThemeScale" where
  "getThemeScale config prop =
     (case lookupKey (theme config) prop of TScale sc \<Rightarrow> sc | _ \<Rightarrow> [])"

definition escapeSpecialChars :: "string \<Rightarrow> string" where
  "escapeSpecialChars str = concat (map (\<lambda>c. if isWordChar c then [c] else [CHR 0x5C, c]) str)"

definition generateOptionalOpacitySuffix :: "GroupTailwindConfig \<Rightarrow> string" where
  "generateOptionalOpacitySuffix config =
     (let opacity = lookupKey (theme config) ''opacity'';
          opacityKeys = (if \<not> truthy opacity then [] else objectKeys opacity);
          opacityKeys = opacityKeys @ [raw ''~[(~d*~.?~d*)%?~]'']
      in raw ''(~/('' @ join ''|'' opacityKeys @ ''))?'')"

subsection \<open>Constants of util/types\<close>

text \<open>util/types/length.ts\<close>

definition fontUnits :: "string list" where
  "fontUnits = [''cap'', ''ch'', ''em'', ''ex'', ''ic'', ''lh'', ''rem'', ''rlh'']"

definition viewportUnits :: "string list" where
  "viewportUnits = [''vb'', ''vh'', ''vi'', ''vw'', ''vmin'', ''vmax'']"

definition absoluteUnits :: "string list" where
  "absoluteUnits = [''px'', ''mm'', ''cm'', ''in'', ''pt'', ''pc'']"

definition perInchUnits :: "string list" where
  "perInchUnits = [''lin'', ''pt'', ''mm'']"

definition otherUnits :: "string list" where
  "otherUnits = [''%'']"

definition mergedUnits :: "string list" where
  "mergedUnits = uniq (fontUnits @ viewportUnits @ absoluteUnits @ perInchUnits @ otherUnits)"

definition selectedUnits :: "string list" where
  "selectedUnits = filter (\<lambda>el. el \<notin> set [''cap'', ''ic'', ''vb'', ''vi'']) mergedUnits"

definition mergedUnitsRegEx :: string where
  "mergedUnitsRegEx =
     raw ''~[(~d{1,}(~.~d{1,})?|(~.~d{1,})?)('' @ join ''|'' mergedUnits @ raw '')~]''"

definition selectedUnitsRegEx :: string where
  "selectedUnitsRegEx =
     raw ''~[(~d{1,}(~.~d{1,})?|(~.~d{1,})?)('' @ join ''|'' selectedUnits @ raw '')~]''"

definition anyCalcRegEx :: string where
  "anyCalcRegEx = raw ''~[calc~(.{1,}~)~]''"

text \<open>util/types/angle.ts\<close>

definition angleUnits :: "string list" where
  "angleUnits = [''deg'', ''grad'', ''rad'', ''turn'']"

definition mergedAngleValues :: "string list" where
  "mergedAngleValues =
     [raw ''~-?(~d{1,}(~.~d{1,})?|~.~d{1,})('' @ join ''|'' angleUnits @ '')'',
      raw ''calc~(.{1,}~)'',
      raw ''var~(~-~-[A-Za-z~-]{1,}~)'']"

text \<open>
  util/types/color.ts is not among the sources: its exported constants are parameters of
  the model.
\<close>

record ColorConsts =
  cssNamedColors :: "string list"
  mergedColorValues :: "string list"
  RGBAPercentages :: string
  optionalColorPrefixedVar :: string
  notHSLAPlusWildcard :: string
  mandatoryColorPrefixed :: string

subsection \<open>generateOptions\<close>

definition genericArbitraryOption :: string where
  "genericArbitraryOption = raw ''~[(.*)~]''"

definition genericScaleValue :: string where
  "genericScaleValue =
     raw ''(~d{1,}(~.~d{1,})?|~.~d{1,}|~d{1,}~/~d{1,}|px|auto|full|min|max|fit|none|screen|inherit|initial|unset|xs|sm|md|lg|xl|2xl|3xl|4xl|5xl|6xl|7xl|8xl|9xl|svh|lvh|dvh|svw|lvw|dvw)''"

definition genericShadeColorValue :: string where
  "genericShadeColorValue =
     raw ''[a-z][a-z0-9]*(~-[a-z][a-z0-9]*)*~-(50|100|200|300|400|500|600|700|800|900|950)''"

definition namedColors :: "ColorConsts \<Rightarrow> string list" where
  "namedColors K = map escapeSpecialChars (cssNamedColors K)"

definition genericColorValue :: "ColorConsts \<Rightarrow> string" where
  "genericColorValue K = ''('' @ join ''|'' (namedColors K) @ ''|'' @ genericShadeColorValue @ '')''"

definition colorProps :: "string list" where
  "colorProps =
     [''colors'', ''accentColor'', ''borderColor'', ''boxShadowColor'', ''divideColor'', ''fill'',
      ''outlineColor'', ''textColor'', ''stroke'', ''gradientColorStopPositions'']"

definition prefixedLengthProps :: "string list" where
  "prefixedLengthProps =
     [''borderSpacing'', ''borderWidth'', ''divideWidth'', ''fontSize'', ''outlineWidth'',
      ''outlineOffset'', ''ringWidth'', ''ringOffsetWidth'', ''textUnderlineOffset'']"

definition allUnitsProps :: "string list" where
  "allUnitsProps =
     [''gap'', ''height'', ''lineHeight'', ''maxHeight'', ''size'', ''maxWidth'', ''minHeight'',
      ''minWidth'', ''padding'', ''width'', ''blur'', ''brightness'', ''contrast'', ''grayscale'',
      ''invert'', ''saturate'', ''sepia'', ''backdropBlur'', ''backdropBrightness'',
      ''backdropContrast'', ''backdropGrayscale'', ''backdropInvert'', ''backdropOpacity'',
      ''backdropSaturate'', ''backdropSepia'', ''transitionDuration'',
      ''transitionTimingFunction'', ''transitionDelay'', ''animation'', ''transformOrigin'',
      ''scale'', ''cursor'']"

definition allUnitsSignedProps :: "string list" where
  "allUnitsSignedProps =
     [''backdropHueRotate'', ''hueRotate'', ''inset'', ''letterSpacing'', ''margin'',
      ''scrollMargin'', ''skew'', ''space'', ''textIndent'', ''translate'']"

definition opacityProps :: "string list" where
  "opacityProps = [''backgroundOpacity'', ''borderOpacity'', ''opacity'', ''ringOpacity'']"

definition gridProps :: "string list" where
  "gridProps =
     [''gridTemplateColumns'', ''gridColumn'', ''gridColumnStart'', ''gridColumnEnd'',
      ''gridTemplateRows'', ''gridRow'', ''gridRowStart'', ''gridRowEnd'', ''gridAutoColumns'',
      ''gridAutoRows'']"

definition shadowProps :: "string list" where
  "shadowProps = [''backgroundPosition'', ''boxShadow'', ''dropShadow'', ''transitionProperty'']"

definition enumeratedProps :: "string list" where
  "enumeratedProps = [''fontWeight'', ''typography'', ''lineClamp'']"

text \<open>\<^verbatim>\<open>"(" + escapedKeys.join("|") + ")"\<close>\<close>

definition alternatives :: "string list \<Rightarrow> string" where
  "alternatives xs = ''('' @ join ''|'' xs @ '')''"

text \<open>
  The \<^verbatim>\<open>dark\<close> case.  The pattern \<^verbatim>\<open>/^\.(?<classnameValue>[\w:[\]-]*)$/\<close> accepts a
  dot followed by word characters, colons, brackets and hyphens only.
\<close>

definition isClassnameChar :: "char \<Rightarrow> bool" where
  "isClassnameChar c \<longleftrightarrow>
     isWordChar c \<or> c = CHR '':'' \<or> c = CHR ''['' \<or> c = CHR '']'' \<or> c = CHR ''-''"

definition darkOption :: "GroupTailwindConfig \<Rightarrow> string" where
  "darkOption config =
     (case darkMode config of
        Some (DarkModeString m) \<Rightarrow> (if m = ''class'' then ''dark'' else [])
      | Some (DarkModePair m selector) \<Rightarrow>
          (if m = ''class'' then
             (if startsWith ''.'' selector \<and> list_all isClassnameChar (drop 1 selector)
              then drop 1 selector else [])
           else [])
      | None \<Rightarrow> [])"

text \<open>One round of the loop over the keys in the colour case: the options of key \<open>k\<close>.\<close>

definition colorOptionsOf ::
  "TailwindThemeScale \<Rightarrow> TailwindThemeScale \<Rightarrow> string \<Rightarrow> string \<Rightarrow> string list" where
  "colorOptionsOf propThemeScale colorsThemeScale opacitySuffixes k =
     (if \<not> hasOwn propThemeScale k \<and> \<not> hasOwn colorsThemeScale k then []
      else
        (let colorValue = (case lookupKey propThemeScale k of
                             TNullish \<Rightarrow> lookupKey colorsThemeScale k
                           | v \<Rightarrow> v)
         in case colorValue of
              TString _ \<Rightarrow> [escapeSpecialChars k @ opacitySuffixes]
            | TNumber _ \<Rightarrow> [escapeSpecialChars k @ opacitySuffixes]
            | TScale sc \<Rightarrow>
                (let variants = map escapeSpecialChars (map fst sc);
                     hasDefault = (''DEFAULT'' \<in> set variants);
                     variants = remove1 ''DEFAULT'' variants
                 in [k @ raw ''(~-('' @ join ''|'' variants @ ''))''
                       @ (if hasDefault then ''?'' else []) @ opacitySuffixes])
            | TNullish \<Rightarrow> []))"

definition arbitraryColorsOf :: "ColorConsts \<Rightarrow> string \<Rightarrow> string list" where
  "arbitraryColorsOf K propName =
     mergedColorValues K @
       (if propName = ''fill'' then [''(?!(angle|length|list):).{1,}'']
        else if propName = ''gradientColorStopPositions''
          then [RGBAPercentages K, optionalColorPrefixedVar K, notHSLAPlusWildcard K]
        else if propName = ''textColor'' then [RGBAPercentages K, mandatoryColorPrefixed K]
        else [mandatoryColorPrefixed K])"

definition generateOptions ::
  "ColorConsts \<Rightarrow> string \<Rightarrow> string list \<Rightarrow> GroupTailwindConfig \<Rightarrow> string" where
  "generateOptions K propName keys0 config =
     (let opacitySuffixes = generateOptionalOpacitySuffix config;
          keys = remove1 ''DEFAULT'' keys0;
          escapedKeys = map escapeSpecialChars keys;
          generic = (if keys = [] then [genericScaleValue] else [])
      in
      if propName = ''dark'' then darkOption config
      else if propName = ''arbitraryProperties'' then
        alternatives (escapedKeys @ [genericArbitraryOption])
      else if propName \<in> set colorProps then
        (let propThemeScale = getThemeScale config propName;
             colorsThemeScale = getThemeScale config ''colors'';
             options = concat (map (colorOptionsOf propThemeScale colorsThemeScale opacitySuffixes) keys);
             options = options @ (if keys = [] then [genericColorValue K @ opacitySuffixes] else []);
             options = options @ (if propName = ''fill'' \<or> propName = ''stroke'' then [''none''] else []);
             options = options @ [raw ''~[('' @ join ''|'' (arbitraryColorsOf K propName) @ raw '')~]'']
         in alternatives options)
      else if propName \<in> set prefixedLengthProps then
        alternatives (escapedKeys @ generic @
          [selectedUnitsRegEx, anyCalcRegEx, raw ''~[length~:.{1,}~]''])
      else if propName = ''strokeWidth'' then
        alternatives (escapedKeys @ generic @
          [selectedUnitsRegEx, anyCalcRegEx, raw ''~[length~:calc~(.{1,}~)~]'',
           raw ''~[length~:(.{1,})('' @ join ''|'' selectedUnits @ raw '')?~]''])
      else if propName \<in> set allUnitsProps \<or> propName \<in> set allUnitsSignedProps then
        alternatives (escapedKeys @ generic @
          [mergedUnitsRegEx, raw ''~[(?!(angle|color|length|list):).{1,}~]''])
      else if propName \<in> set opacityProps then
        alternatives (escapedKeys @
          [raw ''~[(0(~.~d{1,})?|~.~d{1,}|1)~]'', anyCalcRegEx,
           raw ''~[var~(~-~-[A-Za-z~-]{1,}~)~]''])
      else if propName = ''rotate'' then
        alternatives (escapedKeys @ [raw ''~[('' @ join ''|'' mergedAngleValues @ raw '')~]''])
      else if propName \<in> set gridProps then
        alternatives (escapedKeys @ (if keys = [] then [genericScaleValue, ''subgrid''] else []) @
          [raw ''~[(?!(angle|color|length):).{1,}~]''])
      else if propName = ''listStyleType'' then
        alternatives (escapedKeys @ [raw ''~[(?!(angle|color|length|list):).{1,}~]''])
      else if propName = ''objectPosition'' then
        alternatives (escapedKeys @ [raw ''~[(?!(angle|color|length):).{1,}~]''])
      else if propName \<in> set shadowProps then
        alternatives (escapedKeys @ [raw ''~[(?!((angle|color|length|list):)|#|var~().{1,}~]''])
      else if propName = ''backgroundSize'' then
        alternatives (escapedKeys @ [raw ''~[length:.{1,}~]''])
      else if propName = ''backgroundImageUrl'' then
        alternatives (escapedKeys @ [''.{1,}''])
      else if propName = ''backgroundImage'' then
        alternatives (escapedKeys @ [raw ''~[url~(.{1,}~)~]''])
      else if propName = ''order'' then
        alternatives (escapedKeys @ (if keys = [] then [raw ''(first|last|none|~d{1,})''] else []) @
          [genericArbitraryOption])
      else if propName = ''zIndex'' then
        alternatives (escapedKeys @ (if keys = [] then [raw ''(auto|~d{1,})''] else []) @
          [genericArbitraryOption])
      else if propName \<in> set enumeratedProps then
        alternatives (escapedKeys @ generic)
      else if propName = ''aspectRatio'' then
        alternatives (escapedKeys @ (if ''none'' \<notin> set keys then [''none''] else []) @ generic @
          [genericArbitraryOption])
      else
        alternatives (escapedKeys @ generic @ [genericArbitraryOption]))"

subsection \<open>patchRegex\<close>

text \<open>
  Whether \<^verbatim>\<open>Number.parseFloat(s)\<close> is \<^verbatim>\<open>NaN\<close>: after the leading white space and an
  optional sign, the text must begin with a digit, with a dot and a digit, or with
  \<^verbatim>\<open>Infinity\<close>.
\<close>

definition parseFloatIsNaN :: "string \<Rightarrow> bool" where
  "parseFloatIsNaN s =
     (let t = dropWhile isJsSpace s;
          u = (if startsWith ''+'' t \<or> startsWith ''-'' t then drop 1 t else t)
      in \<not> (startsWith ''Infinity'' u
            \<or> (case u of c # _ \<Rightarrow> isDigit c | [] \<Rightarrow> False)
            \<or> (case u of c # d # _ \<Rightarrow> c = CHR ''.'' \<and> isDigit d | _ \<Rightarrow> False)))"

text \<open>
  The filter and the map over \<^verbatim>\<open>Object.keys(propThemeScale)\<close> that give the keys of a
  placeholder.  \<open>keyIsAccepted\<close> is the callback of the filter.
\<close>

definition keyIsAccepted :: "bool \<Rightarrow> TailwindThemeScale \<Rightarrow> string \<Rightarrow> bool" where
  "keyIsAccepted isNegative propThemeScale key =
     (if isNegative then
        (let val = lookupKey propThemeScale key;
             isCalc = (case val of TString s \<Rightarrow> startsWith ''calc'' s | _ \<Rightarrow> False);
             numIsNaN = (case val of
                           TNumber n \<Rightarrow> n = NaN
                         | TString s \<Rightarrow> parseFloatIsNaN s
                         | _ \<Rightarrow> True)
         in if isCalc then True else if numIsNaN then False else True)
      else if startsWith ''-'' key then False
      else True)"

definition acceptedKeys :: "bool \<Rightarrow> TailwindThemeScale \<Rightarrow> string list" where
  "acceptedKeys isNegative propThemeScale =
     map (\<lambda>key. if isNegative \<and> startsWith ''-'' key then drop 1 key else key)
         (filter (keyIsAccepted isNegative propThemeScale) (map fst propThemeScale))"

text \<open>
  \<^verbatim>\<open>re.matchAll(/\${(-?[a-z]*)}/gi)\<close>: the captured names of the placeholders, from left
  to right.  \<open>matchPropAt\<close> is a match at the head of the text; a match of the name \<open>p\<close>
  is \<open>length p + 3\<close> characters long.
\<close>

definition isAlpha :: "char \<Rightarrow> bool" where
  "isAlpha c \<longleftrightarrow> isLower c \<or> isUpper c"

definition matchPropAt :: "string \<Rightarrow> string option" where
  "matchPropAt s =
     (if startsWith ''${'' s then
        (let r = drop 2 s;
             minus = (if startsWith ''-'' r then ''-'' else []);
             r1 = drop (length minus) r;
             letters = takeWhile isAlpha r1
         in if startsWith ''}'' (drop (length letters) r1) then Some (minus @ letters) else None)
      else None)"

function propsScan :: "string \<Rightarrow> string list" where
  "propsScan s =
     (if s = [] then []
      else case matchPropAt s of
             Some p \<Rightarrow> p # propsScan (drop (length p + 3) s)
           | None \<Rightarrow> propsScan (tl s))"
  by pat_completeness auto
termination
  by (relation "measure length") auto

declare propsScan.simps [simp del]

text \<open>One round of the loop over the placeholders: the text \<open>replaced\<close> after the round.\<close>

definition patchProp :: "ColorConsts \<Rightarrow> GroupTailwindConfig \<Rightarrow> string \<Rightarrow> string \<Rightarrow> string" where
  "patchProp K config prop replaced =
     (let token = ''${'' @ prop @ ''}'';
          isNegative = startsWith ''-'' prop;
          absoluteProp = (if isNegative then drop 1 prop else prop)
      in
      if prop = ''dark'' then
        jsReplaceFirst token (generateOptions K absoluteProp [] config) replaced
      else if prop = ''arbitraryProperties'' then
        jsReplaceFirst (''${'' @ absoluteProp @ ''}'') (generateOptions K absoluteProp [] config) replaced
      else if prop = ''backgroundImageUrl'' then
        jsReplaceFirst (''${'' @ prop @ ''}'') (generateOptions K prop [] config) replaced
      else if map fst (getThemeScale config absoluteProp) = [] then
        jsReplaceFirst token (generateOptions K absoluteProp [] config) replaced
      else
        (let propThemeScale = getThemeScale config absoluteProp;
             keys = acceptedKeys isNegative propThemeScale
         in if keys = [] \<or> findSub token replaced = None then replaced
            else jsReplaceFirst token (generateOptions K absoluteProp keys config) replaced))"

text \<open>The compilation of a template on a cache miss.\<close>

definition compileRegex :: "ColorConsts \<Rightarrow> string \<Rightarrow> GroupTailwindConfig \<Rightarrow> string" where
  "compileRegex K re config =
     (let patched = raw ''~!?'';
          patched = (if prefix config \<noteq> [] then patched @ escapeSpecialChars (prefix config)
                     else patched);
          props = propsScan re
      in if props = [] then patched @ ''('' @ re @ '')''
         else patched @ ''('' @ foldl (\<lambda>replaced prop. patchProp K config prop replaced) re props @ '')'')"

text \<open>
  \<^verbatim>\<open>cachedRegexes\<close>: for the identity of a configuration object, the map from templates
  to compiled patterns.  \<open>patchRegex\<close> takes the state of the cache and returns the new one.
\<close>

type_synonym RegexCache = "nat \<Rightarrow> (string \<Rightarrow> string option) option"

definition patchRegex ::
  "ColorConsts \<Rightarrow> string \<Rightarrow> GroupTailwindConfig \<Rightarrow> RegexCache \<Rightarrow> string \<times> RegexCache" where
  "patchRegex K re config cachedRegexes =
     (let cachedRegexes =
            (if cachedRegexes (address config) = None
             then cachedRegexes(address config \<mapsto> Map.empty) else cachedRegexes)
      in case cachedRegexes (address config) of
           None \<Rightarrow> (re, cachedRegexes)
         | Some cache \<Rightarrow>
             (case cache re of
                Some result \<Rightarrow> (result, cachedRegexes)
              | None \<Rightarrow>
                  (let result = compileRegex K re config
                   in (result, cachedRegexes(address config \<mapsto> cache(re \<mapsto> result))))))"

subsection \<open>The taxonomy of groups\<close>

text \<open>
  config/groups.ts is not among the sources.  A node of the taxonomy has a type, members
  that are either a pattern template or a list of nodes, and the optional fields
  \<^verbatim>\<open>configKey\<close>, \<^verbatim>\<open>shorthand\<close>, \<^verbatim>\<open>body\<close> and \<^verbatim>\<open>deprecated\<close>, as the functions below
  read them.
\<close>

datatype Members = Pattern string | Nodes "GroupNode list"
and GroupNode =
  GroupNode (nodeType: string) (members: Members) (configKey: "string option")
            (nodeShorthand: "string option") (nodeBody: "string option") (deprecated: "bool option")

text \<open>The three nested loops of \<^verbatim>\<open>getGroups\<close>, which collect the templates.\<close>

definition flattenGroups :: "GroupNode list \<Rightarrow> string list" where
  "flattenGroups groupsConfig =
     concat (map (\<lambda>group.
       case members group of
         Pattern groupMembers \<Rightarrow> [groupMembers]
       | Nodes groupMembers \<Rightarrow>
           concat (map (\<lambda>prop.
             case members prop of
               Pattern propMembers \<Rightarrow> [propMembers]
             | Nodes propMembers \<Rightarrow>
                 concat (map (\<lambda>leaf.
                   case members leaf of Pattern m \<Rightarrow> [m] | Nodes _ \<Rightarrow> []) propMembers))
             groupMembers))
       groupsConfig)"

text \<open>\<^verbatim>\<open>groups.map(re => patchRegex(re, twConfig))\<close>\<close>

fun mapPatchRegex ::
  "ColorConsts \<Rightarrow> GroupTailwindConfig \<Rightarrow> string list \<Rightarrow> RegexCache \<Rightarrow> string list \<times> RegexCache" where
  "mapPatchRegex K twConfig [] cachedRegexes = ([], cachedRegexes)"
| "mapPatchRegex K twConfig (re # res) cachedRegexes =
     (let (r, cachedRegexes) = patchRegex K re twConfig cachedRegexes;
          (rs, cachedRegexes) = mapPatchRegex K twConfig res cachedRegexes
      in (r # rs, cachedRegexes))"

definition getGroups ::
  "ColorConsts \<Rightarrow> GroupNode list \<Rightarrow> GroupTailwindConfig option \<Rightarrow> RegexCache
     \<Rightarrow> string list \<times> RegexCache" where
  "getGroups K groupsConfig twConfig cachedRegexes =
     (let groups = flattenGroups groupsConfig
      in case twConfig of
           None \<Rightarrow> (groups, cachedRegexes)
         | Some c \<Rightarrow> mapPatchRegex K c groups cachedRegexes)"

definition getGroupConfigKeys :: "GroupNode list \<Rightarrow> string option list" where
  "getGroupConfigKeys groupsConfig =
     concat (map (\<lambda>group.
       case members group of
         Pattern _ \<Rightarrow> [configKey group]
       | Nodes groupMembers \<Rightarrow>
           concat (map (\<lambda>prop.
             case members prop of
               Pattern _ \<Rightarrow> [configKey prop]
             | Nodes propMembers \<Rightarrow> map configKey propMembers)
             groupMembers))
       groupsConfig)"

subsection \<open>getPrefix and getSuffix\<close>

text \<open>The class \<^verbatim>\<open>[\da-z-]\<close>.\<close>

definition isSegmentChar :: "char \<Rightarrow> bool" where
  "isSegmentChar c \<longleftrightarrow> isDigit c \<or> isLower c \<or> c = CHR ''-''"

text \<open>
  \<^verbatim>\<open>/(?<!\[[\da-z-]*)(:)(?![\da-z-]*])/\<close>.  The lookbehind holds of the text before a
  position when that text ends with an opening bracket and a run of segment characters; the
  lookahead holds of the text after it when that text begins with a run of segment
  characters and a closing bracket.  Neither bracket is a segment character, so the run is
  the longest one.
\<close>

definition precededByBracket :: "string \<Rightarrow> bool" where
  "precededByBracket before =
     (case dropWhile isSegmentChar (rev before) of [] \<Rightarrow> False | c # _ \<Rightarrow> c = CHR ''['')"

definition followedByBracket :: "string \<Rightarrow> bool" where
  "followedByBracket after =
     (case dropWhile isSegmentChar after of [] \<Rightarrow> False | c # _ \<Rightarrow> c = CHR '']'')"

definition isRootSeparatorAt :: "string \<Rightarrow> nat \<Rightarrow> bool" where
  "isRootSeparatorAt s i \<longleftrightarrow>
     s ! i = CHR '':'' \<and> \<not> precededByBracket (take i s) \<and> \<not> followedByBracket (drop (Suc i) s)"

text \<open>\<^verbatim>\<open>rootSeparatorRegex.exec(s)\<close>: the index of the leftmost match, if there is one.\<close>

definition rootSeparatorExec :: "string \<Rightarrow> nat option" where
  "rootSeparatorExec s = List.find (isRootSeparatorAt s) [0..<length s]"

function getPrefixLoop :: "nat \<Rightarrow> string \<Rightarrow> nat" where
  "getPrefixLoop index classname =
     (case rootSeparatorExec classname of
        None \<Rightarrow> index
      | Some r \<Rightarrow>
          (let newIndex = r + 1
           in getPrefixLoop (index + newIndex) (drop (nat (max 0 (int newIndex))) classname)))"
  by pat_completeness auto
termination
proof (relation "measure (\<lambda>(index, classname). length classname)")
  fix index :: nat and classname :: string and r newIndex
  assume "rootSeparatorExec classname = Some r" and n: "newIndex = r + 1"
  then have "r < length classname"
    by (auto simp: rootSeparatorExec_def find_Some_iff)
  then show "((index + newIndex, drop (nat (max 0 (int newIndex))) classname), (index, classname))
      \<in> measure (\<lambda>(index, classname). length classname)"
    using n by simp
qed simp

declare getPrefixLoop.simps [simp del]

definition getPrefix :: "string \<Rightarrow> string" where
  "getPrefix name =
     (let index = getPrefixLoop 0 name
      in if index \<noteq> 0 then take (nat (max 0 (int index))) name else [])"

definition getSuffix :: "string \<Rightarrow> string" where
  "getSuffix className = drop (length (getPrefix className)) className"

subsection \<open>findInGroup and parseClassname\<close>

text \<open>
  The regular-expression engine of the host is a parameter: for the source text of a
  pattern and a subject it throws a syntax error, finds no match, or finds a match whose
  \<^verbatim>\<open>groups\<close> are undefined (a pattern without named groups) or list the named groups
  that took part in the match with the text they captured.
\<close>

datatype RxResult = RxSyntaxError | RxNoMatch | RxMatch "(string \<times> string) list option"

type_synonym RegExpEngine = "string \<Rightarrow> string \<Rightarrow> RxResult"

datatype JsError = SyntaxError | TypeError

text \<open>
  The object that \<^verbatim>\<open>findInGroup\<close> returns: the fields of the matched node (\<open>leaf\<close>), the
  type of its parent and the value.
\<close>

record MatchedGroup =
  group' :: "string option"
  leaf :: GroupNode
  leafValue :: string

record ParsedClassname =
  index :: "nat option"
  name :: string
  variants :: string
  parentType :: string
  body :: string
  value' :: string
  shorthand :: string
  leading :: string
  trailing :: string
  important :: bool

definition capturedValue :: "(string \<times> string) list option \<Rightarrow> string" where
  "capturedValue groups =
     (case groups of
        None \<Rightarrow> []
      | Some g \<Rightarrow>
          (let v = (case map_of g ''value'' of
                      Some x \<Rightarrow> (if x \<noteq> [] then x else [])
                    | None \<Rightarrow> []);
               v = (case map_of g ''negativeValue'' of
                      Some n \<Rightarrow> (if n \<noteq> [] then ''-'' @ n else v)
                    | None \<Rightarrow> v)
           in v))"

fun findInGroup ::
  "ColorConsts \<Rightarrow> RegExpEngine \<Rightarrow> string \<Rightarrow> GroupNode \<Rightarrow> GroupTailwindConfig \<Rightarrow> string option
     \<Rightarrow> RegexCache \<Rightarrow> (JsError + MatchedGroup option) \<times> RegexCache"
and findInChildren ::
  "ColorConsts \<Rightarrow> RegExpEngine \<Rightarrow> string \<Rightarrow> GroupNode list \<Rightarrow> GroupTailwindConfig \<Rightarrow> string
     \<Rightarrow> RegexCache \<Rightarrow> (JsError + MatchedGroup option) \<times> RegexCache" where
  "findInGroup K rx nm (GroupNode t (Pattern ms) ck sh b d) config parent cachedRegexes =
     (let (pattern, cachedRegexes) = patchRegex K ms config cachedRegexes
      in case rx (''^('' @ pattern @ '')$'') nm of
           RxSyntaxError \<Rightarrow> (Inl SyntaxError, cachedRegexes)
         | RxNoMatch \<Rightarrow> (Inr None, cachedRegexes)
         | RxMatch groups \<Rightarrow>
             (Inr (Some \<lparr> group' = parent,
                         leaf = GroupNode t (Pattern ms) ck sh b d,
                         leafValue = capturedValue groups \<rparr>), cachedRegexes))"
| "findInGroup K rx nm (GroupNode t (Nodes ms) ck sh b d) config parent cachedRegexes =
     findInChildren K rx nm ms config t cachedRegexes"
| "findInChildren K rx nm [] config t cachedRegexes = (Inr None, cachedRegexes)"
| "findInChildren K rx nm (child # rest) config t cachedRegexes =
     (case findInGroup K rx nm child config (Some t) cachedRegexes of
        (Inl e, cachedRegexes) \<Rightarrow> (Inl e, cachedRegexes)
      | (Inr (Some found), cachedRegexes) \<Rightarrow> (Inr (Some found), cachedRegexes)
      | (Inr None, cachedRegexes) \<Rightarrow> findInChildren K rx nm rest config t cachedRegexes)"

text \<open>The loop of \<^verbatim>\<open>parseClassname\<close> over the groups, with the slot found so far.\<close>

fun parseLoop ::
  "ColorConsts \<Rightarrow> RegExpEngine \<Rightarrow> string \<Rightarrow> GroupTailwindConfig \<Rightarrow> MatchedGroup option
     \<Rightarrow> GroupNode list \<Rightarrow> RegexCache \<Rightarrow> (JsError + MatchedGroup option) \<times> RegexCache" where
  "parseLoop K rx classSuffix config slot [] cachedRegexes = (Inr slot, cachedRegexes)"
| "parseLoop K rx classSuffix config slot (g # rest) cachedRegexes =
     (if slot = None then
        (case findInGroup K rx classSuffix g config None cachedRegexes of
           (Inl e, cachedRegexes) \<Rightarrow> (Inl e, cachedRegexes)
         | (Inr (Some found), cachedRegexes) \<Rightarrow>
             parseLoop K rx classSuffix config (Some found) rest cachedRegexes
         | (Inr None, cachedRegexes) \<Rightarrow>
             parseLoop K rx classSuffix config slot rest cachedRegexes)
      else parseLoop K rx classSuffix config slot rest cachedRegexes)"

text \<open>\<^verbatim>\<open>s.substring(a, b)\<close> for indices that are not negative.\<close>

definition jsSubstring :: "nat \<Rightarrow> nat \<Rightarrow> string \<Rightarrow> string" where
  "jsSubstring a b s =
     (let a = min a (length s); b = min b (length s)
      in take (max a b - min a b) (drop (min a b) s))"

definition parseClassname ::
  "ColorConsts \<Rightarrow> RegExpEngine \<Rightarrow> string \<Rightarrow> GroupNode list \<Rightarrow> GroupTailwindConfig \<Rightarrow> nat option
     \<Rightarrow> RegexCache \<Rightarrow> (JsError + ParsedClassname) \<times> RegexCache" where
  "parseClassname K rx nm arr config idx cachedRegexes =
     (let leading = takeWhile isJsSpace nm;
          trailing = rev (takeWhile isJsSpace (rev nm));
          core = jsSubstring (length leading) (length nm - length trailing) nm;
          variants = getPrefix core;
          classSuffix = getSuffix core
      in case parseLoop K rx classSuffix config None arr cachedRegexes of
           (Inl e, cachedRegexes) \<Rightarrow> (Inl e, cachedRegexes)
         | (Inr slot, cachedRegexes) \<Rightarrow>
             (let v = (case slot of None \<Rightarrow> [] | Some m \<Rightarrow> leafValue m);
                  off = (if startsWith ''-'' v then 1 else 0);
                  b = drop (length variants + off)
                        (take (nat (max 0 (int (length core) - int (length v) + int off))) core)
              in (Inr \<lparr> index = idx,
                        name = core,
                        variants = variants,
                        parentType = (case slot of
                                        None \<Rightarrow> []
                                      | Some m \<Rightarrow> (case group' m of None \<Rightarrow> [] | Some g \<Rightarrow> g)),
                        body = b,
                        value' = v,
                        shorthand = (case slot of
                                       None \<Rightarrow> []
                                     | Some m \<Rightarrow> (case nodeShorthand (leaf m) of
                                                    None \<Rightarrow> [] | Some s \<Rightarrow> s)),
                        leading = leading,
                        trailing = trailing,
                        important = startsWith ''!'' b \<rparr>, cachedRegexes)))"


section \<open>rules/enforces-shorthand.ts\<close>

datatype ShorthandMode = Exact | ByValue

record ComplexEquivalence =
  needles :: "string list"
  shorthandFor :: string
  mode :: ShorthandMode

definition placeContentOptions :: "string list" where
  "placeContentOptions =
     [''center'', ''start'', ''end'', ''between'', ''around'', ''evenly'', ''baseline'', ''stretch'']"

definition placeItemsOptions :: "string list" where
  "placeItemsOptions = [''start'', ''end'', ''center'', ''stretch'']"

definition placeSelfOptions :: "string list" where
  "placeSelfOptions = [''auto'', ''start'', ''end'', ''center'', ''stretch'']"

definition complexEquivalences :: "ComplexEquivalence list" where
  "complexEquivalences =
     [\<lparr> needles = [''overflow-hidden'', ''text-ellipsis'', ''whitespace-nowrap''],
        shorthandFor = ''truncate'', mode = Exact \<rparr>,
      \<lparr> needles = [''w-'', ''h-''], shorthandFor = ''size-'', mode = ByValue \<rparr>]
     @ map (\<lambda>opt. \<lparr> needles = [''content-'' @ opt, ''justify-'' @ opt],
                     shorthandFor = ''place-content-'' @ opt, mode = Exact \<rparr>) placeContentOptions
     @ map (\<lambda>opt. \<lparr> needles = [''items-'' @ opt, ''justify-items-'' @ opt],
                     shorthandFor = ''place-items-'' @ opt, mode = Exact \<rparr>) placeItemsOptions
     @ map (\<lambda>opt. \<lparr> needles = [''self-'' @ opt, ''justify-self-'' @ opt],
                     shorthandFor = ''place-self-'' @ opt, mode = Exact \<rparr>) placeSelfOptions"

text \<open>\<^verbatim>\<open>s.includes(t)\<close>\<close>

definition jsIncludes :: "string \<Rightarrow> string \<Rightarrow> bool" where
  "jsIncludes t s \<longleftrightarrow> findSub t s \<noteq> None"

text \<open>
  Reading a property also finds what a value inherits from the built-in prototypes of the
  host.  The names of the members of \<^verbatim>\<open>Object.prototype\<close>, \<^verbatim>\<open>String.prototype\<close> and
  \<^verbatim>\<open>Number.prototype\<close> depend on the host and are a parameter; \<^verbatim>\<open>length\<close>, which
  every string has of its own, is not listed.  Each member is a function, except
  \<^verbatim>\<open>__proto__\<close>, which reads as the prototype of the value it is read on; so each member
  counts as true.
\<close>

record HostPrototypes =
  objectMembers :: "string list"
  stringMembers :: "string list"
  numberMembers :: "string list"

text \<open>
  What a property read gives: a value of the theme, or the member \<open>key\<close> that was found
  on the prototype \<open>p\<close> (for \<^verbatim>\<open>__proto__\<close>: the prototype \<open>p\<close> itself).
\<close>

datatype PropValue = Data ThemeValue | Builtin string string

definition prototypeOf :: "ThemeValue \<Rightarrow> string" where
  "prototypeOf v =
     (case v of
        TString _ \<Rightarrow> ''String.prototype''
      | TNumber _ \<Rightarrow> ''Number.prototype''
      | _ \<Rightarrow> ''Object.prototype'')"

definition membersOf :: "HostPrototypes \<Rightarrow> string \<Rightarrow> string list" where
  "membersOf H p =
     (if p = ''String.prototype'' then stringMembers H
      else if p = ''Number.prototype'' then numberMembers H
      else objectMembers H)"

text \<open>The index that a key denotes in a string of length \<open>n\<close>, if it denotes one.\<close>

definition indexOfKey :: "nat \<Rightarrow> string \<Rightarrow> nat option" where
  "indexOfKey n key = List.find (\<lambda>i. showNat i = key) [0..<n]"

text \<open>The property \<open>key\<close> that a value has of its own, if it has one.\<close>

definition ownProp :: "ThemeValue \<Rightarrow> string \<Rightarrow> ThemeValue option" where
  "ownProp v key =
     (case v of
        TScale sc \<Rightarrow> map_of sc key
      | TString s \<Rightarrow>
          (if key = ''length'' then Some (TNumber (Finite (of_nat (length s))))
           else map_option (\<lambda>i. TString [s ! i]) (indexOfKey (length s) key))
      | _ \<Rightarrow> None)"

text \<open>
  The property \<open>key\<close> that a value finds on its chain of prototypes: its own prototype
  first, then \<^verbatim>\<open>Object.prototype\<close>; \<^verbatim>\<open>undefined\<close> when neither has the member.
\<close>

definition inheritedProp :: "HostPrototypes \<Rightarrow> ThemeValue \<Rightarrow> string \<Rightarrow> PropValue" where
  "inheritedProp H v key =
     (let p = prototypeOf v
      in if key \<in> set (membersOf H p) then Builtin p key
         else if key \<in> set (objectMembers H)
           then (if key = ''__proto__'' then Builtin p key else Builtin ''Object.prototype'' key)
         else Data TNullish)"

text \<open>
  \<^verbatim>\<open>v[key]\<close> on a value of the theme.  Reading a property of \<^verbatim>\<open>undefined\<close> or
  \<^verbatim>\<open>null\<close> throws; otherwise the read gives the own property, if there is one, and
  else the inherited one.
\<close>

definition readProp :: "HostPrototypes \<Rightarrow> ThemeValue \<Rightarrow> string \<Rightarrow> JsError + PropValue" where
  "readProp H v key =
     (case v of
        TNullish \<Rightarrow> Inl TypeError
      | _ \<Rightarrow> Inr (case ownProp v key of
                      Some x \<Rightarrow> Data x
                    | None \<Rightarrow> inheritedProp H v key))"

definition truthyProp :: "PropValue \<Rightarrow> bool" where
  "truthyProp x = (case x of Data v \<Rightarrow> truthy v | Builtin _ _ \<Rightarrow> True)"

text \<open>
  \<^verbatim>\<open>a === b\<close> on values of the theme.  Two nested scales are the same object or not,
  which their contents do not tell: \<open>sameObject\<close> decides it.
\<close>

definition strictEquals ::
  "(ThemeValue \<Rightarrow> ThemeValue \<Rightarrow> bool) \<Rightarrow> ThemeValue \<Rightarrow> ThemeValue \<Rightarrow> bool" where
  "strictEquals sameObject a b =
     (case (a, b) of
        (TString x, TString y) \<Rightarrow> x = y
      | (TNumber x, TNumber y) \<Rightarrow> x = y \<and> x \<noteq> NaN
      | (TScale x, TScale y) \<Rightarrow> sameObject a b
      | (TNullish, TNullish) \<Rightarrow> True
      | _ \<Rightarrow> False)"

text \<open>
  \<^verbatim>\<open>a === b\<close> on the results of two reads of the same key.  Members of the built-in
  prototypes are the same object when they were found on the same prototype; a value of
  the theme is never a member of a prototype.
\<close>

definition strictEqualsProp ::
  "(ThemeValue \<Rightarrow> ThemeValue \<Rightarrow> bool) \<Rightarrow> PropValue \<Rightarrow> PropValue \<Rightarrow> bool" where
  "strictEqualsProp sameObject a b =
     (case (a, b) of
        (Data x, Data y) \<Rightarrow> strictEquals sameObject x y
      | (Builtin p k, Builtin q l) \<Rightarrow> p = q \<and> k = l
      | _ \<Rightarrow> False)"

text \<open>
  The callback of \<^verbatim>\<open>remaining.filter\<close> that selects the class names of an input set.
  \<^verbatim>\<open>theme.size\<close>, \<^verbatim>\<open>theme.width\<close> and \<^verbatim>\<open>theme.height\<close> are properties of the theme
  itself: no prototype has a member of one of these names.
\<close>

definition inInputSet ::
  "HostPrototypes \<Rightarrow> (ThemeValue \<Rightarrow> ThemeValue \<Rightarrow> bool) \<Rightarrow> GroupTailwindConfig \<Rightarrow> ShorthandMode
     \<Rightarrow> string list \<Rightarrow> ParsedClassname \<Rightarrow> JsError + bool" where
  "inInputSet H sameObject mergedConfig md inputSet remainingClass =
     (if md = Exact then
        Inr (\<exists>inputClass\<in>set inputSet. jsIncludes inputClass (name remainingClass))
      else
        (let bodyMatch = (\<exists>inputClassPattern\<in>set inputSet.
                            prefix mergedConfig @ inputClassPattern = body remainingClass);
             th = theme mergedConfig;
             v = value' remainingClass
         in case readProp H (lookupKey th ''size'') v of
              Inl e \<Rightarrow> Inl e
            | Inr sizeValue \<Rightarrow>
                (let width = lookupKey th ''width'';
                     height = lookupKey th ''height'';
                     wValue = (case readProp H width v of Inr x \<Rightarrow> x | Inl _ \<Rightarrow> Data TNullish);
                     hValue = (case readProp H height v of Inr x \<Rightarrow> x | Inl _ \<Rightarrow> Data TNullish)
                 in if \<not> truthyProp sizeValue \<or> \<not> truthy width \<or> \<not> truthyProp wValue
                       \<or> \<not> truthy height \<or> \<not> truthyProp hValue
                    then Inr False
                    else
                      (let sizeKeys = objectKeys (lookupKey th ''size'');
                           isSize = (jsIncludes ''h-'' (body remainingClass)
                                     \<or> jsIncludes ''w-'' (body remainingClass));
                           isValidSize = (v \<in> set sizeKeys);
                           fullMatch = (strictEqualsProp sameObject wValue hValue
                                        \<and> strictEqualsProp sameObject wValue sizeValue)
                       in Inr (bodyMatch \<and> \<not> (isSize \<and> \<not> isValidSize \<and> \<not> fullMatch))))))"

text \<open>\<^verbatim>\<open>xs.filter(f)\<close> for a callback that may throw.\<close>

fun filterE :: "('a \<Rightarrow> JsError + bool) \<Rightarrow> 'a list \<Rightarrow> JsError + 'a list" where
  "filterE f [] = Inr []"
| "filterE f (x # xs) =
     (case f x of
        Inl e \<Rightarrow> Inl e
      | Inr keep \<Rightarrow>
          (case filterE f xs of
             Inl e \<Rightarrow> Inl e
           | Inr ys \<Rightarrow> Inr (if keep then x # ys else ys)))"

text \<open>
  \<^verbatim>\<open>variantGroups\<close>: the map from keys to class names, in the order of insertion.
\<close>

fun buildVariantGroups ::
  "ShorthandMode \<Rightarrow> ParsedClassname list \<Rightarrow> ParsedClassname list
     \<Rightarrow> (string \<times> ParsedClassname list) list \<Rightarrow> (string \<times> ParsedClassname list) list" where
  "buildVariantGroups md elements [] variantGroups = variantGroups"
| "buildVariantGroups md elements (x # rest) variantGroups =
     (let val = (if md = ByValue then value' x else []);
          v = variants x @ (if important x then ''!'' else []) @ val
      in if v \<in> set (map fst variantGroups) then buildVariantGroups md elements rest variantGroups
         else buildVariantGroups md elements rest
                (variantGroups @
                   [(v, filter (\<lambda>c. variants c = variants x \<and> important c = important x
                                     \<and> (val = [] \<or> value' c = val)) elements)]))"

definition isValidKey :: "ShorthandMode \<Rightarrow> string list \<Rightarrow> ParsedClassname list \<Rightarrow> bool" where
  "isValidKey md inputSet classes =
     (let skip = (length classes < length inputSet);
          skip = (if md = ByValue \<and> card (set (map value' classes)) \<noteq> 1 then True else skip)
      in \<not> skip)"

text \<open>The numeric reading of an index in a comparison.\<close>

definition indexNumber :: "ParsedClassname \<Rightarrow> nat" where
  "indexNumber p = (case index p of None \<Rightarrow> 0 | Some i \<Rightarrow> i)"

text \<open>
  The state of the rule while it handles one string of class names: the class names not
  yet consumed, the validated ones and the reports.
\<close>

record ShorthandState =
  remaining :: "ParsedClassname list"
  validated :: "ParsedClassname list"
  troubles :: "(string list \<times> string) list"

text \<open>
  The loop over the valid keys of one equivalence.  \<open>parse\<close> stands for
  \<^verbatim>\<open>parseClassname\<close> with the target groups and the configuration of the rule.
\<close>

fun collapseValidKeys ::
  "(string \<Rightarrow> nat option \<Rightarrow> JsError + ParsedClassname) \<Rightarrow> GroupTailwindConfig
     \<Rightarrow> ComplexEquivalence \<Rightarrow> (string \<times> ParsedClassname list) list \<Rightarrow> ShorthandState
     \<Rightarrow> JsError + ShorthandState" where
  "collapseValidKeys parse mergedConfig eq [] st = Inr st"
| "collapseValidKeys parse mergedConfig eq ((k, candidates) # rest) st =
     (case candidates of
        [] \<Rightarrow> Inl TypeError
      | first # _ \<Rightarrow>
          (let imp = (if important first then ''!'' else []);
               classValue = (if mode eq = ByValue then value' first else []);
               patchedClassname =
                 variants first @ imp @ prefix mergedConfig @ shorthandFor eq @ classValue
           in case parse patchedClassname (index first) of
                Inl e \<Rightarrow> Inl e
              | Inr validatedClassname \<Rightarrow>
                  collapseValidKeys parse mergedConfig eq rest
                    \<lparr> remaining = filter (\<lambda>p. p \<notin> set candidates) (remaining st),
                      validated = validated st @ [validatedClassname],
                      troubles = troubles st @ [(map name candidates, patchedClassname)] \<rparr>))"

text \<open>One round of the loop over the complex equivalences.\<close>

definition collapseEquivalence ::
  "HostPrototypes \<Rightarrow> (ThemeValue \<Rightarrow> ThemeValue \<Rightarrow> bool) \<Rightarrow> (string \<Rightarrow> nat option \<Rightarrow> JsError + ParsedClassname)
     \<Rightarrow> GroupTailwindConfig \<Rightarrow> ComplexEquivalence \<Rightarrow> ShorthandState \<Rightarrow> JsError + ShorthandState" where
  "collapseEquivalence H sameObject parse mergedConfig eq st =
     (if length (remaining st) < length (needles eq) then Inr st
      else
        (case filterE (inInputSet H sameObject mergedConfig (mode eq) (needles eq)) (remaining st) of
           Inl e \<Rightarrow> Inl e
         | Inr parsedElementsInInputSet \<Rightarrow>
             (let variantGroups =
                    buildVariantGroups (mode eq) parsedElementsInInputSet parsedElementsInInputSet [];
                  validKeys = filter (\<lambda>(k, classes). isValidKey (mode eq) (needles eq) classes)
                                variantGroups
              in collapseValidKeys parse mergedConfig eq validKeys st)))"

fun collapseEquivalences ::
  "HostPrototypes \<Rightarrow> (ThemeValue \<Rightarrow> ThemeValue \<Rightarrow> bool) \<Rightarrow> (string \<Rightarrow> nat option \<Rightarrow> JsError + ParsedClassname)
     \<Rightarrow> GroupTailwindConfig \<Rightarrow> ComplexEquivalence list \<Rightarrow> ShorthandState \<Rightarrow> JsError + ShorthandState" where
  "collapseEquivalences H sameObject parse mergedConfig [] st = Inr st"
| "collapseEquivalences H sameObject parse mergedConfig (eq # eqs) st =
     (case collapseEquivalence H sameObject parse mergedConfig eq st of
        Inl e \<Rightarrow> Inl e
      | Inr st' \<Rightarrow> collapseEquivalences H sameObject parse mergedConfig eqs st')"

text \<open>
  \<^verbatim>\<open>node.members.find(f)\<close>: the rule takes the members of these nodes to be arrays; on
  a pattern template the call throws.
\<close>

definition membersArray :: "GroupNode \<Rightarrow> JsError + GroupNode list" where
  "membersArray n = (case members n of Nodes cs \<Rightarrow> Inr cs | Pattern _ \<Rightarrow> Inl TypeError)"

fun findMainGroup :: "string \<Rightarrow> GroupNode list \<Rightarrow> JsError + GroupNode option" where
  "findMainGroup pt [] = Inr None"
| "findMainGroup pt (obj # rest) =
     (case membersArray obj of
        Inl e \<Rightarrow> Inl e
      | Inr ms \<Rightarrow>
          (case List.find (\<lambda>m. nodeType m = pt) ms of
             Some _ \<Rightarrow> Inr (Some obj)
           | None \<Rightarrow> findMainGroup pt rest))"

definition getBodyByShorthand :: "GroupNode list \<Rightarrow> string \<Rightarrow> string \<Rightarrow> JsError + string" where
  "getBodyByShorthand targetGroupsArg pt sh =
     (case findMainGroup pt targetGroupsArg of
        Inl e \<Rightarrow> Inl e
      | Inr None \<Rightarrow> Inr []
      | Inr (Some mainGroup) \<Rightarrow>
          (case membersArray mainGroup of
             Inl e \<Rightarrow> Inl e
           | Inr ms \<Rightarrow>
               (case List.find (\<lambda>m. nodeType m = pt) ms of
                  None \<Rightarrow> Inr []
                | Some typeGroup \<Rightarrow>
                    (case membersArray typeGroup of
                       Inl e \<Rightarrow> Inl e
                     | Inr ts \<Rightarrow>
                         (case List.find (\<lambda>m. nodeShorthand m = Some sh) ts of
                            None \<Rightarrow> Inr []
                          | Some ty \<Rightarrow> Inr (case nodeBody ty of None \<Rightarrow> [] | Some b \<Rightarrow> b))))))"

definition isLR :: "ParsedClassname \<Rightarrow> bool" where
  "isLR c \<longleftrightarrow> shorthand c = ''l'' \<or> shorthand c = ''r''"

definition isTB :: "ParsedClassname \<Rightarrow> bool" where
  "isTB c \<longleftrightarrow> shorthand c = ''t'' \<or> shorthand c = ''b''"

text \<open>
  The loop that pushes the class names kept and, once, the clone that carries the patched
  name.
\<close>

fun keepOrReplace ::
  "ParsedClassname list \<Rightarrow> string \<Rightarrow> string \<Rightarrow> bool \<Rightarrow> ParsedClassname list \<Rightarrow> ParsedClassname list" where
  "keepOrReplace toBeKept patchedName sh replaced [] = []"
| "keepOrReplace toBeKept patchedName sh replaced (ref # rest) =
     (if \<exists>k\<in>set toBeKept. name k = name ref
      then ref # keepOrReplace toBeKept patchedName sh replaced rest
      else if \<not> replaced
      then ref\<lparr> name := patchedName, shorthand := sh \<rparr> # keepOrReplace toBeKept patchedName sh True rest
      else keepOrReplace toBeKept patchedName sh replaced rest)"

text \<open>
  The class names of one parent type that share variants, importance and value, when there
  are at least two of them: what is pushed to \<^verbatim>\<open>validated\<close> and to \<^verbatim>\<open>troubles\<close>.
\<close>

definition collapseSameVariantAndValue ::
  "GroupNode list \<Rightarrow> GroupTailwindConfig \<Rightarrow> string \<Rightarrow> ParsedClassname \<Rightarrow> ParsedClassname list
     \<Rightarrow> JsError + ParsedClassname list \<times> (string list \<times> string) list" where
  "collapseSameVariantAndValue targetGroups mergedConfig pt cls sameVariantAndValue =
     (let shortHands = set (map shorthand sameVariantAndValue);
          supportCorners = (pt = ''Border Radius'');
          hasTL = (supportCorners \<and> (''all'' \<in> shortHands \<or> ''t'' \<in> shortHands \<or> ''tl'' \<in> shortHands));
          hasTR = (supportCorners \<and> (''all'' \<in> shortHands \<or> ''t'' \<in> shortHands \<or> ''tr'' \<in> shortHands));
          hasBR = (supportCorners \<and> (''all'' \<in> shortHands \<or> ''b'' \<in> shortHands \<or> ''br'' \<in> shortHands));
          hasBL = (supportCorners \<and> (''all'' \<in> shortHands \<or> ''b'' \<in> shortHands \<or> ''bl'' \<in> shortHands));
          hasT = (''t'' \<in> shortHands \<or> (hasTL \<and> hasTR));
          hasR = (''r'' \<in> shortHands \<or> (hasTR \<and> hasBR));
          hasB = (''b'' \<in> shortHands \<or> (hasBL \<and> hasBR));
          hasL = (''l'' \<in> shortHands \<or> (hasTL \<and> hasBL));
          hasX = (''x'' \<in> shortHands \<or> (hasL \<and> hasR));
          hasY = (''y'' \<in> shortHands \<or> (hasT \<and> hasB));
          hasAllProp = (''all'' \<in> shortHands);
          hasAllPropNoCorner = (hasY \<and> hasX);
          hasAllPropWithCorners = ((hasL \<and> hasR) \<or> (hasT \<and> hasB));
          hasAllEquivalent = (if \<not> supportCorners then hasAllPropNoCorner else hasAllPropWithCorners);
          hasAll = (hasAllProp \<or> hasAllEquivalent);
          imp = (if important cls then ''!'' else []);
          isNegative = startsWith ''-'' (value' cls);
          minus = (if isNegative then ''-'' else []);
          absoluteVal = (if isNegative then drop 1 (value' cls) else value' cls);
          val = (if absoluteVal \<noteq> [] then ''-'' @ absoluteVal else [])
      in
      if hasAll then
        (case getBodyByShorthand targetGroups pt ''all'' of
           Inl e \<Rightarrow> Inl e
         | Inr all \<Rightarrow>
             (let patchedName = variants cls @ imp @ minus @ prefix mergedConfig @ all @ val
              in Inr ([cls\<lparr> name := patchedName, shorthand := ''all'' \<rparr>],
                      [(map name sameVariantAndValue, patchedName)])))
      else if hasY \<or> hasX then
        (let xOrY = (if hasX then ''x'' else ''y'')
         in case getBodyByShorthand targetGroups pt xOrY of
              Inl e \<Rightarrow> Inl e
            | Inr xOrYType \<Rightarrow>
                (let patchedName = variants cls @ imp @ minus @ prefix mergedConfig @ xOrYType @ val;
                     toBeReplaced = map name (filter (if hasX then isLR else isTB) sameVariantAndValue);
                     toBeKept = filter (if hasY then isLR else isTB) sameVariantAndValue
                 in Inr (keepOrReplace toBeKept patchedName xOrY False sameVariantAndValue,
                         [(toBeReplaced, patchedName)])))
      else if supportCorners \<and> (hasT \<or> hasR \<or> hasB \<or> hasL) then
        (let side = (if hasT then ''t'' else if hasR then ''r'' else if hasB then ''b'' else ''l'')
         in case getBodyByShorthand targetGroups pt side of
              Inl e \<Rightarrow> Inl e
            | Inr sideBody \<Rightarrow>
                (let patchedName = variants cls @ imp @ minus @ prefix mergedConfig @ sideBody @ val;
                     replacedTags = (if hasT then [''tl'', ''tr''] else if hasR then [''tr'', ''br'']
                                     else if hasB then [''bl'', ''br''] else [''tl'', ''bl'']);
                     keptTags = (if hasT then [''bl'', ''br''] else if hasR then [''tl'', ''bl'']
                                 else if hasB then [''tl'', ''tr''] else [''tr'', ''br'']);
                     toBeReplaced = map name (filter (\<lambda>c. shorthand c \<in> set replacedTags) sameVariantAndValue);
                     toBeKept = filter (\<lambda>c. shorthand c \<in> set keptTags) sameVariantAndValue
                 in Inr (keepOrReplace toBeKept patchedName side False sameVariantAndValue,
                         [(toBeReplaced, patchedName)])))
      else Inr (sameVariantAndValue, []))"

text \<open>The loop over the class names of one parent type.\<close>

fun collapseSameType ::
  "GroupNode list \<Rightarrow> GroupTailwindConfig \<Rightarrow> string \<Rightarrow> ParsedClassname list \<Rightarrow> string list
     \<Rightarrow> ParsedClassname list \<Rightarrow> JsError + ParsedClassname list \<times> (string list \<times> string) list" where
  "collapseSameType targetGroups mergedConfig pt sameType checkedVariantsValue [] = Inr ([], [])"
| "collapseSameType targetGroups mergedConfig pt sameType checkedVariantsValue (cls # rest) =
     (let key = variants cls @ (if important cls then ''!'' else []) @ value' cls
      in if key \<in> set checkedVariantsValue
         then collapseSameType targetGroups mergedConfig pt sameType checkedVariantsValue rest
         else
           (let checkedVariantsValue = checkedVariantsValue @ [key];
                sameVariantAndValue =
                  filter (\<lambda>v. \<not> (variants v \<noteq> variants cls \<or> value' v \<noteq> value' cls
                                   \<or> important v \<noteq> important cls)) sameType;
                here =
                  (if length sameVariantAndValue = 1 then Inr ([cls], [])
                   else if sameVariantAndValue = [] then Inr ([], [])
                   else collapseSameVariantAndValue targetGroups mergedConfig pt cls sameVariantAndValue)
            in case here of
                 Inl e \<Rightarrow> Inl e
               | Inr (vs, ts) \<Rightarrow>
                   (case collapseSameType targetGroups mergedConfig pt sameType checkedVariantsValue rest of
                      Inl e \<Rightarrow> Inl e
                    | Inr (vs', ts') \<Rightarrow> Inr (vs @ vs', ts @ ts'))))"

text \<open>The loop over the remaining class names, one parent type after the other.\<close>

fun collapseSameGroups ::
  "GroupNode list \<Rightarrow> GroupTailwindConfig \<Rightarrow> ParsedClassname list \<Rightarrow> string list
     \<Rightarrow> ParsedClassname list \<Rightarrow> JsError + ParsedClassname list \<times> (string list \<times> string) list" where
  "collapseSameGroups targetGroups mergedConfig rem checkedGroups [] = Inr ([], [])"
| "collapseSameGroups targetGroups mergedConfig rem checkedGroups (classname # rest) =
     (if parentType classname = [] then
        (case collapseSameGroups targetGroups mergedConfig rem checkedGroups rest of
           Inl e \<Rightarrow> Inl e
         | Inr (vs, ts) \<Rightarrow> Inr (classname # vs, ts))
      else if parentType classname \<in> set checkedGroups then
        collapseSameGroups targetGroups mergedConfig rem checkedGroups rest
      else
        (let checkedGroups = checkedGroups @ [parentType classname];
             sameType = filter (\<lambda>c. parentType c = parentType classname) rem
         in case collapseSameType targetGroups mergedConfig (parentType classname) sameType [] sameType of
              Inl e \<Rightarrow> Inl e
            | Inr (vs, ts) \<Rightarrow>
                (case collapseSameGroups targetGroups mergedConfig rem checkedGroups rest of
                   Inl e \<Rightarrow> Inl e
                 | Inr (vs', ts') \<Rightarrow> Inr (vs @ vs', ts @ ts'))))"

text \<open>
  \<^verbatim>\<open>validated.sort((a, b) => a.index < b.index ? -1 : 1)\<close>, as an insertion sort; the
  indices of the validated class names differ from each other.
\<close>

fun insertByIndex :: "ParsedClassname \<Rightarrow> ParsedClassname list \<Rightarrow> ParsedClassname list" where
  "insertByIndex a [] = [a]"
| "insertByIndex a (b # bs) =
     (if indexNumber a < indexNumber b then a # b # bs else b # insertByIndex a bs)"

definition sortByIndex :: "ParsedClassname list \<Rightarrow> ParsedClassname list" where
  "sortByIndex xs = foldr insertByIndex xs []"

text \<open>
  The rule on the parsed class names of one string, up to the sorted list of validated
  class names and the reports; the text of the fix is built from these.
\<close>

definition shorthandCandidates ::
  "HostPrototypes \<Rightarrow> (ThemeValue \<Rightarrow> ThemeValue \<Rightarrow> bool) \<Rightarrow> (string \<Rightarrow> nat option \<Rightarrow> JsError + ParsedClassname)
     \<Rightarrow> GroupNode list \<Rightarrow> GroupTailwindConfig \<Rightarrow> ParsedClassname list
     \<Rightarrow> JsError + ParsedClassname list \<times> (string list \<times> string) list" where
  "shorthandCandidates H sameObject parse targetGroups mergedConfig parsed =
     (case collapseEquivalences H sameObject parse mergedConfig complexEquivalences
             \<lparr> remaining = parsed, validated = [], troubles = [] \<rparr> of
        Inl e \<Rightarrow> Inl e
      | Inr st \<Rightarrow>
          (case collapseSameGroups targetGroups mergedConfig (remaining st) [] (remaining st) of
             Inl e \<Rightarrow> Inl e
           | Inr (vs, ts) \<Rightarrow> Inr (sortByIndex (validated st @ vs), troubles st @ ts)))"


section \<open>Auxiliary notions of the proofs\<close>

text \<open>
  A list of pieces alternates when every piece is non-empty and consists either of
  separators only or of other characters only, the two kinds taking turns; \<open>b\<close> tells
  whether the first piece is a run of separators.
\<close>

fun alternating :: "bool \<Rightarrow> string list \<Rightarrow> bool" where
  "alternating b [] = True"
| "alternating b (x # xs) = (x \<noteq> [] \<and> (\<forall>c\<in>set x. isSeparator c = b) \<and> alternating (\<not> b) xs)"

fun wsFirst :: "string list \<Rightarrow> bool" where
  "wsFirst [] = True"
| "wsFirst [w] = False"
| "wsFirst (w # t # r) = (w \<noteq> [] \<and> (\<forall>c\<in>set w. isSeparator c) \<and> (\<forall>c\<in>set t. \<not> isSeparator c)
      \<and> (t = [] \<longrightarrow> r = []) \<and> wsFirst r)"

definition dropEmptyLast :: "string list \<Rightarrow> string list" where
  "dropEmptyLast xs = (if lastOf xs = Some [] then butlast xs else xs)"

text \<open>
  Removal of adjacent duplicates as a recursion over the class names after the one seen
  last (\<open>p\<close>), the joining whitespace of each class name at the head of the second list.
\<close>

fun dedupSpec :: "string \<Rightarrow> string list \<Rightarrow> string list \<Rightarrow> string list \<times> string list" where
  "dedupSpec p [] ws = ([], ws)"
| "dedupSpec p (c # cs) ws =
     (let (cs', ws') = dedupSpec c cs (tl ws)
      in if c = p then (cs', ws') else (c # cs', take 1 ws @ ws'))"

text \<open>
  The leaves of the taxonomy in depth-first order, each with the type of its parent
  (none for a leaf of the top level).
\<close>

fun leavesOf :: "string option \<Rightarrow> GroupNode \<Rightarrow> (string option \<times> GroupNode) list"
and leavesOfList :: "string option \<Rightarrow> GroupNode list \<Rightarrow> (string option \<times> GroupNode) list" where
  "leavesOf parent (GroupNode t (Pattern p) ck sh b d) = [(parent, GroupNode t (Pattern p) ck sh b d)]"
| "leavesOf parent (GroupNode t (Nodes cs) ck sh b d) = leavesOfList (Some t) cs"
| "leavesOfList parent [] = []"
| "leavesOfList parent (c # cs) = leavesOf parent c @ leavesOfList parent cs"

definition allLeaves :: "GroupNode list \<Rightarrow> GroupNode list" where
  "allLeaves groupsConfig = map snd (leavesOfList None groupsConfig)"

definition patternOf :: "GroupNode \<Rightarrow> string" where
  "patternOf n = (case members n of Pattern p \<Rightarrow> p | Nodes _ \<Rightarrow> [])"

definition isLeaf :: "GroupNode \<Rightarrow> bool" where
  "isLeaf n = (case members n of Pattern _ \<Rightarrow> True | Nodes _ \<Rightarrow> False)"

text \<open>A taxonomy of at most three levels: every node of the third level is a leaf.\<close>

definition threeLevels :: "GroupNode list \<Rightarrow> bool" where
  "threeLevels groupsConfig =
     (\<forall>g\<in>set groupsConfig.
        case members g of
          Pattern _ \<Rightarrow> True
        | Nodes groupMembers \<Rightarrow>
            (\<forall>prop\<in>set groupMembers.
               case members prop of
                 Pattern _ \<Rightarrow> True
               | Nodes propMembers \<Rightarrow> (\<forall>n\<in>set propMembers. isLeaf n)))"

text \<open>
  A value that is numeric-parseable or a \<^verbatim>\<open>calc\<close> expression, and a key without its
  leading hyphen.
\<close>

definition numericOrCalc :: "ThemeValue \<Rightarrow> bool" where
  "numericOrCalc v =
     (case v of
        TString s \<Rightarrow> \<not> parseFloatIsNaN s \<or> startsWith ''calc'' s
      | TNumber n \<Rightarrow> n \<noteq> NaN
      | _ \<Rightarrow> False)"

definition stripMinus :: "string \<Rightarrow> string" where
  "stripMinus k = (if startsWith ''-'' k then drop 1 k else k)"

text \<open>
  The pattern that \<^verbatim>\<open>patchRegex\<close> returns for a template in a state of the cache, and
  the outcome of the anchored test of a leaf on a subject.
\<close>

definition compiled :: "ColorConsts \<Rightarrow> GroupTailwindConfig \<Rightarrow> RegexCache \<Rightarrow> string \<Rightarrow> string" where
  "compiled K config \<sigma> re = fst (patchRegex K re config \<sigma>)"

definition leafTest ::
  "ColorConsts \<Rightarrow> RegExpEngine \<Rightarrow> GroupTailwindConfig \<Rightarrow> RegexCache \<Rightarrow> string \<Rightarrow> GroupNode \<Rightarrow> RxResult" where
  "leafTest K rx config \<sigma> subject l = rx (''^('' @ compiled K config \<sigma> (patternOf l) @ '')$'') subject"

text \<open>
  The search in the words of the specification: the first leaf that matches wins; a
  pattern that does not compile ends the search with the error.
\<close>

fun firstMatch ::
  "(GroupNode \<Rightarrow> RxResult) \<Rightarrow> (string option \<times> GroupNode) list \<Rightarrow> JsError + MatchedGroup option" where
  "firstMatch test [] = Inr None"
| "firstMatch test ((p, l) # rest) =
     (case test l of
        RxSyntaxError \<Rightarrow> Inl SyntaxError
      | RxNoMatch \<Rightarrow> firstMatch test rest
      | RxMatch g \<Rightarrow> Inr (Some \<lparr> group' = p, leaf = l, leafValue = capturedValue g \<rparr>))"

text \<open>The class name without the whitespace around it, as \<^verbatim>\<open>parseClassname\<close> computes it.\<close>

definition classCore :: "string \<Rightarrow> string" where
  "classCore nm =
     jsSubstring (length (takeWhile isJsSpace nm))
       (length nm - length (rev (takeWhile isJsSpace (rev nm)))) nm"

text \<open>The text a named group captured, if the group took part in the match.\<close>

definition namedCapture :: "(string \<times> string) list option \<Rightarrow> string \<Rightarrow> string option" where
  "namedCapture groups n = (case groups of None \<Rightarrow> None | Some g \<Rightarrow> map_of g n)"

text \<open>
  The equivalence of widths and heights with sizes.  \<open>propOf\<close> is the result of reading
  the key \<open>k\<close> on the scale \<open>scale\<close> of the theme (\<^verbatim>\<open>undefined\<close> when there is no such
  scale).  \<open>sizeEntry\<close> holds when the reads of \<open>k\<close> on the size, width and height scales
  all count as true.  \<open>takesPart\<close> is the condition under which a value takes part in the
  equivalence: \<open>sizeEntry\<close>, and the value is a key of the size scale or the three reads
  give the same value.
\<close>

definition sizeEquivalence :: ComplexEquivalence where
  "sizeEquivalence = \<lparr> needles = [''w-'', ''h-''], shorthandFor = ''size-'', mode = ByValue \<rparr>"




text \<open>
  The keys of a placeholder in the words of the specification: for a negative placeholder
  the keys of the scale whose value parses as a number or starts with \<open>calc\<close>, without
  their leading minus sign; for a positive one the keys that do not start with a minus
  sign.  \<open>substitutePlaceholder\<close> is one round of the substitution with these keys: the
  three special placeholders and a placeholder whose scale has no keys get the generic
  options, a placeholder without accepted keys stays, and every other one is replaced by
  the options of its accepted keys.
\<close>

definition negativeKeys :: "TailwindThemeScale \<Rightarrow> string list" where
  "negativeKeys sc = map stripMinus (filter (\<lambda>k. numericOrCalc (lookupKey sc k)) (map fst sc))"

definition positiveKeys :: "TailwindThemeScale \<Rightarrow> string list" where
  "positiveKeys sc = filter (\<lambda>k. \<not> startsWith ''-'' k) (map fst sc)"

definition substitutePlaceholder ::
  "ColorConsts \<Rightarrow> GroupTailwindConfig \<Rightarrow> string \<Rightarrow> string \<Rightarrow> string" where
  "substitutePlaceholder K config replaced prop =
     (let sc = getThemeScale config (stripMinus prop);
          keys = (if startsWith ''-'' prop then negativeKeys sc else positiveKeys sc)
      in if prop \<in> {''dark'', ''arbitraryProperties'', ''backgroundImageUrl''} \<or> map fst sc = []
         then jsReplaceFirst (''${'' @ prop @ ''}'') (generateOptions K (stripMinus prop) [] config) replaced
         else if keys = [] then replaced
         else jsReplaceFirst (''${'' @ prop @ ''}'') (generateOptions K (stripMinus prop) keys config)
                replaced)"

text \<open>The name of the shorthand that replaces a class name, for the body \<open>b\<close> of the shorthand.\<close>

definition patchedShorthand :: "GroupTailwindConfig \<Rightarrow> ParsedClassname \<Rightarrow> string \<Rightarrow> string" where
  "patchedShorthand c cls b =
     variants cls @ (if important cls then ''!'' else [])
       @ (if startsWith ''-'' (value' cls) then ''-'' else [])
       @ prefix c @ b
       @ (let a = (if startsWith ''-'' (value' cls) then drop 1 (value' cls) else value' cls)
          in if a \<noteq> [] then ''-'' @ a else [])"


section \<open>Example data\<close>

text \<open>Values for the constants of util/types/color.ts, which is not among the sources.\<close>

definition exampleColors :: ColorConsts where
  "exampleColors =
     \<lparr> cssNamedColors = [''black'', ''white''],
       mergedColorValues = [''#[0-9a-f]{6}''],
       RGBAPercentages = ''rgba'',
       optionalColorPrefixedVar = ''var'',
       notHSLAPlusWildcard = ''nothsl'',
       mandatoryColorPrefixed = ''color:.{1,}'' \<rparr>"

definition emptyCache :: RegexCache where
  "emptyCache = (\<lambda>_. None)"

definition plainConfig :: GroupTailwindConfig where
  "plainConfig = \<lparr> address = 0, prefix = [], theme = [], darkMode = None \<rparr>"

text \<open>A configuration object at address \<open>a\<close> whose theme has the padding scale \<open>scale\<close>.\<close>

definition paddingConfig :: "nat \<Rightarrow> (string \<times> ThemeValue) list \<Rightarrow> GroupTailwindConfig" where
  "paddingConfig a scale =
     \<lparr> address = a, prefix = [], theme = [(''padding'', TScale scale)], darkMode = None \<rparr>"

definition marginConfig :: GroupTailwindConfig where
  "marginConfig =
     \<lparr> address = 1, prefix = [],
       theme = [(''margin'', TScale [(''4'', TString ''1rem''), (''auto'', TString ''auto''),
                                   (''-px'', TString ''-1px''), (''c'', TString ''calc(1px + 2px)''),
                                   (''DEFAULT'', TString ''0'')])],
       darkMode = None \<rparr>"

text \<open>
  A taxonomy whose patterns have no placeholders, and an engine that answers for the
  compiled patterns of this taxonomy as the engine of the host does: an optional
  exclamation mark, the body, and the captured run of digits (or, for the third pattern, of
  any characters but line terminators).  It finds no match for any other pattern.
\<close>

definition exampleGroups :: "GroupNode list" where
  "exampleGroups =
     [GroupNode ''Spacing'' (Nodes
        [GroupNode ''Padding'' (Nodes
           [GroupNode ''padding-x'' (Pattern ''px-(?<value>[0-9]*)'')
              (Some ''padding'') (Some ''x'') (Some ''px'') None,
            GroupNode ''padding'' (Pattern ''p-(?<value>[0-9]*)'')
              (Some ''padding'') (Some ''all'') (Some ''p'') None,
            GroupNode ''padding-any'' (Pattern ''p-(?<value>.*)'') None None None None])
           None None None None,
         GroupNode ''Margin'' (Nodes
           [GroupNode ''margin'' (Pattern ''m-(?<value>[0-9]*)|-m-(?<negativeValue>[0-9]*)'')
              (Some ''margin'') (Some ''all'') (Some ''m'') None])
           None None None None])
        None None None None]"

definition stripBang :: "string \<Rightarrow> string" where
  "stripBang s = (if startsWith ''!'' s then drop 1 s else s)"

definition exampleEngine :: RegExpEngine where
  "exampleEngine source subject =
     (let s = stripBang subject in
      if source = raw ''^(~!?(px-(?<value>[0-9]*)))$'' then
        (if startsWith ''px-'' s \<and> list_all isDigit (drop 3 s)
         then RxMatch (Some [(''value'', drop 3 s)]) else RxNoMatch)
      else if source = raw ''^(~!?(p-(?<value>[0-9]*)))$'' then
        (if startsWith ''p-'' s \<and> list_all isDigit (drop 2 s)
         then RxMatch (Some [(''value'', drop 2 s)]) else RxNoMatch)
      else if source = raw ''^(~!?(p-(?<value>.*)))$'' then
        (if startsWith ''p-'' s \<and> list_all (\<lambda>c. c \<noteq> CHR 0x0A \<and> c \<noteq> CHR 0x0D) (drop 2 s)
         then RxMatch (Some [(''value'', drop 2 s)]) else RxNoMatch)
      else if source = raw ''^(~!?(m-(?<value>[0-9]*)|-m-(?<negativeValue>[0-9]*)))$'' then
        (if startsWith ''m-'' s \<and> list_all isDigit (drop 2 s)
         then RxMatch (Some [(''value'', drop 2 s)])
         else if startsWith ''-m-'' s \<and> list_all isDigit (drop 3 s)
         then RxMatch (Some [(''negativeValue'', drop 3 s)])
         else RxNoMatch)
      else RxNoMatch)"

text \<open>A taxonomy of four levels.\<close>

definition deepGroups :: "GroupNode list" where
  "deepGroups =
     [GroupNode ''Spacing'' (Nodes
        [GroupNode ''Padding'' (Nodes
           [GroupNode ''padding-inline'' (Nodes
              [GroupNode ''padding-left'' (Pattern ''pl-${padding}'')
                 (Some ''padding'') (Some ''l'') (Some ''pl'') None])
              (Some ''padding'') None None None])
           None None None None])
        None None None None]"

text \<open>The margin group, with the tags and bodies of its leaves, and its parsed class names.\<close>

definition marginLeaf :: "string \<Rightarrow> string \<Rightarrow> string \<Rightarrow> GroupNode" where
  "marginLeaf b sh t =
     GroupNode t (Pattern (b @ ''-(?<value>${margin})|-'' @ b @ ''-(?<negativeValue>${-margin})''))
       (Some ''margin'') (Some sh) (Some b) None"

definition spacingGroups :: "GroupNode list" where
  "spacingGroups =
     [GroupNode ''Spacing'' (Nodes
        [GroupNode ''Margin'' (Nodes
           [marginLeaf ''m'' ''all'' ''margin'',
            marginLeaf ''mx'' ''x'' ''margin-x'',
            marginLeaf ''my'' ''y'' ''margin-y'',
            marginLeaf ''mt'' ''t'' ''margin-top'',
            marginLeaf ''mr'' ''r'' ''margin-right'',
            marginLeaf ''mb'' ''b'' ''margin-bottom'',
            marginLeaf ''ml'' ''l'' ''margin-left''])
           None None None None])
        None None None None]"

definition marginClass :: "nat \<Rightarrow> string \<Rightarrow> string \<Rightarrow> string \<Rightarrow> ParsedClassname" where
  "marginClass i b sh v =
     \<lparr> index = Some i, name = b @ ''-'' @ v, variants = [], parentType = ''Margin'',
       body = b @ ''-'', value' = v, shorthand = sh, leading = [], trailing = [],
       important = False \<rparr>"

definition sizingClass :: "nat \<Rightarrow> string \<Rightarrow> string \<Rightarrow> string \<Rightarrow> ParsedClassname" where
  "sizingClass i b pt v =
     \<lparr> index = Some i, name = b @ v, variants = [], parentType = pt,
       body = b, value' = v, shorthand = [], leading = [], trailing = [],
       important = False \<rparr>"

text \<open>
  A theme whose size, width and height scales all have the key 4, with three different
  values, and whose width and height scales alone have the key screen.
\<close>

definition sizeConfig :: GroupTailwindConfig where
  "sizeConfig =
     \<lparr> address = 0, prefix = [],
       theme = [(''size'', TScale [(''4'', TString ''1rem'')]),
                (''width'', TScale [(''4'', TString ''2rem''), (''screen'', TString ''100vw'')]),
                (''height'', TScale [(''4'', TString ''3rem''), (''screen'', TString ''100vh'')]),
                (''margin'', TScale [(''4'', TString ''1rem'')])],
       darkMode = None \<rparr>"

text \<open>
  A host whose \<^verbatim>\<open>Object.prototype\<close> has the twelve members of ECMAScript with its
  annex for web browsers, and whose \<^verbatim>\<open>Number.prototype\<close> and \<^verbatim>\<open>String.prototype\<close>
  have the members of ECMAScript 2023.
\<close>

definition exampleHost :: HostPrototypes where
  "exampleHost =
     \<lparr> objectMembers =
         [''constructor'', ''__defineGetter__'', ''__defineSetter__'', ''hasOwnProperty'',
          ''__lookupGetter__'', ''__lookupSetter__'', ''isPrototypeOf'', ''propertyIsEnumerable'',
          ''toString'', ''valueOf'', ''__proto__'', ''toLocaleString''],
       stringMembers =
         [''constructor'', ''anchor'', ''at'', ''big'', ''blink'', ''bold'', ''charAt'',
          ''charCodeAt'', ''codePointAt'', ''concat'', ''endsWith'', ''fontcolor'', ''fontsize'',
          ''fixed'', ''includes'', ''indexOf'', ''italics'', ''lastIndexOf'', ''link'',
          ''localeCompare'', ''match'', ''matchAll'', ''normalize'', ''padEnd'', ''padStart'',
          ''repeat'', ''replace'', ''replaceAll'', ''search'', ''slice'', ''small'', ''split'',
          ''strike'', ''sub'', ''substr'', ''substring'', ''sup'', ''startsWith'', ''toString'',
          ''trim'', ''trimStart'', ''trimLeft'', ''trimEnd'', ''trimRight'',
          ''toLocaleLowerCase'', ''toLocaleUpperCase'', ''toLowerCase'', ''toUpperCase'',
          ''valueOf''],
       numberMembers =
         [''constructor'', ''toExponential'', ''toFixed'', ''toLocaleString'', ''toPrecision'',
          ''toString'', ''valueOf''] \<rparr>"

text \<open>A parser that classifies nothing, and an identity of objects that never holds.\<close>

definition unclassified :: "string \<Rightarrow> nat option \<Rightarrow> JsError + ParsedClassname" where
  "unclassified s i =
     Inr \<lparr> index = i, name = s, variants = [], parentType = [], body = s, value' = [],
           shorthand = [], leading = [], trailing = [], important = False \<rparr>"

definition neverSame :: "ThemeValue \<Rightarrow> ThemeValue \<Rightarrow> bool" where
  "neverSame a b = False"


section \<open>Class names and whitespace of an attribute value\<close>

lemma interleave_filterIndex:
  "even i \<Longrightarrow> interleave (filterIndex (\<lambda>i. i mod 2 = 0) i xs) (filterIndex (\<lambda>i. i mod 2 \<noteq> 0) i xs) = xs"
proof (induction xs arbitrary: i rule: induct_list012)
  case 1 then show ?case by simp
next
  case (2 x) then show ?case by (simp add: even_iff_mod_2_eq_zero)
next
  case (3 x y zs)
  have e: "even (Suc (Suc i))" using 3 by simp
  have a: "i mod 2 = 0" "Suc i mod 2 \<noteq> 0" using 3(3) by presburger+
  show ?case using 3(1)[OF e] a by simp
qed


lemma concat_splitSeparator: "concat (splitSeparator s) = s"
proof (induction s rule: splitSeparator.induct)
  case (1 s)
  let ?rest = "dropWhile (\<lambda>c. \<not> isSeparator c) s"
  show ?case
  proof (cases "?rest = []")
    case True
    then have "splitSeparator s = [takeWhile (\<lambda>c. \<not> isSeparator c) s]"
      by (subst splitSeparator.simps) (simp add: Let_def)
    moreover have "takeWhile (\<lambda>c. \<not> isSeparator c) s = s" 
      using True takeWhile_dropWhile_id[of "\<lambda>c. \<not> isSeparator c" s] by simp
    ultimately show ?thesis by simp
  next
    case False
    have "splitSeparator s = takeWhile (\<lambda>c. \<not> isSeparator c) s # takeWhile isSeparator ?rest # splitSeparator (dropWhile isSeparator ?rest)"
      using False by (subst splitSeparator.simps) (simp add: Let_def)
    then have "concat (splitSeparator s) = takeWhile (\<lambda>c. \<not> isSeparator c) s @ takeWhile isSeparator ?rest @ concat (splitSeparator (dropWhile isSeparator ?rest))"
      by simp
    also have "\<dots> = takeWhile (\<lambda>c. \<not> isSeparator c) s @ takeWhile isSeparator ?rest @ dropWhile isSeparator ?rest"
      using 1[OF refl refl False] by simp
    finally show ?thesis by simp
  qed
qed
lemma dropWhile_no_sep_head: "dropWhile P xs = y # ys \<Longrightarrow> \<not> P y"
  using hd_dropWhile[of P xs] by auto

lemma splitSeparator_shape:
  "\<exists>p r. splitSeparator s = p # r \<and> (\<forall>c\<in>set p. \<not> isSeparator c) \<and> wsFirst r"
proof (induction s rule: splitSeparator.induct)
  case (1 s)
  define piece where "piece = takeWhile (\<lambda>c. \<not> isSeparator c) s"
  define rest where "rest = dropWhile (\<lambda>c. \<not> isSeparator c) s"
  have np: "\<forall>c\<in>set piece. \<not> isSeparator c" unfolding piece_def by (auto dest: set_takeWhileD)
  show ?case
  proof (cases "rest = []")
    case True
    then have "splitSeparator s = [piece]" unfolding rest_def piece_def
      by (subst splitSeparator.simps) (simp add: Let_def)
    then show ?thesis using np by simp
  next
    case False
    define w where "w = takeWhile isSeparator rest"
    define s' where "s' = dropWhile isSeparator rest"
    have eq: "splitSeparator s = piece # w # splitSeparator s'"
      using False unfolding rest_def piece_def w_def s'_def
      by (subst splitSeparator.simps) (simp add: Let_def)
    have "\<exists>p r. splitSeparator s' = p # r \<and> (\<forall>c\<in>set p. \<not> isSeparator c) \<and> wsFirst r"
      unfolding s'_def rest_def using False "1"[OF refl refl] unfolding rest_def by blast
    then obtain p r where pr: "splitSeparator s' = p # r"
      "\<forall>c\<in>set p. \<not> isSeparator c" "wsFirst r" by blast
    obtain c cs where rc: "rest = c # cs" using False by (cases rest) auto
    have "isSeparator c" using dropWhile_no_sep_head[of "\<lambda>c. \<not> isSeparator c" s c cs] rc rest_def by simp
    then have wne: "w \<noteq> []" unfolding w_def rc by simp
    have wsep: "\<forall>c\<in>set w. isSeparator c" unfolding w_def by (auto dest: set_takeWhileD)
    have "p = [] \<longrightarrow> r = []"
    proof
      assume pe: "p = []"
      show "r = []"
      proof (rule ccontr)
        assume "r \<noteq> []"
        then obtain w' t' r' where r: "r = w' # t' # r'" and w': "w' \<noteq> []" "\<forall>c\<in>set w'. isSeparator c"
          using pr(3) by (cases r rule: wsFirst.cases) simp_all
        obtain d ds where d: "w' = d # ds" using w'(1) by (cases w') auto
        have "concat (splitSeparator s') = s'" by (rule concat_splitSeparator)
        then have "s' = d # ds @ t' @ concat r'" using pr(1) pe r d by simp
        then have "\<not> isSeparator d" using dropWhile_no_sep_head[of isSeparator rest d] s'_def by simp
        then show False using w'(2) d by simp
      qed
    qed
    then have "wsFirst (w # p # r)" using wne wsep pr by simp
    then show ?thesis using eq pr(1) np by simp
  qed
qed
lemma wsFirst_alternating: "wsFirst r \<Longrightarrow> alternating True (dropEmptyLast r)"
proof (induction r rule: wsFirst.induct)
  case 1 then show ?case by (simp add: dropEmptyLast_def lastOf_def)
next
  case (2 w) then show ?case by simp
next
  case (3 w t r)
  show ?case
  proof (cases "r = []")
    case True
    then show ?thesis using 3(2) by (auto simp: dropEmptyLast_def lastOf_def)
  next
    case False
    then have tne: "t \<noteq> []" using 3(2) by auto
    have "dropEmptyLast (w # t # r) = w # t # dropEmptyLast r"
      using False by (simp add: dropEmptyLast_def lastOf_def)
    then show ?thesis using 3 tne by auto
  qed
qed


lemma extractParts_alternating:
  "\<exists>b. alternating b (extractParts s)"
proof -
  obtain p r where pr: "splitSeparator s = p # r" "\<forall>c\<in>set p. \<not> isSeparator c" "wsFirst r"
    using splitSeparator_shape by blast
  have alt: "alternating True (dropEmptyLast r)" using pr(3) by (rule wsFirst_alternating)
  show ?thesis
  proof (cases "p = []")
    case True
    then have "extractParts s = dropEmptyLast r"
      using pr(1) by (simp add: extractParts_def firstOf_def dropEmptyLast_def)
    then show ?thesis using alt by auto
  next
    case False
    have "dropEmptyLast (p # r) = p # dropEmptyLast r"
      using False by (simp add: dropEmptyLast_def lastOf_def)
    then have "extractParts s = p # dropEmptyLast r"
      using pr(1) False by (simp add: extractParts_def firstOf_def dropEmptyLast_def)
    then have "alternating False (extractParts s)" using alt pr(2) False by simp
    then show ?thesis by blast
  qed
qed

lemma concat_extractParts: "concat (extractParts s) = s"
proof -
  have a: "\<And>xs::string list. concat (if firstOf xs = Some [] then tl xs else xs) = concat xs"
    by (case_tac xs) (auto simp: firstOf_def)
  have b: "\<And>xs::string list. concat (if lastOf xs = Some [] then butlast xs else xs) = concat xs"
  proof -
    fix xs :: "string list"
    show "concat (if lastOf xs = Some [] then butlast xs else xs) = concat xs"
    proof (cases "lastOf xs = Some []")
      case True
      then have "xs \<noteq> []" "last xs = []" by (auto simp: lastOf_def split: if_splits)
      then have "xs = butlast xs @ [[]]" by (metis append_butlast_last_id)
      then have "concat xs = concat (butlast xs)" by (metis append_Nil2 concat.simps concat_append)
      then show ?thesis using True by simp
    qed simp
  qed
  show ?thesis unfolding extractParts_def Let_def
    by (simp only: a b concat_splitSeparator)
qed

lemma uniform_test:
  "x \<noteq> [] \<Longrightarrow> \<forall>c\<in>set x. isSeparator c = b \<Longrightarrow>
     list_ex isSeparator x = b \<and> isSeparator (hd x) = b \<and> isSeparator (last x) = b"
  by (cases x) (auto simp: list_ex_iff)

lemma alternating_first:
  assumes a: "alternating b xs" and ne: "xs \<noteq> []"
  shows "separatorTest (firstOf xs) = b \<and> isSeparator (hd (concat xs)) = b"
proof -
  obtain x ys where Cons: "xs = x # ys" using ne by (cases xs) auto
  have x: "x \<noteq> []" "\<forall>c\<in>set x. isSeparator c = b" using a Cons by simp_all
  then have u: "list_ex isSeparator x = b" "isSeparator (hd x) = b" using uniform_test[of x b] by simp_all
  have "hd (concat xs) = hd x" using Cons x(1) by simp
  then show ?thesis using u Cons by (simp add: separatorTest_def firstOf_def)
qed

lemma alternating_last:
  "alternating b xs \<Longrightarrow> xs \<noteq> [] \<Longrightarrow>
     separatorTest (lastOf xs) = (b = odd (length xs)) \<and>
     isSeparator (last (concat xs)) = (b = odd (length xs))"
proof (induction xs arbitrary: b rule: induct_list012)
  case 1 then show ?case by simp
next
  case (2 x)
  then show ?case using uniform_test[of x b] by (simp add: separatorTest_def lastOf_def)
next
  case (3 x y zs)
  have alt: "alternating (\<not> b) (y # zs)" using 3(3) by simp
  have yne: "y \<noteq> []" using 3(3) by simp
  from 3(2)[OF alt] have ih: "separatorTest (lastOf (y # zs)) = ((\<not> b) = odd (length (y # zs)))"
     "isSeparator (last (concat (y # zs))) = ((\<not> b) = odd (length (y # zs)))" by simp_all
  have l1: "lastOf (x # y # zs) = lastOf (y # zs)" by (simp add: lastOf_def)
  have cne: "concat (y # zs) \<noteq> []" using yne by simp
  have l2: "last (concat (x # y # zs)) = last (concat (y # zs))"
    using cne by (simp del: concat.simps add: concat.simps(2)[of x])
  show ?case unfolding l1 l2 ih by auto
qed

lemma alternating_filterIndex_even:
  "alternating b xs \<Longrightarrow>
     \<forall>x\<in>set (filterIndex (\<lambda>i. i mod 2 = 0) i xs). x \<noteq> [] \<and> (\<forall>c\<in>set x. isSeparator c = (b = even i))"
proof (induction xs arbitrary: b i)
  case Nil then show ?case by simp
next
  case (Cons x xs)
  have alt: "alternating (\<not> b) xs" using Cons.prems by simp
  have ih: "\<forall>x\<in>set (filterIndex (\<lambda>i. i mod 2 = 0) (Suc i) xs). x \<noteq> [] \<and> (\<forall>c\<in>set x. isSeparator c = (b = even i))"
    using Cons.IH[OF alt, of "Suc i"] by auto
  show ?case using Cons.prems ih by (auto simp: even_iff_mod_2_eq_zero)
qed

lemma alternating_filterIndex_odd:
  "alternating b xs \<Longrightarrow>
     \<forall>x\<in>set (filterIndex (\<lambda>i. i mod 2 \<noteq> 0) i xs). x \<noteq> [] \<and> (\<forall>c\<in>set x. isSeparator c = (b = odd i))"
proof (induction xs arbitrary: b i)
  case Nil then show ?case by simp
next
  case (Cons x xs)
  have alt: "alternating (\<not> b) xs" using Cons.prems by simp
  have ih: "\<forall>x\<in>set (filterIndex (\<lambda>i. i mod 2 \<noteq> 0) (Suc i) xs). x \<noteq> [] \<and> (\<forall>c\<in>set x. isSeparator c = (b = odd i))"
    using Cons.IH[OF alt, of "Suc i"] by auto
  show ?case using Cons.prems ih by (auto simp: even_iff_mod_2_eq_zero)
qed

lemma length_filterIndex:
  "length (filterIndex (\<lambda>i. i mod 2 = 0) i xs) = (if even i then (length xs + 1) div 2 else length xs div 2)"
  "length (filterIndex (\<lambda>i. i mod 2 \<noteq> 0) i xs) = (if even i then length xs div 2 else (length xs + 1) div 2)"
proof (induction xs arbitrary: i)
  case Nil
  { case 1 show ?case by simp }
  { case 2 show ?case by simp }
next
  case (Cons x xs)
  { case 1
    have "even (Suc i) = odd i" by simp
    then show ?case using Cons(1)[of "Suc i"] by (cases "even i") (simp_all add: even_iff_mod_2_eq_zero) }
  { case 2
    have "even (Suc i) = odd i" by simp
    then show ?case using Cons(2)[of "Suc i"] by (cases "even i") (simp_all add: even_iff_mod_2_eq_zero) }
qed


text \<open>
  Claim C10.  For every string, \<open>extractClassnamesFromValue\<close> splits it into class names
  (non-empty, free of separator characters) and whitespace runs (non-empty, separators only);
  \<open>headSpace\<close> and \<open>tailSpace\<close> tell whether the string begins and ends with a separator;
  the two arrays alternate (their lengths differ as the two flags say, so every class name is
  a maximal run), and interleaving them, the whitespace first when \<open>headSpace\<close> holds,
  gives the string back.  A value that is not a string gives two empty arrays and both flags
  false.  Whitespace is the separator class of the source: tab, line feed, form feed,
  carriage return and space.
\<close>

theorem extractClassnamesFromValue_partition:
  "(let r = extractClassnamesFromValue (JsString s) in
      rebuild r = s
    \<and> (\<forall>c\<in>set (classNames r). c \<noteq> [] \<and> (\<forall>ch\<in>set c. \<not> isSeparator ch))
    \<and> (\<forall>w\<in>set (whitespaces r). w \<noteq> [] \<and> (\<forall>ch\<in>set w. isSeparator ch))
    \<and> (headSpace r \<longleftrightarrow> s \<noteq> [] \<and> isSeparator (hd s))
    \<and> (tailSpace r \<longleftrightarrow> s \<noteq> [] \<and> isSeparator (last s))
    \<and> (s \<noteq> [] \<longrightarrow>
         length (classNames r) + (if headSpace r then 1 else 0) + (if tailSpace r then 1 else 0)
           = length (whitespaces r) + 1))
   \<and> ((\<forall>t. v \<noteq> JsString t) \<longrightarrow>
        extractClassnamesFromValue v
          = \<lparr> classNames = [], whitespaces = [], headSpace = False, tailSpace = False \<rparr>)"
proof -
  define parts where "parts = extractParts s"
  define h where "h = separatorTest (firstOf parts)"
  define t where "t = separatorTest (lastOf parts)"
  have cat: "concat parts = s" unfolding parts_def by (rule concat_extractParts)
  have undef: "\<not> separatorTest None" by (simp add: separatorTest_def isSeparator_def)
  obtain b where b: "alternating b parts" unfolding parts_def using extractParts_alternating by blast
  have empty: "parts = [] \<longleftrightarrow> s = []"
  proof
    assume "parts = []" then show "s = []" using cat by auto
  next
    assume "s = []"
    show "parts = []"
    proof (rule ccontr)
      assume "parts \<noteq> []"
      then obtain x xs where "parts = x # xs" by (cases parts) auto
      then have "x \<noteq> []" using b by simp
      then show False using cat \<open>s = []\<close> \<open>parts = x # xs\<close> by simp
    qed
  qed
  have alt: "alternating h parts"
  proof (cases "parts = []")
    case True then show ?thesis by simp
  next
    case False then show ?thesis using alternating_first[OF b False] b by (simp add: h_def)
  qed
  have hs: "h \<longleftrightarrow> s \<noteq> [] \<and> isSeparator (hd s)"
  proof (cases "parts = []")
    case True then show ?thesis using undef empty by (simp add: h_def firstOf_def)
  next
    case False then show ?thesis using alternating_first[OF alt False] empty cat by simp
  qed
  have tl: "parts \<noteq> [] \<Longrightarrow> t = (h = odd (length parts))"
    using alternating_last[OF alt] by (simp add: t_def)
  have ts: "t \<longleftrightarrow> s \<noteq> [] \<and> isSeparator (last s)"
  proof (cases "parts = []")
    case True then show ?thesis using undef empty by (simp add: t_def lastOf_def)
  next
    case False then show ?thesis using alternating_last[OF alt False] empty cat by (simp add: t_def)
  qed
  define r where "r = extractClassnamesFromValue (JsString s)"
  have r: "r = \<lparr> classNames = filterIndex (\<lambda>i. if h then i mod 2 \<noteq> 0 else i mod 2 = 0) 0 parts,
                whitespaces = filterIndex (\<lambda>i. if h then i mod 2 = 0 else i mod 2 \<noteq> 0) 0 parts,
                headSpace = h, tailSpace = t \<rparr>"
    unfolding r_def extractClassnamesFromValue_def parts_def h_def t_def by (simp add: Let_def)
  have p1: "rebuild r = s"
  proof (cases h)
    case True
    then show ?thesis using interleave_filterIndex[of 0 parts] cat by (simp add: r rebuild_def)
  next
    case False
    then show ?thesis using interleave_filterIndex[of 0 parts] cat by (simp add: r rebuild_def)
  qed
  have p2: "\<forall>c\<in>set (classNames r). c \<noteq> [] \<and> (\<forall>ch\<in>set c. \<not> isSeparator ch)"
  proof (cases h)
    case True
    then show ?thesis using alternating_filterIndex_odd[OF alt, of 0] by (simp add: r)
  next
    case False
    then show ?thesis using alternating_filterIndex_even[OF alt, of 0] by (simp add: r)
  qed
  have p3: "\<forall>w\<in>set (whitespaces r). w \<noteq> [] \<and> (\<forall>ch\<in>set w. isSeparator ch)"
  proof (cases h)
    case True
    then show ?thesis using alternating_filterIndex_even[OF alt, of 0] by (simp add: r)
  next
    case False
    then show ?thesis using alternating_filterIndex_odd[OF alt, of 0] by (simp add: r)
  qed
  have hr: "headSpace r = h" "tailSpace r = t" by (simp_all add: r)
  have p6: "s \<noteq> [] \<longrightarrow>
         length (classNames r) + (if headSpace r then 1 else 0) + (if tailSpace r then 1 else 0)
           = length (whitespaces r) + 1"
  proof
    assume "s \<noteq> []"
    then have ne: "parts \<noteq> []" using empty by simp
    then have n: "length parts > 0" by simp
    have lc: "length (classNames r) = (if h then length parts div 2 else (length parts + 1) div 2)"
      using length_filterIndex[of 0 parts] by (cases h) (simp_all add: r)
    have lw: "length (whitespaces r) = (if h then (length parts + 1) div 2 else length parts div 2)"
      using length_filterIndex[of 0 parts] by (cases h) (simp_all add: r)
    show "length (classNames r) + (if headSpace r then 1 else 0) + (if tailSpace r then 1 else 0)
           = length (whitespaces r) + 1"
    proof (cases h)
      case True
      then have "t = odd (length parts)" using tl[OF ne] by simp
      then show ?thesis using True n hr by (cases "odd (length parts)") (auto simp: lc lw elim: oddE)
    next
      case False
      then have "t = even (length parts)" using tl[OF ne] by simp
      then show ?thesis using False n hr by (cases "odd (length parts)") (auto simp: lc lw elim: oddE)
    qed
  qed
  have p7: "(\<forall>t. v \<noteq> JsString t) \<longrightarrow>
        extractClassnamesFromValue v
          = \<lparr> classNames = [], whitespaces = [], headSpace = False, tailSpace = False \<rparr>"
    by (cases v) (simp_all add: extractClassnamesFromValue_def)
  show ?thesis
    unfolding Let_def r_def[symmetric] using p1 p2 p3 p6 p7 hs ts hr by simp
qed

theorem extractClassnamesFromValue_partition_witness:
  "(let r = extractClassnamesFromValue (JsString '' w-12  lg:w-6'') in
      classNames r = [''w-12'', ''lg:w-6''] \<and> whitespaces r = ['' '', ''  '']
    \<and> headSpace r \<and> \<not> tailSpace r
    \<and> rebuild r = '' w-12  lg:w-6''
    \<and> (\<forall>c\<in>set (classNames r). c \<noteq> [] \<and> (\<forall>ch\<in>set c. \<not> isSeparator ch))
    \<and> (\<forall>w\<in>set (whitespaces r). w \<noteq> [] \<and> (\<forall>ch\<in>set w. isSeparator ch))
    \<and> length (classNames r) + 1 + 0 = length (whitespaces r) + 1)
   \<and> (\<forall>t. JsNull \<noteq> JsString t)
   \<and> extractClassnamesFromValue JsNull
          = \<lparr> classNames = [], whitespaces = [], headSpace = False, tailSpace = False \<rparr>"
proof -
  have e: "extractClassnamesFromValue (JsString '' w-12  lg:w-6'')
     = \<lparr> classNames = [''w-12'', ''lg:w-6''], whitespaces = ['' '', ''  ''], headSpace = True, tailSpace = False \<rparr>"
    by code_simp
  show ?thesis
    using extractClassnamesFromValue_partition[of "'' w-12  lg:w-6''" JsNull]
    unfolding Let_def e by simp
qed


section \<open>Removal of adjacent duplicates\<close>

lemma spliceOne_nat: "spliceOne (int k) xs = take k xs @ drop (Suc k) xs"
  by (cases "k \<le> length xs") (simp_all add: spliceOne_def Let_def min_def)

lemma dedupLoop_spec:
  "0 < i \<Longrightarrow> i \<le> length cls \<Longrightarrow> 0 \<le> int i + off \<Longrightarrow> previous = Some (cls ! (i - 1)) \<Longrightarrow>
   dedupLoop off i previous cls ws =
     (let k = nat (int i + off); D = dedupSpec (cls ! (i - 1)) (drop i cls) (drop k ws)
      in (take i cls @ fst D, take k ws @ snd D))"
proof (induction off i previous cls ws rule: dedupLoop.induct)
  case (1 off i previous cls ws)
  define k where "k = nat (int i + off)"
  have ik: "int i + off = int k" using 1(5) by (simp add: k_def)
  show ?case
  proof (cases "i < length cls")
    case False
    then have "i = length cls" using 1(4) by simp
    then show ?thesis using False by (subst dedupLoop.simps) (simp add: Let_def)
  next
    case True
    define c where "c = cls ! i"
    have dr: "drop i cls = c # drop (Suc i) cls" using True by (simp add: c_def Cons_nth_drop_Suc)
    have dws: "drop (Suc k) ws = tl (drop k ws)" by (simp add: drop_Suc tl_drop)
    show ?thesis
    proof (cases "Some c = previous")
      case dup: True
      then have cp: "c = cls ! (i - 1)" using 1(6) by simp
      define cls' where "cls' = spliceOne (int i) cls"
      define ws' where "ws' = spliceOne (int i + off) ws"
      have cls': "cls' = take i cls @ drop (Suc i) cls" by (simp add: cls'_def spliceOne_nat)
      have ws': "ws' = take k ws @ drop (Suc k) ws" by (simp add: ws'_def ik spliceOne_nat)
      have step: "dedupLoop off i previous cls ws = dedupLoop off i (Some c) cls' ws'"
        using True dup by (subst dedupLoop.simps) (simp add: Let_def c_def cls'_def ws'_def)
      have len: "i \<le> length cls'" using True by (simp add: cls')
      have nth: "cls' ! (i - 1) = cls ! (i - 1)" using 1(3) True by (simp add: cls' nth_append)
      have ti: "take i cls' = take i cls" using True by (simp add: cls')
      have di: "drop i cls' = drop (Suc i) cls" using True by (simp add: cls')
      have tk: "take k ws' = take k ws" by (cases "k \<le> length ws") (simp_all add: ws')
      have dk: "drop k ws' = drop (Suc k) ws" by (cases "k \<le> length ws") (simp_all add: ws')
      have ih: "dedupLoop off i (Some c) cls' ws' =
          (let k = nat (int i + off); D = dedupSpec (cls' ! (i - 1)) (drop i cls') (drop k ws')
           in (take i cls' @ fst D, take k ws' @ snd D))"
        using "1.IH"(1)[OF True c_def dup, folded cls'_def ws'_def, OF 1(3) len 1(5)] cp nth by simp
      have D: "dedupSpec (cls ! (i - 1)) (drop i cls) (drop k ws)
                 = dedupSpec (cls ! (i - 1)) (drop (Suc i) cls) (drop (Suc k) ws)"
        unfolding dr using cp by (simp add: dws split: prod.splits)
      show ?thesis unfolding step ih Let_def k_def[symmetric] nth ti di tk dk D ..
    next
      case nodup: False
      then have cp: "c \<noteq> cls ! (i - 1)" using 1(6) by auto
      have step: "dedupLoop off i previous cls ws = dedupLoop off (Suc i) (Some c) cls ws"
        using True nodup by (subst dedupLoop.simps) (simp add: Let_def c_def)
      have k': "nat (int (Suc i) + off) = Suc k" using ik by simp
      have ih: "dedupLoop off (Suc i) (Some c) cls ws =
          (let k = nat (int (Suc i) + off); D = dedupSpec (cls ! (Suc i - 1)) (drop (Suc i) cls) (drop k ws)
           in (take (Suc i) cls @ fst D, take k ws @ snd D))"
        using "1.IH"(2)[OF True c_def nodup] True 1(5) by (simp add: c_def)
      have t1: "take (Suc i) cls = take i cls @ [c]" using True by (simp add: c_def take_Suc_conv_app_nth)
      have t2: "take (Suc k) ws = take k ws @ take 1 (drop k ws)"
        by (metis One_nat_def Suc_eq_plus1 take_add)
      define D' where "D' = dedupSpec c (drop (Suc i) cls) (drop (Suc k) ws)"
      have D: "dedupSpec (cls ! (i - 1)) (drop i cls) (drop k ws) = (c # fst D', take 1 (drop k ws) @ snd D')"
        unfolding dr using cp by (simp add: D'_def dws split: prod.splits)
      have lhs: "dedupLoop off (Suc i) (Some c) cls ws = (take (Suc i) cls @ fst D', take (Suc k) ws @ snd D')"
        unfolding ih Let_def k' D'_def by (simp add: c_def)
      show ?thesis unfolding step lhs Let_def k_def[symmetric] D
        by (simp add: t1 t2)
    qed
  qed
qed

lemma dedupSpec_remdups_adj: "p # fst (dedupSpec p cs ws) = remdups_adj (p # cs)"
proof (induction cs arbitrary: p ws)
  case Nil then show ?case by simp
next
  case (Cons c cs)
  show ?case using Cons[of c "tl ws"] by (auto split: prod.splits)
qed

lemma dedupSpec_length:
  "length cs \<le> length ws \<Longrightarrow>
     length (snd (dedupSpec p cs ws)) + length cs = length ws + length (fst (dedupSpec p cs ws))"
proof (induction cs arbitrary: p ws)
  case Nil then show ?case by simp
next
  case (Cons c cs)
  then obtain w ws' where ws: "ws = w # ws'" by (cases ws) auto
  then have "length cs \<le> length ws'" using Cons.prems by simp
  from Cons.IH[OF this, of c] show ?case by (auto simp: ws split: prod.splits)
qed


lemma dedupSpec_positions:
  "snd (dedupSpec p cs ws) =
     map snd (filter (\<lambda>jw. \<not> (fst jw - n < length cs \<and> (p # cs) ! (fst jw - n) = cs ! (fst jw - n)))
                     (enumerate n ws))"
proof (induction cs arbitrary: p ws n)
  case Nil
  then show ?case by simp
next
  case (Cons c cs)
  show ?case
  proof (cases ws)
    case Nil
    then show ?thesis using Cons[of c "[]" n] by (cases "dedupSpec c cs []") auto
  next
    case (Cons w ws')
    have cong: "filter (\<lambda>jw. \<not> (fst jw - n < length (c # cs) \<and> (p # c # cs) ! (fst jw - n) = (c # cs) ! (fst jw - n)))
                  (enumerate (Suc n) ws')
              = filter (\<lambda>jw. \<not> (fst jw - Suc n < length cs \<and> (c # cs) ! (fst jw - Suc n) = cs ! (fst jw - Suc n)))
                  (enumerate (Suc n) ws')"
    proof (rule filter_cong[OF refl])
      fix jw assume "jw \<in> set (enumerate (Suc n) ws')"
      then have "Suc n \<le> fst jw" by (auto simp: in_set_enumerate_eq)
      then have "fst jw - n = Suc (fst jw - Suc n)" by simp
      then show "(\<not> (fst jw - n < length (c # cs) \<and> (p # c # cs) ! (fst jw - n) = (c # cs) ! (fst jw - n)))
               = (\<not> (fst jw - Suc n < length cs \<and> (c # cs) ! (fst jw - Suc n) = cs ! (fst jw - Suc n)))"
        by simp
    qed
    have ih: "snd (dedupSpec c cs ws') =
       map snd (filter (\<lambda>jw. \<not> (fst jw - Suc n < length cs \<and> (c # cs) ! (fst jw - Suc n) = cs ! (fst jw - Suc n)))
                     (enumerate (Suc n) ws'))"
      by (rule Cons.IH)
    show ?thesis unfolding Cons enumerate_simps filter.simps cong
      using ih by (auto split: prod.splits)
  qed
qed

text \<open>
  Claim C8.  For a class-name list with its parallel whitespace list (the lengths related as
  \<open>extractClassnamesFromValue\<close> relates them), duplicate removal deletes every class name
  equal to its predecessor, so that no two adjacent class names of the result are equal, and
  deletes one whitespace entry for each: the entry whose index is the index of the removed
  class name plus the offset, which is 0 with leading and no trailing whitespace and -1
  otherwise.  The list w-12, w-12, lg:w-6 with two whitespace entries becomes w-12, lg:w-6
  with one.  The list need not be sorted for this.
\<close>

theorem removeDuplicates_adjacent:
  assumes parallel:
    "length cls + (if h then 1 else 0) + (if t then 1 else 0) = length ws + 1"
  shows
    "(let off = (if h \<and> \<not> t then 0 else - 1);
          res = removeDuplicatesFromClassnamesAndWhitespaces cls ws h t
      in fst res = remdups_adj cls
       \<and> distinct_adj (fst res)
       \<and> length (snd res) + (length cls - length (fst res)) = length ws
       \<and> snd res = map snd (filter (\<lambda>jw. \<not> (\<exists>i. 0 < i \<and> i < length cls
                                           \<and> int (fst jw) = int i + off \<and> cls ! i = cls ! (i - 1)))
                                    (enumerate 0 ws)))
     \<and> removeDuplicatesFromClassnamesAndWhitespaces
          [''w-12'', ''w-12'', ''lg:w-6''] ['' '', '' ''] False False
        = ([''w-12'', ''lg:w-6''], ['' ''])"
proof -
  define off :: int where "off = (if h \<and> \<not> t then 0 else - 1)"
  define res where "res = removeDuplicatesFromClassnamesAndWhitespaces cls ws h t"
  have off': "(if (\<not> h \<and> \<not> t) \<or> t then - 1 else 0) = off" by (auto simp: off_def)
  have res: "res = dedupLoop off 1 (firstOf cls) cls ws"
    unfolding res_def removeDuplicatesFromClassnamesAndWhitespaces_def Let_def off' ..
  have general: "fst res = remdups_adj cls
       \<and> length (snd res) + (length cls - length (fst res)) = length ws
       \<and> snd res = map snd (filter (\<lambda>jw. \<not> (\<exists>i. 0 < i \<and> i < length cls
                                           \<and> int (fst jw) = int i + off \<and> cls ! i = cls ! (i - 1)))
                                    (enumerate 0 ws))"
  proof (cases cls)
    case Nil
    then have "res = ([], ws)" unfolding res by (subst dedupLoop.simps) simp
    then show ?thesis using Nil by simp
  next
    case (Cons c cs)
    define k where "k = nat (1 + off)"
    define D where "D = dedupSpec c cs (drop k ws)"
    have k: "k = (if h \<and> \<not> t then 1 else 0)" by (simp add: k_def off_def)
    have "res = (let k = nat (int 1 + off); D = dedupSpec (cls ! (1 - 1)) (drop 1 cls) (drop k ws)
                 in (take 1 cls @ fst D, take k ws @ snd D))"
      unfolding res by (rule dedupLoop_spec) (simp_all add: Cons off_def firstOf_def)
    then have r: "res = (c # fst D, take k ws @ snd D)"
      by (simp add: Let_def Cons k_def D_def)
    have r1: "fst res = remdups_adj cls" using dedupSpec_remdups_adj[of c cs "drop k ws"]
      by (simp add: r D_def Cons)
    have klen: "k \<le> length ws" using parallel by (auto simp: k Cons split: if_splits)
    have le: "length cs \<le> length (drop k ws)" using parallel by (auto simp: k Cons split: if_splits)
    have len: "length (snd D) + length cs = length (drop k ws) + length (fst D)"
      unfolding D_def by (rule dedupSpec_length[OF le])
    have "length (c # fst D) \<le> length (c # cs)"
      unfolding D_def dedupSpec_remdups_adj by (rule remdups_adj_length)
    then have "length (fst D) \<le> length cs" by simp
    then have r2: "length (snd res) + (length cls - length (fst res)) = length ws"
      using len klen by (simp add: r Cons)
    have en: "enumerate 0 ws = enumerate 0 (take k ws) @ enumerate k (drop k ws)"
      using klen by (metis add_0 append_take_drop_id enumerate_append_eq length_take min.absorb2)
    have f1: "filter (\<lambda>jw. \<not> (\<exists>i. 0 < i \<and> i < length cls
                  \<and> int (fst jw) = int i + off \<and> cls ! i = cls ! (i - 1))) (enumerate 0 (take k ws))
              = enumerate 0 (take k ws)"
    proof (rule filter_True, intro ballI)
      fix jw assume "jw \<in> set (enumerate 0 (take k ws))"
      then have "fst jw < k" by (auto simp: in_set_enumerate_eq)
      then have "k = 1" "fst jw = 0" "off = 0" by (auto simp: k off_def split: if_splits)
      then show "\<not> (\<exists>i. 0 < i \<and> i < length cls \<and> int (fst jw) = int i + off \<and> cls ! i = cls ! (i - 1))"
        by auto
    qed
    have f2: "filter (\<lambda>jw. \<not> (\<exists>i. 0 < i \<and> i < length cls
                  \<and> int (fst jw) = int i + off \<and> cls ! i = cls ! (i - 1))) (enumerate k (drop k ws))
            = filter (\<lambda>jw. \<not> (fst jw - k < length cs \<and> (c # cs) ! (fst jw - k) = cs ! (fst jw - k)))
                 (enumerate k (drop k ws))"
    proof (rule filter_cong[OF refl])
      fix jw assume "jw \<in> set (enumerate k (drop k ws))"
      then have ge: "k \<le> fst jw" by (auto simp: in_set_enumerate_eq)
      have ko: "int k = 1 + off" by (simp add: k off_def)
      have "(\<exists>i. 0 < i \<and> i < length cls \<and> int (fst jw) = int i + off \<and> cls ! i = cls ! (i - 1))
           \<longleftrightarrow> (fst jw - k < length cs \<and> (c # cs) ! (fst jw - k) = cs ! (fst jw - k))"
      proof
        assume "\<exists>i. 0 < i \<and> i < length cls \<and> int (fst jw) = int i + off \<and> cls ! i = cls ! (i - 1)"
        then obtain i where i: "0 < i" "i < length cls" "int (fst jw) = int i + off" "cls ! i = cls ! (i - 1)"
          by blast
        then have "fst jw - k = i - 1" using ko ge by linarith
        then show "fst jw - k < length cs \<and> (c # cs) ! (fst jw - k) = cs ! (fst jw - k)"
          using i by (cases i) (auto simp: Cons)
      next
        assume a: "fst jw - k < length cs \<and> (c # cs) ! (fst jw - k) = cs ! (fst jw - k)"
        define i where "i = Suc (fst jw - k)"
        have "0 < i" "i < length cls" using a by (auto simp: i_def Cons)
        moreover have "int (fst jw) = int i + off" using ko ge by (simp add: i_def)
        moreover have "cls ! i = cls ! (i - 1)" using a by (simp add: i_def Cons)
        ultimately show "\<exists>i. 0 < i \<and> i < length cls \<and> int (fst jw) = int i + off \<and> cls ! i = cls ! (i - 1)"
          by blast
      qed
      then show "(\<not> (\<exists>i. 0 < i \<and> i < length cls \<and> int (fst jw) = int i + off \<and> cls ! i = cls ! (i - 1)))
           = (\<not> (fst jw - k < length cs \<and> (c # cs) ! (fst jw - k) = cs ! (fst jw - k)))" by simp
    qed
    have r3: "snd res = map snd (filter (\<lambda>jw. \<not> (\<exists>i. 0 < i \<and> i < length cls
                                           \<and> int (fst jw) = int i + off \<and> cls ! i = cls ! (i - 1)))
                                    (enumerate 0 ws))"
      unfolding en filter_append map_append f1 f2
      using dedupSpec_positions[of c cs "drop k ws" k] by (simp add: r D_def)
    show ?thesis using r1 r2 r3 by simp
  qed
  have ex: "removeDuplicatesFromClassnamesAndWhitespaces
          [''w-12'', ''w-12'', ''lg:w-6''] ['' '', '' ''] False False
        = ([''w-12'', ''lg:w-6''], ['' ''])"
    by code_simp
  have da: "distinct_adj (fst res)" using general by simp
  show ?thesis unfolding Let_def off_def[symmetric] res_def[symmetric] using general da ex by blast
qed

theorem removeDuplicates_adjacent_witness:
  "length [''w-12'', ''w-12'', ''lg:w-6'', ''lg:w-6''] + 1 + 0 = length ['' '', ''  '', ''   '', ''    ''] + 1
   \<and> removeDuplicatesFromClassnamesAndWhitespaces
        [''w-12'', ''w-12'', ''lg:w-6'', ''lg:w-6''] ['' '', ''  '', ''   '', ''    ''] True False
      = ([''w-12'', ''lg:w-6''], ['' '', ''   ''])
   \<and> remdups_adj [''w-12'', ''w-12'', ''lg:w-6'', ''lg:w-6''] = [''w-12'', ''lg:w-6'']"
proof -
  have p: "length [''w-12'', ''w-12'', ''lg:w-6'', ''lg:w-6''] + (if True then 1 else 0) + (if False then 1 else 0)
      = length ['' '', ''  '', ''   '', ''    ''] + 1" by simp
  have e: "removeDuplicatesFromClassnamesAndWhitespaces
        [''w-12'', ''w-12'', ''lg:w-6'', ''lg:w-6''] ['' '', ''  '', ''   '', ''    ''] True False
      = ([''w-12'', ''lg:w-6''], ['' '', ''   ''])" by code_simp
  show ?thesis using removeDuplicates_adjacent[OF p] unfolding Let_def e by simp
qed


section \<open>The flattened taxonomy\<close>

lemma leavesOf_isLeaf: "isLeaf n \<Longrightarrow> leavesOf p n = [(p, n)]"
  by (cases n; cases "members n") (auto simp: isLeaf_def)

lemma leavesOfList_concat: "leavesOfList p ns = concat (map (leavesOf p) ns)"
  by (induction ns) auto

lemma leavesOfList_all_leaves: "\<forall>n\<in>set ns. isLeaf n \<Longrightarrow> map snd (leavesOfList p ns) = ns"
  by (induction ns) (auto simp: leavesOf_isLeaf)

lemma leavesOfList_all_leaves_comp:
  "\<forall>n\<in>set ns. isLeaf n \<Longrightarrow> map (f \<circ> snd) (leavesOfList p ns) = map f ns"
  by (induction ns) (auto simp: leavesOf_isLeaf)

lemma leavesOf_Nodes: "members n = Nodes cs \<Longrightarrow> leavesOf p n = leavesOfList (Some (nodeType n)) cs"
  by (cases n) auto

lemma leavesOf_Pattern: "members n = Pattern q \<Longrightarrow> leavesOf p n = [(p, n)]"
  by (cases n) auto

lemma level3_patterns:
  assumes "\<forall>n\<in>set ps. isLeaf n"
  shows "concat (map (\<lambda>leaf. case members leaf of Pattern m \<Rightarrow> [m] | Nodes _ \<Rightarrow> []) ps) = map patternOf ps"
  using assms by (induction ps) (auto simp: isLeaf_def patternOf_def split: Members.splits)

lemma level2:
  assumes "case members prop of Pattern _ \<Rightarrow> True | Nodes propMembers \<Rightarrow> (\<forall>n\<in>set propMembers. isLeaf n)"
  shows "(case members prop of
               Pattern propMembers \<Rightarrow> [propMembers]
             | Nodes propMembers \<Rightarrow>
                 concat (map (\<lambda>leaf.
                   case members leaf of Pattern m \<Rightarrow> [m] | Nodes _ \<Rightarrow> []) propMembers))
          = map patternOf (map snd (leavesOf p prop))"
    and "(case members prop of
               Pattern _ \<Rightarrow> [configKey prop]
             | Nodes propMembers \<Rightarrow> map configKey propMembers)
          = map configKey (map snd (leavesOf p prop))"
  using assms
  by (auto simp: leavesOf_Nodes leavesOf_Pattern level3_patterns leavesOfList_all_leaves_comp patternOf_def
           split: Members.splits)

lemma level1:
  assumes "case members grp of Pattern _ \<Rightarrow> True
        | Nodes groupMembers \<Rightarrow>
            (\<forall>prop\<in>set groupMembers. case members prop of Pattern _ \<Rightarrow> True
               | Nodes propMembers \<Rightarrow> (\<forall>n\<in>set propMembers. isLeaf n))"
  shows "(case members grp of
         Pattern groupMembers \<Rightarrow> [groupMembers]
       | Nodes groupMembers \<Rightarrow>
           concat (map (\<lambda>prop.
             case members prop of
               Pattern propMembers \<Rightarrow> [propMembers]
             | Nodes propMembers \<Rightarrow>
                 concat (map (\<lambda>leaf.
                   case members leaf of Pattern m \<Rightarrow> [m] | Nodes _ \<Rightarrow> []) propMembers))
             groupMembers)) = map patternOf (map snd (leavesOf p grp))"
   and "(case members grp of
         Pattern _ \<Rightarrow> [configKey grp]
       | Nodes groupMembers \<Rightarrow>
           concat (map (\<lambda>prop.
             case members prop of
               Pattern _ \<Rightarrow> [configKey prop]
             | Nodes propMembers \<Rightarrow> map configKey propMembers)
             groupMembers)) = map configKey (map snd (leavesOf p grp))"
proof -
  show "(case members grp of
         Pattern groupMembers \<Rightarrow> [groupMembers]
       | Nodes groupMembers \<Rightarrow>
           concat (map (\<lambda>prop.
             case members prop of
               Pattern propMembers \<Rightarrow> [propMembers]
             | Nodes propMembers \<Rightarrow>
                 concat (map (\<lambda>leaf.
                   case members leaf of Pattern m \<Rightarrow> [m] | Nodes _ \<Rightarrow> []) propMembers))
             groupMembers)) = map patternOf (map snd (leavesOf p grp))"
  proof (cases "members grp")
    case (Pattern q)
    then show ?thesis by (simp add: leavesOf_Pattern patternOf_def)
  next
    case (Nodes gm)
    then have a: "\<forall>prop\<in>set gm. case members prop of Pattern _ \<Rightarrow> True
               | Nodes propMembers \<Rightarrow> (\<forall>n\<in>set propMembers. isLeaf n)" using assms by simp
    have "map (\<lambda>prop.
             case members prop of
               Pattern propMembers \<Rightarrow> [propMembers]
             | Nodes propMembers \<Rightarrow>
                 concat (map (\<lambda>leaf.
                   case members leaf of Pattern m \<Rightarrow> [m] | Nodes _ \<Rightarrow> []) propMembers)) gm
         = map (\<lambda>prop. map patternOf (map snd (leavesOf (Some (nodeType grp)) prop))) gm"
      by (rule map_cong[OF refl]) (use a level2(1) in blast)
    then show ?thesis
      by (simp only: Nodes Members.case leavesOf_Nodes[OF Nodes] leavesOfList_concat map_concat
                     map_map comp_def)
  qed
  show "(case members grp of
         Pattern _ \<Rightarrow> [configKey grp]
       | Nodes groupMembers \<Rightarrow>
           concat (map (\<lambda>prop.
             case members prop of
               Pattern _ \<Rightarrow> [configKey prop]
             | Nodes propMembers \<Rightarrow> map configKey propMembers)
             groupMembers)) = map configKey (map snd (leavesOf p grp))"
  proof (cases "members grp")
    case (Pattern q)
    then show ?thesis by (simp add: leavesOf_Pattern)
  next
    case (Nodes gm)
    then have a: "\<forall>prop\<in>set gm. case members prop of Pattern _ \<Rightarrow> True
               | Nodes propMembers \<Rightarrow> (\<forall>n\<in>set propMembers. isLeaf n)" using assms by simp
    have "map (\<lambda>prop.
             case members prop of
               Pattern _ \<Rightarrow> [configKey prop]
             | Nodes propMembers \<Rightarrow> map configKey propMembers) gm
         = map (\<lambda>prop. map configKey (map snd (leavesOf (Some (nodeType grp)) prop))) gm"
      by (rule map_cong[OF refl]) (use a level2(2) in blast)
    then show ?thesis
      by (simp only: Nodes Members.case leavesOf_Nodes[OF Nodes] leavesOfList_concat map_concat
                     map_map comp_def)
  qed
qed

text \<open>
  Claim C7, amended.  For every taxonomy of at most three levels (every node of the third
  level is a leaf), \<open>getGroups\<close> without a configuration and \<open>getGroupConfigKeys\<close> return
  the templates and the config keys of the same leaves, in depth-first order: the arrays
  have equal length, and at every index the config key is that of the leaf whose template
  is at that index.
\<close>

theorem getGroups_parallel:
  assumes "threeLevels groupsConfig"
  shows "fst (getGroups K groupsConfig None \<sigma>) = map patternOf (allLeaves groupsConfig)
       \<and> snd (getGroups K groupsConfig None \<sigma>) = \<sigma>
       \<and> getGroupConfigKeys groupsConfig = map configKey (allLeaves groupsConfig)
       \<and> length (fst (getGroups K groupsConfig None \<sigma>)) = length (getGroupConfigKeys groupsConfig)
       \<and> (\<forall>i < length (getGroupConfigKeys groupsConfig).
            fst (getGroups K groupsConfig None \<sigma>) ! i = patternOf (allLeaves groupsConfig ! i)
          \<and> getGroupConfigKeys groupsConfig ! i = configKey (allLeaves groupsConfig ! i))"
proof -
  have a: "flattenGroups groupsConfig = map patternOf (allLeaves groupsConfig)"
  proof -
    have "map (\<lambda>group.
       case members group of
         Pattern groupMembers \<Rightarrow> [groupMembers]
       | Nodes groupMembers \<Rightarrow>
           concat (map (\<lambda>prop.
             case members prop of
               Pattern propMembers \<Rightarrow> [propMembers]
             | Nodes propMembers \<Rightarrow>
                 concat (map (\<lambda>leaf.
                   case members leaf of Pattern m \<Rightarrow> [m] | Nodes _ \<Rightarrow> []) propMembers))
             groupMembers)) groupsConfig
       = map (\<lambda>group. map patternOf (map snd (leavesOf None group))) groupsConfig"
      by (rule map_cong[OF refl]) (use assms level1(1) in \<open>unfold threeLevels_def, blast\<close>)
    then show ?thesis
      by (simp only: flattenGroups_def allLeaves_def leavesOfList_concat map_concat map_map comp_def)
  qed
  have b: "getGroupConfigKeys groupsConfig = map configKey (allLeaves groupsConfig)"
  proof -
    have "map (\<lambda>group.
       case members group of
         Pattern _ \<Rightarrow> [configKey group]
       | Nodes groupMembers \<Rightarrow>
           concat (map (\<lambda>prop.
             case members prop of
               Pattern _ \<Rightarrow> [configKey prop]
             | Nodes propMembers \<Rightarrow> map configKey propMembers)
             groupMembers)) groupsConfig
       = map (\<lambda>group. map configKey (map snd (leavesOf None group))) groupsConfig"
      by (rule map_cong[OF refl]) (use assms level1(2) in \<open>unfold threeLevels_def, blast\<close>)
    then show ?thesis
      by (simp only: getGroupConfigKeys_def allLeaves_def leavesOfList_concat map_concat map_map comp_def)
  qed
  have c: "getGroups K groupsConfig None \<sigma> = (flattenGroups groupsConfig, \<sigma>)"
    by (simp add: getGroups_def)
  show ?thesis unfolding c fst_conv snd_conv a b by simp
qed

theorem getGroups_parallel_witness:
  "threeLevels exampleGroups
   \<and> fst (getGroups exampleColors exampleGroups None emptyCache)
       = [''px-(?<value>[0-9]*)'', ''p-(?<value>[0-9]*)'', ''p-(?<value>.*)'',
          ''m-(?<value>[0-9]*)|-m-(?<negativeValue>[0-9]*)'']
   \<and> getGroupConfigKeys exampleGroups = [Some ''padding'', Some ''padding'', None, Some ''margin'']
   \<and> map patternOf (allLeaves exampleGroups) = fst (getGroups exampleColors exampleGroups None emptyCache)
   \<and> map configKey (allLeaves exampleGroups) = getGroupConfigKeys exampleGroups"
proof -
  have t: "threeLevels exampleGroups"
    by (simp add: threeLevels_def exampleGroups_def isLeaf_def)
  have g: "fst (getGroups exampleColors exampleGroups None emptyCache)
       = [''px-(?<value>[0-9]*)'', ''p-(?<value>[0-9]*)'', ''p-(?<value>.*)'',
          ''m-(?<value>[0-9]*)|-m-(?<negativeValue>[0-9]*)'']"
    by (simp add: getGroups_def flattenGroups_def exampleGroups_def)
  have k: "getGroupConfigKeys exampleGroups = [Some ''padding'', Some ''padding'', None, Some ''margin'']"
    by (simp add: getGroupConfigKeys_def exampleGroups_def)
  show ?thesis using getGroups_parallel[OF t, of exampleColors emptyCache] t g k by simp
qed

text \<open>
  Claim C7 as stated fails on a taxonomy of four levels: \<open>getGroups\<close> passes over a node of
  the third level that has children, \<open>getGroupConfigKeys\<close> does not.
\<close>

theorem getGroups_parallel_counterexample:
  "fst (getGroups exampleColors deepGroups None emptyCache) = []
   \<and> getGroupConfigKeys deepGroups = [Some ''padding'']
   \<and> length (fst (getGroups exampleColors deepGroups None emptyCache))
       \<noteq> length (getGroupConfigKeys deepGroups)"
  by (simp add: deepGroups_def getGroups_def flattenGroups_def getGroupConfigKeys_def)


section \<open>Variant prefix and suffix\<close>

lemma getPrefix_getSuffix: "getPrefix s @ getSuffix s = s"
  by (simp add: getPrefix_def getSuffix_def Let_def min_def)

lemma getPrefix_variants:
  "getPrefix ''dark:[hidden]:lg:text-[color:var(--my-var,#ccc)]'' = ''dark:[hidden]:lg:''"
  by code_simp

lemma getPrefix_arbitrary_value: "getPrefix ''text-[color:var(--my-var,#ccc)]'' = []"
  by code_simp

lemma getSuffix_variants:
  "getSuffix ''dark:[hidden]:lg:text-[color:var(--my-var,#ccc)]'' = ''text-[color:var(--my-var,#ccc)]''"
  by code_simp

text \<open>
  Claim C6.  The class \<open>bg-[url(https://x)]\<close> has no variant: its only colon is inside the
  bracket pair of the arbitrary value.  \<open>getPrefix\<close> nevertheless returns the text up to and
  including that colon, and \<open>getSuffix\<close> the rest, because the separator expression looks
  only at the run of characters \<open>[0-9a-z-]\<close> on each side of the colon, which here ends at
  \<open>(\<close> on the left and at \<open>/\<close> on the right before reaching a bracket.
\<close>

theorem getPrefix_colon_inside_brackets:
  "getPrefix ''bg-[url(https://x)]'' = ''bg-[url(https:''
   \<and> getSuffix ''bg-[url(https://x)]'' = ''//x)]''"
  by code_simp


section \<open>Compilation of the templates\<close>

lemma keyIsAccepted_negative: "keyIsAccepted True sc k = numericOrCalc (lookupKey sc k)"
  by (auto simp: keyIsAccepted_def numericOrCalc_def Let_def split: ThemeValue.splits)

lemma keyIsAccepted_positive: "keyIsAccepted False sc k = (\<not> startsWith ''-'' k)"
  by (simp add: keyIsAccepted_def)

lemma acceptedKeys_negative: "acceptedKeys True sc = negativeKeys sc"
proof -
  have "(\<lambda>key. if True \<and> startsWith ''-'' key then drop 1 key else key) = stripMinus"
    by (rule ext) (simp add: stripMinus_def)
  moreover have "keyIsAccepted True sc = (\<lambda>k. numericOrCalc (lookupKey sc k))"
    by (rule ext) (rule keyIsAccepted_negative)
  ultimately show ?thesis
    by (simp only: acceptedKeys_def negativeKeys_def)
qed

lemma acceptedKeys_positive: "acceptedKeys False sc = positiveKeys sc"
proof -
  have "keyIsAccepted False sc = (\<lambda>k. \<not> startsWith ''-'' k)"
    by (rule ext) (rule keyIsAccepted_positive)
  then show ?thesis
    by (simp add: acceptedKeys_def positiveKeys_def)
qed

lemma jsReplaceFirst_absent:
  "(if P \<or> findSub tok s = None then s else jsReplaceFirst tok r s)
   = (if P then s else jsReplaceFirst tok r s)"
  by (simp add: jsReplaceFirst_def)

lemma patchProp_substitutePlaceholder:
  "patchProp K config prop replaced = substitutePlaceholder K config replaced prop"
proof (cases "startsWith ''-'' prop")
  case True
  then have n: "prop \<noteq> ''dark''" "prop \<noteq> ''arbitraryProperties''" "prop \<noteq> ''backgroundImageUrl''"
    by (auto simp: startsWith_def)
  show ?thesis
    using True n
    by (simp add: patchProp_def substitutePlaceholder_def Let_def stripMinus_def
          acceptedKeys_negative jsReplaceFirst_absent)
next
  case False
  show ?thesis
    using False
    by (simp add: patchProp_def substitutePlaceholder_def Let_def stripMinus_def
          acceptedKeys_positive jsReplaceFirst_absent)
qed

lemma compileRegex_substitutePlaceholder:
  "compileRegex K re config
   = raw ''~!?'' @ (if prefix config \<noteq> [] then escapeSpecialChars (prefix config) else [])
       @ ''('' @ foldl (substitutePlaceholder K config) re (propsScan re) @ '')''"
proof -
  have "(\<lambda>replaced prop. patchProp K config prop replaced) = substitutePlaceholder K config"
    by (rule ext)+ (rule patchProp_substitutePlaceholder)
  then show ?thesis
    by (cases "propsScan re = []") (simp_all add: compileRegex_def Let_def)
qed

lemma substitutePlaceholder_negative:
  assumes "startsWith ''-'' q" and "stripMinus q = p" and "map fst (getThemeScale config p) \<noteq> []"
  shows "substitutePlaceholder K config re q
         = (let keys = map stripMinus
                         (filter (\<lambda>k. numericOrCalc (lookupKey (getThemeScale config p) k))
                            (map fst (getThemeScale config p)))
            in if keys = [] then re
               else jsReplaceFirst (''${'' @ q @ ''}'') (generateOptions K p keys config) re)"
proof -
  have "q \<notin> {''dark'', ''arbitraryProperties'', ''backgroundImageUrl''}"
    using assms(1) by (auto simp: startsWith_def)
  then show ?thesis
    using assms unfolding substitutePlaceholder_def negativeKeys_def Let_def
    by (simp only: if_True if_False simp_thms)
qed

lemma substitutePlaceholder_positive:
  assumes "\<not> startsWith ''-'' p"
    and "p \<notin> {''dark'', ''arbitraryProperties'', ''backgroundImageUrl''}"
    and "map fst (getThemeScale config p) \<noteq> []"
  shows "substitutePlaceholder K config re p
         = (let keys = filter (\<lambda>k. \<not> startsWith ''-'' k) (map fst (getThemeScale config p))
            in if keys = [] then re
               else jsReplaceFirst (''${'' @ p @ ''}'') (generateOptions K p keys config) re)"
proof -
  have "stripMinus p = p"
    using assms(1) by (simp add: stripMinus_def)
  then show ?thesis
    using assms unfolding substitutePlaceholder_def positiveKeys_def Let_def
    by (simp only: if_True if_False simp_thms)
qed

lemma patchRegex_compileRegex:
  assumes "\<forall>cache. \<sigma> (address config) = Some cache \<longrightarrow> cache re = None"
  shows "fst (patchRegex K re config \<sigma>) = compileRegex K re config"
  using assms by (auto simp: patchRegex_def Let_def split: option.splits)

text \<open>
  Claim C4.  On a cache miss, \<open>patchRegex\<close> returns the template with every placeholder
  substituted in turn, between the optional exclamation mark with the escaped prefix and a
  pair of parentheses.  When the template has the one placeholder \<open>${-prop}\<close> of a scale with
  keys, the options that replace it are built from exactly the keys of the scale whose
  value parses as a number or is a string that starts with \<open>calc\<close>, each without its leading
  minus sign; when it has the one placeholder \<open>${prop}\<close>, they are built from exactly the keys
  that do not start with a minus sign.  A placeholder for which no key is accepted is left
  in place.
\<close>

theorem patchRegex_accepted_keys:
  assumes miss: "\<forall>cache. \<sigma> (address config) = Some cache \<longrightarrow> cache re = None"
  shows "fst (patchRegex K re config \<sigma>)
         = raw ''~!?'' @ (if prefix config \<noteq> [] then escapeSpecialChars (prefix config) else [])
             @ ''('' @ foldl (substitutePlaceholder K config) re (propsScan re) @ '')''
       \<and> (propsScan re = [''-'' @ p] \<and> \<not> startsWith ''-'' p
            \<and> sc = getThemeScale config p \<and> map fst sc \<noteq> []
          \<longrightarrow> fst (patchRegex K re config \<sigma>)
              = raw ''~!?'' @ (if prefix config \<noteq> [] then escapeSpecialChars (prefix config) else [])
                  @ ''(''
                  @ (let keys = map stripMinus
                                  (filter (\<lambda>k. numericOrCalc (lookupKey sc k)) (map fst sc))
                     in if keys = [] then re
                        else jsReplaceFirst (''${-'' @ p @ ''}'')
                               (generateOptions K p keys config) re)
                  @ '')'')
       \<and> (propsScan re = [p] \<and> \<not> startsWith ''-'' p
            \<and> p \<notin> {''dark'', ''arbitraryProperties'', ''backgroundImageUrl''}
            \<and> sc = getThemeScale config p \<and> map fst sc \<noteq> []
          \<longrightarrow> fst (patchRegex K re config \<sigma>)
              = raw ''~!?'' @ (if prefix config \<noteq> [] then escapeSpecialChars (prefix config) else [])
                  @ ''(''
                  @ (let keys = filter (\<lambda>k. \<not> startsWith ''-'' k) (map fst sc)
                     in if keys = [] then re
                        else jsReplaceFirst (''${'' @ p @ ''}'')
                               (generateOptions K p keys config) re)
                  @ '')'')"
proof -
  have a: "fst (patchRegex K re config \<sigma>)
         = raw ''~!?'' @ (if prefix config \<noteq> [] then escapeSpecialChars (prefix config) else [])
             @ ''('' @ foldl (substitutePlaceholder K config) re (propsScan re) @ '')''"
    using patchRegex_compileRegex[where \<sigma> = \<sigma> and config = config and re = re and K = K, OF miss]
      compileRegex_substitutePlaceholder[of K re config] by simp
  have b: "propsScan re = [''-'' @ p] \<and> \<not> startsWith ''-'' p
            \<and> sc = getThemeScale config p \<and> map fst sc \<noteq> []
          \<longrightarrow> fst (patchRegex K re config \<sigma>)
              = raw ''~!?'' @ (if prefix config \<noteq> [] then escapeSpecialChars (prefix config) else [])
                  @ ''(''
                  @ (let keys = map stripMinus
                                  (filter (\<lambda>k. numericOrCalc (lookupKey sc k)) (map fst sc))
                     in if keys = [] then re
                        else jsReplaceFirst (''${-'' @ p @ ''}'')
                               (generateOptions K p keys config) re)
                  @ '')''"
  proof (intro impI, elim conjE)
    assume ps: "propsScan re = [''-'' @ p]" and pos: "\<not> startsWith ''-'' p"
      and sc: "sc = getThemeScale config p" and ne: "map fst sc \<noteq> []"
    have n: "startsWith ''-'' (''-'' @ p)" "stripMinus (''-'' @ p) = p"
      by (simp_all add: startsWith_def stripMinus_def)
    have t: "''${'' @ (''-'' @ p) @ ''}'' = ''${-'' @ p @ ''}''"
      by simp
    have "foldl (substitutePlaceholder K config) re [''-'' @ p]
          = substitutePlaceholder K config re (''-'' @ p)"
      by simp
    also have "\<dots> = (let keys = map stripMinus
                          (filter (\<lambda>k. numericOrCalc (lookupKey sc k)) (map fst sc))
             in if keys = [] then re
                else jsReplaceFirst (''${-'' @ p @ ''}'')
                       (generateOptions K p keys config) re)"
      using substitutePlaceholder_negative[OF n, of config K re] ne
      unfolding sc t by blast
    finally show "fst (patchRegex K re config \<sigma>)
              = raw ''~!?'' @ (if prefix config \<noteq> [] then escapeSpecialChars (prefix config) else [])
                  @ ''(''
                  @ (let keys = map stripMinus
                                  (filter (\<lambda>k. numericOrCalc (lookupKey sc k)) (map fst sc))
                     in if keys = [] then re
                        else jsReplaceFirst (''${-'' @ p @ ''}'')
                               (generateOptions K p keys config) re)
                  @ '')''"
      using a ps by simp
  qed
  have c: "propsScan re = [p] \<and> \<not> startsWith ''-'' p
            \<and> p \<notin> {''dark'', ''arbitraryProperties'', ''backgroundImageUrl''}
            \<and> sc = getThemeScale config p \<and> map fst sc \<noteq> []
          \<longrightarrow> fst (patchRegex K re config \<sigma>)
              = raw ''~!?'' @ (if prefix config \<noteq> [] then escapeSpecialChars (prefix config) else [])
                  @ ''(''
                  @ (let keys = filter (\<lambda>k. \<not> startsWith ''-'' k) (map fst sc)
                     in if keys = [] then re
                        else jsReplaceFirst (''${'' @ p @ ''}'')
                               (generateOptions K p keys config) re)
                  @ '')''"
  proof (intro impI, elim conjE)
    assume ps: "propsScan re = [p]" and pos: "\<not> startsWith ''-'' p"
      and sp: "p \<notin> {''dark'', ''arbitraryProperties'', ''backgroundImageUrl''}"
      and sc: "sc = getThemeScale config p" and ne: "map fst sc \<noteq> []"
    have "foldl (substitutePlaceholder K config) re [p]
          = substitutePlaceholder K config re p"
      by simp
    also have "\<dots> = (let keys = filter (\<lambda>k. \<not> startsWith ''-'' k) (map fst sc)
             in if keys = [] then re
                else jsReplaceFirst (''${'' @ p @ ''}'')
                       (generateOptions K p keys config) re)"
      using substitutePlaceholder_positive[OF pos sp, of config K re] ne
      unfolding sc by blast
    finally show "fst (patchRegex K re config \<sigma>)
              = raw ''~!?'' @ (if prefix config \<noteq> [] then escapeSpecialChars (prefix config) else [])
                  @ ''(''
                  @ (let keys = filter (\<lambda>k. \<not> startsWith ''-'' k) (map fst sc)
                     in if keys = [] then re
                        else jsReplaceFirst (''${'' @ p @ ''}'')
                               (generateOptions K p keys config) re)
                  @ '')''"
      using a ps by simp
  qed
  show ?thesis using a b c by blast
qed

theorem patchRegex_accepted_keys_witness:
  "emptyCache (address marginConfig) = None
   \<and> propsScan ''-m-(?<negativeValue>${-margin})'' = [''-margin'']
   \<and> propsScan ''m-(?<value>${margin})'' = [''margin'']
   \<and> getThemeScale marginConfig ''margin''
       = [(''4'', TString ''1rem''), (''auto'', TString ''auto''), (''-px'', TString ''-1px''),
          (''c'', TString ''calc(1px + 2px)''), (''DEFAULT'', TString ''0'')]
   \<and> fst (patchRegex exampleColors ''-m-(?<negativeValue>${-margin})'' marginConfig emptyCache)
       = raw ''~!?(-m-(?<negativeValue>(4|px|c|~[(~d{1,}(~.~d{1,})?|(~.~d{1,})?)(cap|ch|em|ex|ic|lh|rem|rlh|vb|vh|vi|vw|vmin|vmax|px|mm|cm|in|pt|pc|lin|%)~]|~[(?!(angle|color|length|list):).{1,}~])))''
   \<and> fst (patchRegex exampleColors ''m-(?<value>${margin})'' marginConfig emptyCache)
       = raw ''~!?(m-(?<value>(4|auto|c|~[(~d{1,}(~.~d{1,})?|(~.~d{1,})?)(cap|ch|em|ex|ic|lh|rem|rlh|vb|vh|vi|vw|vmin|vmax|px|mm|cm|in|pt|pc|lin|%)~]|~[(?!(angle|color|length|list):).{1,}~])))''"
proof -
  have h0: "emptyCache (address marginConfig) = None"
    by (simp add: emptyCache_def)
  have miss1: "\<forall>cache. emptyCache (address marginConfig) = Some cache
                 \<longrightarrow> cache ''-m-(?<negativeValue>${-margin})'' = None"
    by (simp add: emptyCache_def)
  have miss2: "\<forall>cache. emptyCache (address marginConfig) = Some cache
                 \<longrightarrow> cache ''m-(?<value>${margin})'' = None"
    by (simp add: emptyCache_def)
  have p1: "propsScan ''-m-(?<negativeValue>${-margin})'' = [''-'' @ ''margin'']"
    by code_simp
  have p1': "propsScan ''-m-(?<negativeValue>${-margin})'' = [''-margin'']"
    by code_simp
  have p2: "propsScan ''m-(?<value>${margin})'' = [''margin'']"
    by code_simp
  have pos: "\<not> startsWith ''-'' ''margin''"
    by code_simp
  have sp: "''margin'' \<notin> {''dark'', ''arbitraryProperties'', ''backgroundImageUrl''}"
    by simp
  have sc: "getThemeScale marginConfig ''margin''
       = [(''4'', TString ''1rem''), (''auto'', TString ''auto''), (''-px'', TString ''-1px''),
          (''c'', TString ''calc(1px + 2px)''), (''DEFAULT'', TString ''0'')]"
    by code_simp
  have ne: "map fst (getThemeScale marginConfig ''margin'') \<noteq> []"
    by (simp add: sc)
  have "fst (patchRegex exampleColors ''-m-(?<negativeValue>${-margin})'' marginConfig emptyCache)
        = raw ''~!?'' @ (if prefix marginConfig \<noteq> [] then escapeSpecialChars (prefix marginConfig) else [])
            @ ''(''
            @ (let keys = map stripMinus
                            (filter (\<lambda>k. numericOrCalc (lookupKey (getThemeScale marginConfig ''margin'') k))
                               (map fst (getThemeScale marginConfig ''margin'')))
               in if keys = [] then ''-m-(?<negativeValue>${-margin})''
                  else jsReplaceFirst (''${-'' @ ''margin'' @ ''}'')
                         (generateOptions exampleColors ''margin'' keys marginConfig)
                         ''-m-(?<negativeValue>${-margin})'')
            @ '')''"
    using patchRegex_accepted_keys[where \<sigma> = emptyCache and config = marginConfig
        and re = "''-m-(?<negativeValue>${-margin})''" and K = exampleColors
        and p = "''margin''" and sc = "getThemeScale marginConfig ''margin''", OF miss1]
      p1 pos ne
    by blast
  also have "\<dots> = raw ''~!?(-m-(?<negativeValue>(4|px|c|~[(~d{1,}(~.~d{1,})?|(~.~d{1,})?)(cap|ch|em|ex|ic|lh|rem|rlh|vb|vh|vi|vw|vmin|vmax|px|mm|cm|in|pt|pc|lin|%)~]|~[(?!(angle|color|length|list):).{1,}~])))''"
    by code_simp
  finally have r1: "fst (patchRegex exampleColors ''-m-(?<negativeValue>${-margin})'' marginConfig emptyCache)
       = raw ''~!?(-m-(?<negativeValue>(4|px|c|~[(~d{1,}(~.~d{1,})?|(~.~d{1,})?)(cap|ch|em|ex|ic|lh|rem|rlh|vb|vh|vi|vw|vmin|vmax|px|mm|cm|in|pt|pc|lin|%)~]|~[(?!(angle|color|length|list):).{1,}~])))''" .
  have "fst (patchRegex exampleColors ''m-(?<value>${margin})'' marginConfig emptyCache)
        = raw ''~!?'' @ (if prefix marginConfig \<noteq> [] then escapeSpecialChars (prefix marginConfig) else [])
            @ ''(''
            @ (let keys = filter (\<lambda>k. \<not> startsWith ''-'' k)
                            (map fst (getThemeScale marginConfig ''margin''))
               in if keys = [] then ''m-(?<value>${margin})''
                  else jsReplaceFirst (''${'' @ ''margin'' @ ''}'')
                         (generateOptions exampleColors ''margin'' keys marginConfig)
                         ''m-(?<value>${margin})'')
            @ '')''"
    using patchRegex_accepted_keys[where \<sigma> = emptyCache and config = marginConfig
        and re = "''m-(?<value>${margin})''" and K = exampleColors
        and p = "''margin''" and sc = "getThemeScale marginConfig ''margin''", OF miss2]
      p2 pos sp ne
    by blast
  also have "\<dots> = raw ''~!?(m-(?<value>(4|auto|c|~[(~d{1,}(~.~d{1,})?|(~.~d{1,})?)(cap|ch|em|ex|ic|lh|rem|rlh|vb|vh|vi|vw|vmin|vmax|px|mm|cm|in|pt|pc|lin|%)~]|~[(?!(angle|color|length|list):).{1,}~])))''"
    by code_simp
  finally have r2: "fst (patchRegex exampleColors ''m-(?<value>${margin})'' marginConfig emptyCache)
       = raw ''~!?(m-(?<value>(4|auto|c|~[(~d{1,}(~.~d{1,})?|(~.~d{1,})?)(cap|ch|em|ex|ic|lh|rem|rlh|vb|vh|vi|vw|vmin|vmax|px|mm|cm|in|pt|pc|lin|%)~]|~[(?!(angle|color|length|list):).{1,}~])))''" .
  show ?thesis using h0 p1' p2 sc r1 r2 by blast
qed

lemma negativeKeys_margin:
  "negativeKeys (getThemeScale marginConfig ''margin'') = [''4'', ''px'', ''c'', ''DEFAULT'']"
  by code_simp

lemma positiveKeys_margin:
  "positiveKeys (getThemeScale marginConfig ''margin'') = [''4'', ''auto'', ''c'', ''DEFAULT'']"
  by code_simp

lemma negativeKeys_set:
  "set (negativeKeys sc) = stripMinus ` {k \<in> set (map fst sc). numericOrCalc (lookupKey sc k)}"
  by (auto simp: negativeKeys_def)

lemma positiveKeys_set:
  "set (positiveKeys sc) = {k \<in> set (map fst sc). \<not> startsWith ''-'' k}"
  by (auto simp: positiveKeys_def)

lemma patchRegex_both_placeholders:
  "fst (patchRegex exampleColors ''m-(?<value>${margin})|-m-(?<negativeValue>${-margin})''
          marginConfig emptyCache)
   = raw ''~!?(m-(?<value>(4|auto|c|~[(~d{1,}(~.~d{1,})?|(~.~d{1,})?)(cap|ch|em|ex|ic|lh|rem|rlh|vb|vh|vi|vw|vmin|vmax|px|mm|cm|in|pt|pc|lin|%)~]|~[(?!(angle|color|length|list):).{1,}~]))|-m-(?<negativeValue>(4|px|c|~[(~d{1,}(~.~d{1,})?|(~.~d{1,})?)(cap|ch|em|ex|ic|lh|rem|rlh|vb|vh|vi|vw|vmin|vmax|px|mm|cm|in|pt|pc|lin|%)~]|~[(?!(angle|color|length|list):).{1,}~])))''"
  by code_simp

lemma patchRegex_hit:
  assumes "address config' = address config"
  shows "patchRegex K re config' (snd (patchRegex K re config \<sigma>)) = patchRegex K re config \<sigma>"
proof (cases "\<sigma> (address config)")
  case None
  then show ?thesis using assms
    by (auto simp: patchRegex_def Let_def fun_upd_idem split: option.splits)
next
  case (Some cache)
  then show ?thesis using assms
    by (cases "cache re") (auto simp: patchRegex_def Let_def fun_upd_idem split: option.splits)
qed

lemma patchRegex_cached:
  "\<exists>cache. snd (patchRegex K re config \<sigma>) (address config) = Some cache
           \<and> cache re = Some (fst (patchRegex K re config \<sigma>))"
  by (auto simp: patchRegex_def Let_def split: option.splits)

lemma patchRegex_miss:
  assumes "\<forall>cache. \<sigma> (address config) = Some cache \<longrightarrow> cache re = None"
  shows "fst (patchRegex K re config \<sigma>) = compileRegex K re config"
  using assms by (auto simp: patchRegex_def Let_def split: option.splits)

lemma patchRegex_other_instance:
  assumes "address configB \<noteq> address configA"
  shows "fst (patchRegex K re configB (snd (patchRegex K re' configA \<sigma>)))
         = fst (patchRegex K re configB \<sigma>)"
  using assms by (auto simp: patchRegex_def Let_def split: option.splits)

text \<open>
  Claim C3, amended.  \<open>patchRegex\<close> is memoized on the identity of the configuration object
  and the template.  After a call, the cache of that object holds the returned string for
  the template, and a second call with the same template and the same object returns the
  same string and the same state of the cache, without compiling.  On a miss the string is
  the compilation of the template against the configuration.  A call for one object does
  not change what a call for another object returns.  (Two objects whose keys for the
  property differ need not give different strings.)
\<close>

theorem patchRegex_memoized:
  "(\<exists>cache. snd (patchRegex K re config \<sigma>) (address config) = Some cache
            \<and> cache re = Some (fst (patchRegex K re config \<sigma>)))
   \<and> (address config' = address config
        \<longrightarrow> patchRegex K re config' (snd (patchRegex K re config \<sigma>)) = patchRegex K re config \<sigma>)
   \<and> ((\<forall>cache. \<sigma> (address config) = Some cache \<longrightarrow> cache re = None)
        \<longrightarrow> fst (patchRegex K re config \<sigma>) = compileRegex K re config)
   \<and> (address configB \<noteq> address config
        \<longrightarrow> fst (patchRegex K re configB (snd (patchRegex K re' config \<sigma>)))
            = fst (patchRegex K re configB \<sigma>))"
  using patchRegex_hit[of config' config K re \<sigma>] patchRegex_cached[of K re config \<sigma>]
        patchRegex_miss[of \<sigma> config re K] patchRegex_other_instance[of configB config K re re' \<sigma>]
  by blast

lemma compileRegex_padding_4:
  "compileRegex exampleColors ''p-(?<value>${padding})'' (paddingConfig 1 [(''4'', TString ''1rem'')])
   = compileRegex exampleColors ''p-(?<value>${padding})''
       (paddingConfig 2 [(''4'', TString ''1rem''), (''-4'', TString ''-1rem'')])"
  by code_simp

lemma compileRegex_padding_8:
  "compileRegex exampleColors ''p-(?<value>${padding})'' (paddingConfig 1 [(''4'', TString ''1rem'')])
   \<noteq> compileRegex exampleColors ''p-(?<value>${padding})'' (paddingConfig 2 [(''8'', TString ''2rem'')])"
  by code_simp

lemma compileRegex_padding_default:
  "compileRegex exampleColors ''p-(?<value>${padding})'' (paddingConfig 1 [(''4'', TString ''1rem'')])
   = compileRegex exampleColors ''p-(?<value>${padding})''
       (paddingConfig 2 [(''4'', TString ''1rem''), (''DEFAULT'', TString ''1rem'')])"
  by code_simp

theorem patchRegex_memoized_witness:
  "address (paddingConfig 1 [(''8'', TString ''2rem'')]) = address (paddingConfig 1 [(''4'', TString ''1rem'')])
   \<and> emptyCache (address (paddingConfig 1 [(''4'', TString ''1rem'')])) = None
   \<and> address (paddingConfig 2 [(''8'', TString ''2rem'')]) \<noteq> address (paddingConfig 1 [(''4'', TString ''1rem'')])
   \<and> patchRegex exampleColors ''p-(?<value>${padding})'' (paddingConfig 1 [(''8'', TString ''2rem'')])
        (snd (patchRegex exampleColors ''p-(?<value>${padding})'' (paddingConfig 1 [(''4'', TString ''1rem'')]) emptyCache))
      = patchRegex exampleColors ''p-(?<value>${padding})'' (paddingConfig 1 [(''4'', TString ''1rem'')]) emptyCache
   \<and> fst (patchRegex exampleColors ''p-(?<value>${padding})'' (paddingConfig 1 [(''4'', TString ''1rem'')]) emptyCache)
      = compileRegex exampleColors ''p-(?<value>${padding})'' (paddingConfig 1 [(''4'', TString ''1rem'')])
   \<and> fst (patchRegex exampleColors ''p-(?<value>${padding})'' (paddingConfig 2 [(''8'', TString ''2rem'')])
        (snd (patchRegex exampleColors ''p-(?<value>${padding})'' (paddingConfig 1 [(''4'', TString ''1rem'')]) emptyCache)))
      = fst (patchRegex exampleColors ''p-(?<value>${padding})'' (paddingConfig 2 [(''8'', TString ''2rem'')]) emptyCache)"
proof -
  have h1: "address (paddingConfig 1 [(''8'', TString ''2rem'')]) = address (paddingConfig 1 [(''4'', TString ''1rem'')])"
    by (simp add: paddingConfig_def)
  have h2: "\<forall>cache. emptyCache (address (paddingConfig 1 [(''4'', TString ''1rem'')])) = Some cache
         \<longrightarrow> cache ''p-(?<value>${padding})'' = None"
    by (simp add: emptyCache_def)
  have h3: "address (paddingConfig 2 [(''8'', TString ''2rem'')]) \<noteq> address (paddingConfig 1 [(''4'', TString ''1rem'')])"
    by (simp add: paddingConfig_def)
  have h0: "emptyCache (address (paddingConfig 1 [(''4'', TString ''1rem'')])) = None"
    by (simp add: emptyCache_def)
  show ?thesis
    using patchRegex_memoized[of exampleColors "''p-(?<value>${padding})''"
        "paddingConfig 1 [(''4'', TString ''1rem'')]" emptyCache
        "paddingConfig 1 [(''8'', TString ''2rem'')]"
        "paddingConfig 2 [(''8'', TString ''2rem'')]" "''p-(?<value>${padding})''"] h0 h1 h2 h3
    by blast
qed

text \<open>
  Claim C3 as stated fails: the padding scales of two configuration objects have different
  keys, \<open>4\<close> for the one and \<open>4\<close> and \<open>-4\<close> for the other, and the template with the positive
  placeholder compiles to the same string for both, on an empty cache.
\<close>

theorem patchRegex_memoized_counterexample:
  "address (paddingConfig 1 [(''4'', TString ''1rem'')])
     \<noteq> address (paddingConfig 2 [(''4'', TString ''1rem''), (''-4'', TString ''-1rem'')])
   \<and> set (map fst (getThemeScale (paddingConfig 1 [(''4'', TString ''1rem'')]) ''padding''))
     \<noteq> set (map fst (getThemeScale (paddingConfig 2 [(''4'', TString ''1rem''), (''-4'', TString ''-1rem'')]) ''padding''))
   \<and> fst (patchRegex exampleColors ''p-(?<value>${padding})''
            (paddingConfig 1 [(''4'', TString ''1rem'')]) emptyCache)
     = fst (patchRegex exampleColors ''p-(?<value>${padding})''
            (paddingConfig 2 [(''4'', TString ''1rem''), (''-4'', TString ''-1rem'')]) emptyCache)"
  by code_simp


section \<open>The search for the first matching leaf\<close>

lemma compiled_patchRegex:
  "compiled K config (snd (patchRegex K re' config \<sigma>)) re = compiled K config \<sigma> re"
  by (auto simp: compiled_def patchRegex_def Let_def split: option.splits)

lemma leafTest_cong:
  "(\<And>re. compiled K config \<sigma>' re = compiled K config \<sigma> re)
   \<Longrightarrow> leafTest K rx config \<sigma>' = leafTest K rx config \<sigma>"
  by (rule ext)+ (simp add: leafTest_def)

lemma firstMatch_append:
  "firstMatch test (xs @ ys) = (case firstMatch test xs of Inr None \<Rightarrow> firstMatch test ys | r \<Rightarrow> r)"
  by (induction xs) (auto split: RxResult.splits)

lemma findInGroup_firstMatch:
  "firstMatch (leafTest K rx config \<sigma> nm) (leavesOf parent n)
     = fst (findInGroup K rx nm n config parent \<sigma>)
   \<and> (\<forall>re. compiled K config (snd (findInGroup K rx nm n config parent \<sigma>)) re
            = compiled K config \<sigma> re)"
  "firstMatch (leafTest K rx config \<sigma> nm) (leavesOfList (Some t) ns)
     = fst (findInChildren K rx nm ns config t \<sigma>)
   \<and> (\<forall>re. compiled K config (snd (findInChildren K rx nm ns config t \<sigma>)) re
            = compiled K config \<sigma> re)"
proof (induction K rx nm n config parent \<sigma> and K rx nm ns config t \<sigma>
       rule: findInGroup_findInChildren.induct)
  case (1 K rx nm t ms ck sh b d config parent \<sigma>)
  show ?case
    by (auto simp: leafTest_def patternOf_def compiled_patchRegex compiled_def[of K config \<sigma> ms]
             split: prod.splits RxResult.splits)
       (metis compiled_patchRegex snd_conv)+
next
  case (2 K rx nm t ms ck sh b d config parent \<sigma>)
  then show ?case by simp
next
  case (3 K rx nm config t \<sigma>)
  show ?case by simp
next
  case (4 K rx nm child rest config t \<sigma>)
  obtain r \<sigma>1 where f: "findInGroup K rx nm child config (Some t) \<sigma> = (r, \<sigma>1)"
    by (cases "findInGroup K rx nm child config (Some t) \<sigma>") auto
  have h1: "firstMatch (leafTest K rx config \<sigma> nm) (leavesOf (Some t) child) = r"
    and v1: "\<forall>re. compiled K config \<sigma>1 re = compiled K config \<sigma> re"
    using 4(1) f by auto
  have lt: "leafTest K rx config \<sigma>1 = leafTest K rx config \<sigma>"
    using v1 by (intro leafTest_cong) simp
  show ?case
  proof (cases r)
    case (Inl e)
    then show ?thesis using v1 by (simp add: firstMatch_append f h1)
  next
    case (Inr opt)
    show ?thesis
    proof (cases opt)
      case None
      have ih: "firstMatch (leafTest K rx config \<sigma>1 nm) (leavesOfList (Some t) rest)
                  = fst (findInChildren K rx nm rest config t \<sigma>1)
                \<and> (\<forall>re. compiled K config (snd (findInChildren K rx nm rest config t \<sigma>1)) re
                         = compiled K config \<sigma>1 re)"
        using 4(2)[OF f[symmetric] _] Inr None f by simp
      then show ?thesis using v1 by (simp add: firstMatch_append f h1 Inr None lt)
    next
      case (Some m)
      then show ?thesis using v1 by (simp add: firstMatch_append f h1 Inr)
    qed
  qed
qed

lemma parseLoop_Some: "parseLoop K rx s config (Some m) arr \<sigma> = (Inr (Some m), \<sigma>)"
  by (induction arr) auto

lemma parseLoop_firstMatch:
  "fst (parseLoop K rx s config None arr \<sigma>)
   = firstMatch (leafTest K rx config \<sigma> s) (leavesOfList None arr)"
proof (induction arr arbitrary: \<sigma>)
  case Nil
  show ?case by simp
next
  case (Cons g rest)
  obtain r \<sigma>1 where f: "findInGroup K rx s g config None \<sigma> = (r, \<sigma>1)"
    by (cases "findInGroup K rx s g config None \<sigma>") auto
  have h1: "firstMatch (leafTest K rx config \<sigma> s) (leavesOf None g) = r"
    and v1: "\<forall>re. compiled K config \<sigma>1 re = compiled K config \<sigma> re"
    using findInGroup_firstMatch(1)[of K rx config \<sigma> s None g] f by auto
  have lt: "leafTest K rx config \<sigma>1 = leafTest K rx config \<sigma>"
    using v1 by (intro leafTest_cong) simp
  show ?case
  proof (cases r)
    case (Inl e)
    then show ?thesis by (simp add: firstMatch_append f h1)
  next
    case (Inr opt)
    then show ?thesis using Cons.IH[of \<sigma>1]
      by (cases opt) (simp_all add: firstMatch_append parseLoop_Some f h1 lt)
  qed
qed

lemma firstMatch_none:
  "\<forall>(p, l)\<in>set xs. test l = RxNoMatch \<Longrightarrow> firstMatch test xs = Inr None"
  by (induction xs) auto

lemma firstMatch_first:
  "\<forall>(q, m)\<in>set pre. test m = RxNoMatch \<Longrightarrow> test l = RxMatch g
   \<Longrightarrow> firstMatch test (pre @ (p, l) # post)
       = Inr (Some \<lparr> group' = p, leaf = l, leafValue = capturedValue g \<rparr>)"
  by (induction pre) auto

lemma capturedValue_spec:
  "capturedValue g
   = (if \<exists>n. namedCapture g ''negativeValue'' = Some n \<and> n \<noteq> []
      then ''-'' @ the (namedCapture g ''negativeValue'')
      else (case namedCapture g ''value'' of None \<Rightarrow> [] | Some v \<Rightarrow> v))"
  by (auto simp: capturedValue_def namedCapture_def Let_def split: option.splits)

lemma parseClassname_slot:
  assumes "firstMatch (leafTest K rx config \<sigma> (getSuffix (classCore nm))) (leavesOfList None arr)
           = Inr slot"
  shows "fst (parseClassname K rx nm arr config idx \<sigma>)
         = Inr (let core = classCore nm;
                    v = (case slot of None \<Rightarrow> [] | Some m \<Rightarrow> leafValue m);
                    off = (if startsWith ''-'' v then 1 else 0);
                    b = drop (length (getPrefix core) + off)
                          (take (nat (max 0 (int (length core) - int (length v) + int off))) core)
                in \<lparr> index = idx, name = core, variants = getPrefix core,
                     parentType = (case slot of
                                     None \<Rightarrow> []
                                   | Some m \<Rightarrow> (case group' m of None \<Rightarrow> [] | Some g \<Rightarrow> g)),
                     body = b, value' = v,
                     shorthand = (case slot of
                                    None \<Rightarrow> []
                                  | Some m \<Rightarrow> (case nodeShorthand (leaf m) of
                                                 None \<Rightarrow> [] | Some s \<Rightarrow> s)),
                     leading = takeWhile isJsSpace nm,
                     trailing = rev (takeWhile isJsSpace (rev nm)),
                     important = startsWith ''!'' b \<rparr>)"
proof -
  obtain \<sigma>1 where "parseLoop K rx (getSuffix (classCore nm)) config None arr \<sigma> = (Inr slot, \<sigma>1)"
    using parseLoop_firstMatch[of K rx "getSuffix (classCore nm)" config arr \<sigma>] assms
    by (cases "parseLoop K rx (getSuffix (classCore nm)) config None arr \<sigma>") auto
  then show ?thesis
    by (simp add: parseClassname_def Let_def classCore_def)
qed

text \<open>
  Claim C1, amended.  When the leaves of the taxonomy, in depth-first order, are \<open>pre\<close>,
  then \<open>l\<close> with parent type \<open>p\<close>, then \<open>post\<close>, no leaf of \<open>pre\<close> matches the suffix of the
  class name and \<open>l\<close> matches it with the named groups \<open>g\<close>, \<open>parseClassname\<close> returns the
  parent type and the shorthand tag of \<open>l\<close>, whatever the leaves of \<open>post\<close> do.  The value
  is \<open>-\<close> followed by the capture \<open>negativeValue\<close> when that capture is not empty, and
  otherwise the capture \<open>value\<close>, or the empty string when that group took no part in the
  match.
\<close>

theorem parseClassname_first_match:
  "leavesOfList None arr = pre @ (p, l) # post
   \<and> (\<forall>(q, m)\<in>set pre. leafTest K rx config \<sigma> (getSuffix (classCore nm)) m = RxNoMatch)
   \<and> leafTest K rx config \<sigma> (getSuffix (classCore nm)) l = RxMatch g
   \<longrightarrow> (\<exists>r. fst (parseClassname K rx nm arr config idx \<sigma>) = Inr r
          \<and> parentType r = (case p of None \<Rightarrow> [] | Some t \<Rightarrow> t)
          \<and> shorthand r = (case nodeShorthand l of None \<Rightarrow> [] | Some s \<Rightarrow> s)
          \<and> value' r = (if \<exists>n. namedCapture g ''negativeValue'' = Some n \<and> n \<noteq> []
                        then ''-'' @ the (namedCapture g ''negativeValue'')
                        else (case namedCapture g ''value'' of None \<Rightarrow> [] | Some v \<Rightarrow> v)))"
proof (intro impI, elim conjE)
  assume a: "leavesOfList None arr = pre @ (p, l) # post"
    and b: "\<forall>(q, m)\<in>set pre. leafTest K rx config \<sigma> (getSuffix (classCore nm)) m = RxNoMatch"
    and c: "leafTest K rx config \<sigma> (getSuffix (classCore nm)) l = RxMatch g"
  have "firstMatch (leafTest K rx config \<sigma> (getSuffix (classCore nm))) (leavesOfList None arr)
        = Inr (Some \<lparr> group' = p, leaf = l, leafValue = capturedValue g \<rparr>)"
    unfolding a using b c by (rule firstMatch_first)
  from parseClassname_slot[OF this, of idx]
  show "\<exists>r. fst (parseClassname K rx nm arr config idx \<sigma>) = Inr r
          \<and> parentType r = (case p of None \<Rightarrow> [] | Some t \<Rightarrow> t)
          \<and> shorthand r = (case nodeShorthand l of None \<Rightarrow> [] | Some s \<Rightarrow> s)
          \<and> value' r = (if \<exists>n. namedCapture g ''negativeValue'' = Some n \<and> n \<noteq> []
                        then ''-'' @ the (namedCapture g ''negativeValue'')
                        else (case namedCapture g ''value'' of None \<Rightarrow> [] | Some v \<Rightarrow> v))"
    by (simp add: Let_def capturedValue_spec[symmetric])
qed

theorem parseClassname_first_match_witness:
  "leavesOfList None exampleGroups
     = [(Some ''Padding'', GroupNode ''padding-x'' (Pattern ''px-(?<value>[0-9]*)'')
                            (Some ''padding'') (Some ''x'') (Some ''px'') None)]
       @ (Some ''Padding'', GroupNode ''padding'' (Pattern ''p-(?<value>[0-9]*)'')
                            (Some ''padding'') (Some ''all'') (Some ''p'') None)
       # [(Some ''Padding'', GroupNode ''padding-any'' (Pattern ''p-(?<value>.*)'') None None None None),
          (Some ''Margin'', GroupNode ''margin'' (Pattern ''m-(?<value>[0-9]*)|-m-(?<negativeValue>[0-9]*)'')
                            (Some ''margin'') (Some ''all'') (Some ''m'') None)]
   \<and> leafTest exampleColors exampleEngine plainConfig emptyCache (getSuffix (classCore ''  md:!p-8 ''))
        (GroupNode ''padding-x'' (Pattern ''px-(?<value>[0-9]*)'')
           (Some ''padding'') (Some ''x'') (Some ''px'') None) = RxNoMatch
   \<and> leafTest exampleColors exampleEngine plainConfig emptyCache (getSuffix (classCore ''  md:!p-8 ''))
        (GroupNode ''padding'' (Pattern ''p-(?<value>[0-9]*)'')
           (Some ''padding'') (Some ''all'') (Some ''p'') None) = RxMatch (Some [(''value'', ''8'')])
   \<and> leafTest exampleColors exampleEngine plainConfig emptyCache (getSuffix (classCore ''  md:!p-8 ''))
        (GroupNode ''padding-any'' (Pattern ''p-(?<value>.*)'') None None None None)
        = RxMatch (Some [(''value'', ''8'')])
   \<and> (\<exists>r. fst (parseClassname exampleColors exampleEngine ''  md:!p-8 '' exampleGroups plainConfig
                   (Some 1) emptyCache) = Inr r
          \<and> parentType r = ''Padding'' \<and> shorthand r = ''all'' \<and> value' r = ''8'')"
proof -
  have h1: "leavesOfList None exampleGroups
     = [(Some ''Padding'', GroupNode ''padding-x'' (Pattern ''px-(?<value>[0-9]*)'')
                            (Some ''padding'') (Some ''x'') (Some ''px'') None)]
       @ (Some ''Padding'', GroupNode ''padding'' (Pattern ''p-(?<value>[0-9]*)'')
                            (Some ''padding'') (Some ''all'') (Some ''p'') None)
       # [(Some ''Padding'', GroupNode ''padding-any'' (Pattern ''p-(?<value>.*)'') None None None None),
          (Some ''Margin'', GroupNode ''margin'' (Pattern ''m-(?<value>[0-9]*)|-m-(?<negativeValue>[0-9]*)'')
                            (Some ''margin'') (Some ''all'') (Some ''m'') None)]"
    by (simp add: exampleGroups_def)
  have h2: "leafTest exampleColors exampleEngine plainConfig emptyCache (getSuffix (classCore ''  md:!p-8 ''))
        (GroupNode ''padding-x'' (Pattern ''px-(?<value>[0-9]*)'')
           (Some ''padding'') (Some ''x'') (Some ''px'') None) = RxNoMatch"
    by code_simp
  have h3: "leafTest exampleColors exampleEngine plainConfig emptyCache (getSuffix (classCore ''  md:!p-8 ''))
        (GroupNode ''padding'' (Pattern ''p-(?<value>[0-9]*)'')
           (Some ''padding'') (Some ''all'') (Some ''p'') None) = RxMatch (Some [(''value'', ''8'')])"
    by code_simp
  have h4: "leafTest exampleColors exampleEngine plainConfig emptyCache (getSuffix (classCore ''  md:!p-8 ''))
        (GroupNode ''padding-any'' (Pattern ''p-(?<value>.*)'') None None None None)
        = RxMatch (Some [(''value'', ''8'')])"
    by code_simp
  have b: "\<forall>(q, m)\<in>set [(Some ''Padding'', GroupNode ''padding-x'' (Pattern ''px-(?<value>[0-9]*)'')
                            (Some ''padding'') (Some ''x'') (Some ''px'') None)].
             leafTest exampleColors exampleEngine plainConfig emptyCache
               (getSuffix (classCore ''  md:!p-8 '')) m = RxNoMatch"
    using h2 by simp
  have "\<exists>r. fst (parseClassname exampleColors exampleEngine ''  md:!p-8 '' exampleGroups plainConfig
                   (Some 1) emptyCache) = Inr r
          \<and> parentType r = (case Some ''Padding'' of None \<Rightarrow> [] | Some t \<Rightarrow> t)
          \<and> shorthand r = (case nodeShorthand (GroupNode ''padding'' (Pattern ''p-(?<value>[0-9]*)'')
                            (Some ''padding'') (Some ''all'') (Some ''p'') None) of None \<Rightarrow> [] | Some s \<Rightarrow> s)
          \<and> value' r = (if \<exists>n. namedCapture (Some [(''value'', ''8'')]) ''negativeValue'' = Some n \<and> n \<noteq> []
                        then ''-'' @ the (namedCapture (Some [(''value'', ''8'')]) ''negativeValue'')
                        else (case namedCapture (Some [(''value'', ''8'')]) ''value'' of None \<Rightarrow> [] | Some v \<Rightarrow> v))"
    using parseClassname_first_match[where arr = exampleGroups and K = exampleColors
        and rx = exampleEngine and config = plainConfig and \<sigma> = emptyCache
        and nm = "''  md:!p-8 ''" and idx = "Some 1" and g = "Some [(''value'', ''8'')]"
        and p = "Some ''Padding''"
        and pre = "[(Some ''Padding'', GroupNode ''padding-x'' (Pattern ''px-(?<value>[0-9]*)'')
                            (Some ''padding'') (Some ''x'') (Some ''px'') None)]"
        and l = "GroupNode ''padding'' (Pattern ''p-(?<value>[0-9]*)'')
                            (Some ''padding'') (Some ''all'') (Some ''p'') None"
        and post = "[(Some ''Padding'', GroupNode ''padding-any'' (Pattern ''p-(?<value>.*)'') None None None None),
          (Some ''Margin'', GroupNode ''margin'' (Pattern ''m-(?<value>[0-9]*)|-m-(?<negativeValue>[0-9]*)'')
                            (Some ''margin'') (Some ''all'') (Some ''m'') None)]"]
      h1 h3 b
    by blast
  then have c: "\<exists>r. fst (parseClassname exampleColors exampleEngine ''  md:!p-8 '' exampleGroups plainConfig
                   (Some 1) emptyCache) = Inr r
          \<and> parentType r = ''Padding'' \<and> shorthand r = ''all'' \<and> value' r = ''8''"
    by (simp add: namedCapture_def)
  show ?thesis using h1 h2 h3 h4 c by blast
qed

lemma parseClassname_important:
  "fst (parseClassname exampleColors exampleEngine ''  md:!p-8 '' exampleGroups plainConfig (Some 1) emptyCache)
   = Inr \<lparr> index = Some 1, name = ''md:!p-8'', variants = ''md:'', parentType = ''Padding'',
           body = ''!p-'', value' = ''8'', shorthand = ''all'', leading = ''  '', trailing = '' '',
           important = True \<rparr>"
  by code_simp

lemma parseClassname_negative:
  "fst (parseClassname exampleColors exampleEngine ''sm:-m-1'' exampleGroups plainConfig (Some 5) emptyCache)
   = Inr \<lparr> index = Some 5, name = ''sm:-m-1'', variants = ''sm:'', parentType = ''Margin'',
           body = ''m-'', value' = ''-1'', shorthand = ''all'', leading = [], trailing = [],
           important = False \<rparr>"
  by code_simp

text \<open>
  Claim C1 as stated fails when the capture \<open>negativeValue\<close> is the empty string: the class
  \<open>-m-\<close> matches the margin leaf through the negative alternative, whose group captures
  the empty string, and the value is the empty string, not \<open>-\<close>.
\<close>

theorem parseClassname_first_match_counterexample:
  "leafTest exampleColors exampleEngine plainConfig emptyCache (getSuffix (classCore ''-m-''))
     (GroupNode ''margin'' (Pattern ''m-(?<value>[0-9]*)|-m-(?<negativeValue>[0-9]*)'')
        (Some ''margin'') (Some ''all'') (Some ''m'') None)
     = RxMatch (Some [(''negativeValue'', [])])
   \<and> fst (parseClassname exampleColors exampleEngine ''-m-'' exampleGroups plainConfig None emptyCache)
     = Inr \<lparr> index = None, name = ''-m-'', variants = [], parentType = ''Margin'',
             body = ''-m-'', value' = [], shorthand = ''all'', leading = [], trailing = [],
             important = False \<rparr>"
  by code_simp

text \<open>
  Claim C5.  When no leaf of the taxonomy matches the suffix of the class name,
  \<open>parseClassname\<close> returns a result, with empty parent type, value and shorthand tag, and
  with the whole suffix after the variants as the body.  For the empty taxonomy it returns
  this result for every class name, and leaves the cache as it was.
\<close>

theorem parseClassname_unclassified:
  "((\<forall>(p, l)\<in>set (leavesOfList None arr).
        leafTest K rx config \<sigma> (getSuffix (classCore nm)) l = RxNoMatch)
    \<longrightarrow> (\<exists>r. fst (parseClassname K rx nm arr config idx \<sigma>) = Inr r
           \<and> parentType r = [] \<and> value' r = [] \<and> shorthand r = []
           \<and> name r = classCore nm \<and> variants r = getPrefix (classCore nm)
           \<and> body r = getSuffix (classCore nm)))
   \<and> parseClassname K rx nm [] config idx \<sigma>
     = (Inr \<lparr> index = idx, name = classCore nm, variants = getPrefix (classCore nm),
              parentType = [], body = getSuffix (classCore nm), value' = [], shorthand = [],
              leading = takeWhile isJsSpace nm, trailing = rev (takeWhile isJsSpace (rev nm)),
              important = startsWith ''!'' (getSuffix (classCore nm)) \<rparr>, \<sigma>)"
proof -
  have a: "(\<forall>(p, l)\<in>set (leavesOfList None arr).
        leafTest K rx config \<sigma> (getSuffix (classCore nm)) l = RxNoMatch)
    \<longrightarrow> (\<exists>r. fst (parseClassname K rx nm arr config idx \<sigma>) = Inr r
           \<and> parentType r = [] \<and> value' r = [] \<and> shorthand r = []
           \<and> name r = classCore nm \<and> variants r = getPrefix (classCore nm)
           \<and> body r = getSuffix (classCore nm))"
  proof
    assume "\<forall>(p, l)\<in>set (leavesOfList None arr).
        leafTest K rx config \<sigma> (getSuffix (classCore nm)) l = RxNoMatch"
    then have "firstMatch (leafTest K rx config \<sigma> (getSuffix (classCore nm))) (leavesOfList None arr)
               = Inr None"
      by (rule firstMatch_none)
    from parseClassname_slot[OF this, of idx]
    show "\<exists>r. fst (parseClassname K rx nm arr config idx \<sigma>) = Inr r
           \<and> parentType r = [] \<and> value' r = [] \<and> shorthand r = []
           \<and> name r = classCore nm \<and> variants r = getPrefix (classCore nm)
           \<and> body r = getSuffix (classCore nm)"
      by (simp add: Let_def startsWith_def getSuffix_def)
  qed
  have b: "parseClassname K rx nm [] config idx \<sigma>
     = (Inr \<lparr> index = idx, name = classCore nm, variants = getPrefix (classCore nm),
              parentType = [], body = getSuffix (classCore nm), value' = [], shorthand = [],
              leading = takeWhile isJsSpace nm, trailing = rev (takeWhile isJsSpace (rev nm)),
              important = startsWith ''!'' (getSuffix (classCore nm)) \<rparr>, \<sigma>)"
    by (simp add: parseClassname_def Let_def classCore_def startsWith_def getSuffix_def)
  show ?thesis using a b by blast
qed

theorem parseClassname_unclassified_witness:
  "list_all (\<lambda>(p, l). leafTest exampleColors exampleEngine plainConfig emptyCache
                        (getSuffix (classCore ''hover:flex '')) l = RxNoMatch)
            (leavesOfList None exampleGroups)
   \<and> classCore ''hover:flex '' = ''hover:flex''
   \<and> getPrefix ''hover:flex'' = ''hover:''
   \<and> getSuffix ''hover:flex'' = ''flex''
   \<and> (\<exists>r. fst (parseClassname exampleColors exampleEngine ''hover:flex '' exampleGroups plainConfig
                   (Some 0) emptyCache) = Inr r
          \<and> parentType r = [] \<and> value' r = [] \<and> shorthand r = []
          \<and> name r = ''hover:flex'' \<and> variants r = ''hover:'' \<and> body r = ''flex'')"
proof -
  have h: "list_all (\<lambda>(p, l). leafTest exampleColors exampleEngine plainConfig emptyCache
                        (getSuffix (classCore ''hover:flex '')) l = RxNoMatch)
            (leavesOfList None exampleGroups)"
    by code_simp
  have c: "classCore ''hover:flex '' = ''hover:flex''" by code_simp
  have p: "getPrefix ''hover:flex'' = ''hover:''" by code_simp
  have s: "getSuffix ''hover:flex'' = ''flex''" by code_simp
  have b: "\<forall>(p, l)\<in>set (leavesOfList None exampleGroups).
             leafTest exampleColors exampleEngine plainConfig emptyCache
               (getSuffix (classCore ''hover:flex '')) l = RxNoMatch"
    using h by (simp only: list_all_iff)
  have "\<exists>r. fst (parseClassname exampleColors exampleEngine ''hover:flex '' exampleGroups plainConfig
                   (Some 0) emptyCache) = Inr r
          \<and> parentType r = [] \<and> value' r = [] \<and> shorthand r = []
          \<and> name r = classCore ''hover:flex '' \<and> variants r = getPrefix (classCore ''hover:flex '')
          \<and> body r = getSuffix (classCore ''hover:flex '')"
    using parseClassname_unclassified[where arr = exampleGroups and K = exampleColors
        and rx = exampleEngine and config = plainConfig and \<sigma> = emptyCache
        and nm = "''hover:flex ''" and idx = "Some 0"] b
    by blast
  then have r: "\<exists>r. fst (parseClassname exampleColors exampleEngine ''hover:flex '' exampleGroups plainConfig
                   (Some 0) emptyCache) = Inr r
          \<and> parentType r = [] \<and> value' r = [] \<and> shorthand r = []
          \<and> name r = ''hover:flex'' \<and> variants r = ''hover:'' \<and> body r = ''flex''"
    by (simp only: c p s)
  show ?thesis using h c p s r by blast
qed


section \<open>Shorthand candidates\<close>











text \<open>
  The name of a member of \<open>Object.prototype\<close> is a key of no scale, and the three reads give
  the same function: \<open>w-constructor\<close> and \<open>h-constructor\<close> are replaced by
  \<open>size-constructor\<close>.
\<close>

lemma collapseEquivalence_inherited_member:
  "''constructor'' \<notin> set (objectKeys (lookupKey (theme sizeConfig) ''size''))
   \<and> collapseEquivalence exampleHost neverSame unclassified sizeConfig sizeEquivalence
        \<lparr> remaining = [sizingClass 0 ''w-'' ''Width'' ''constructor'',
                       sizingClass 1 ''h-'' ''Height'' ''constructor''],
          validated = [], troubles = [] \<rparr>
      = Inr \<lparr> remaining = [],
              validated = [\<lparr> index = Some 0, name = ''size-constructor'', variants = [],
                             parentType = [], body = ''size-constructor'', value' = [],
                             shorthand = [], leading = [], trailing = [], important = False \<rparr>],
              troubles = [([''w-constructor'', ''h-constructor''], ''size-constructor'')] \<rparr>"
  by code_simp

lemma shorthandCandidates_size:
  "shorthandCandidates exampleHost neverSame unclassified spacingGroups sizeConfig
     [sizingClass 0 ''w-'' ''Width'' ''4'', sizingClass 1 ''h-'' ''Height'' ''4'']
   = Inr ([\<lparr> index = Some 0, name = ''size-4'', variants = [], parentType = [],
              body = ''size-4'', value' = [], shorthand = [], leading = [],
              trailing = [], important = False \<rparr>],
          [([''w-4'', ''h-4''], ''size-4'')])"
  by code_simp

lemma shorthandCandidates_screen:
  "shorthandCandidates exampleHost neverSame unclassified spacingGroups sizeConfig
     [sizingClass 0 ''w-'' ''Width'' ''screen'', sizingClass 1 ''h-'' ''Height'' ''screen'']
   = Inr ([sizingClass 0 ''w-'' ''Width'' ''screen'', sizingClass 1 ''h-'' ''Height'' ''screen''], [])"
  by code_simp

lemma shorthandCandidates_no_size_scale:
  "shorthandCandidates exampleHost neverSame unclassified spacingGroups (sizeConfig\<lparr> theme := [] \<rparr>)
     [sizingClass 0 ''w-'' ''Width'' ''4'', sizingClass 1 ''h-'' ''Height'' ''4'']
   = Inl TypeError"
  by code_simp

text \<open>
  Claim C2, amended.  For the class names of one parent type other than Border Radius that
  share variants, importance and value (at least two of them), with \<open>S\<close> the set of their
  shorthand tags: \<open>x\<close> is derivable when \<open>S\<close> has \<open>x\<close>, or \<open>l\<close> and \<open>r\<close>; \<open>y\<close> is derivable
  when \<open>S\<close> has \<open>y\<close>, or \<open>t\<close> and \<open>b\<close>.  When \<open>S\<close> has \<open>all\<close>, or both axes are derivable, all
  class names are replaced by the one of the whole property.  Otherwise, when one axis is
  derivable, the first class name that is not an edge of the other axis is replaced by the
  class name of the derivable axis, the edges of the other axis are kept and the rest is
  dropped.  Otherwise all class names are kept.  So \<open>mt-4 mr-4 mb-4 ml-4\<close> becomes
  \<open>m-4\<close>, \<open>mt-4 mr-4 mb-4\<close> becomes \<open>my-4 mr-4\<close>, and \<open>mt-4 mr-4\<close> stays as it is.
\<close>

theorem collapseSameVariantAndValue_precedence:
  assumes nc: "pt \<noteq> ''Border Radius''"
    and S: "S = set (map shorthand bucket)"
    and X: "X \<longleftrightarrow> ''x'' \<in> S \<or> (''l'' \<in> S \<and> ''r'' \<in> S)"
    and Y: "Y \<longleftrightarrow> ''y'' \<in> S \<or> (''t'' \<in> S \<and> ''b'' \<in> S)"
    and ba: "getBodyByShorthand g pt ''all'' = Inr bodyAll"
    and bx: "getBodyByShorthand g pt ''x'' = Inr bodyX"
    and byy: "getBodyByShorthand g pt ''y'' = Inr bodyY"
  shows "collapseSameVariantAndValue g c pt cls bucket
         = (if ''all'' \<in> S \<or> (X \<and> Y) then
              Inr ([cls\<lparr> name := patchedShorthand c cls bodyAll, shorthand := ''all'' \<rparr>],
                   [(map name bucket, patchedShorthand c cls bodyAll)])
            else if X then
              Inr (keepOrReplace (filter isTB bucket) (patchedShorthand c cls bodyX) ''x'' False bucket,
                   [(map name (filter isLR bucket), patchedShorthand c cls bodyX)])
            else if Y then
              Inr (keepOrReplace (filter isLR bucket) (patchedShorthand c cls bodyY) ''y'' False bucket,
                   [(map name (filter isTB bucket), patchedShorthand c cls bodyY)])
            else Inr (bucket, []))"
  using nc ba bx byy unfolding S X Y
  by (auto simp: collapseSameVariantAndValue_def Let_def patchedShorthand_def)

theorem collapseSameVariantAndValue_precedence_witness:
  "''Margin'' \<noteq> ''Border Radius''
   \<and> getBodyByShorthand spacingGroups ''Margin'' ''all'' = Inr ''m''
   \<and> getBodyByShorthand spacingGroups ''Margin'' ''x'' = Inr ''mx''
   \<and> getBodyByShorthand spacingGroups ''Margin'' ''y'' = Inr ''my''
   \<and> set (map shorthand [marginClass 0 ''mt'' ''t'' ''4'', marginClass 1 ''mr'' ''r'' ''4'',
                          marginClass 2 ''mb'' ''b'' ''4'', marginClass 3 ''ml'' ''l'' ''4''])
       = {''t'', ''r'', ''b'', ''l''}
   \<and> collapseSameVariantAndValue spacingGroups sizeConfig ''Margin'' (marginClass 0 ''mt'' ''t'' ''4'')
        [marginClass 0 ''mt'' ''t'' ''4'', marginClass 1 ''mr'' ''r'' ''4'',
         marginClass 2 ''mb'' ''b'' ''4'', marginClass 3 ''ml'' ''l'' ''4'']
      = Inr ([(marginClass 0 ''mt'' ''t'' ''4'')\<lparr> name := ''m-4'', shorthand := ''all'' \<rparr>],
             [([''mt-4'', ''mr-4'', ''mb-4'', ''ml-4''], ''m-4'')])"
proof -
  have h1: "''Margin'' \<noteq> ''Border Radius''" by simp
  have h2: "getBodyByShorthand spacingGroups ''Margin'' ''all'' = Inr ''m''" by code_simp
  have h3: "getBodyByShorthand spacingGroups ''Margin'' ''x'' = Inr ''mx''" by code_simp
  have h4: "getBodyByShorthand spacingGroups ''Margin'' ''y'' = Inr ''my''" by code_simp
  have s: "set (map shorthand [marginClass 0 ''mt'' ''t'' ''4'', marginClass 1 ''mr'' ''r'' ''4'',
                          marginClass 2 ''mb'' ''b'' ''4'', marginClass 3 ''ml'' ''l'' ''4''])
       = {''t'', ''r'', ''b'', ''l''}"
    by (simp add: marginClass_def)
  have x: "True \<longleftrightarrow> ''x'' \<in> {''t'', ''r'', ''b'', ''l''}
             \<or> (''l'' \<in> {''t'', ''r'', ''b'', ''l''} \<and> ''r'' \<in> {''t'', ''r'', ''b'', ''l''})"
    by simp
  have y: "True \<longleftrightarrow> ''y'' \<in> {''t'', ''r'', ''b'', ''l''}
             \<or> (''t'' \<in> {''t'', ''r'', ''b'', ''l''} \<and> ''b'' \<in> {''t'', ''r'', ''b'', ''l''})"
    by simp
  have p: "patchedShorthand sizeConfig (marginClass 0 ''mt'' ''t'' ''4'') ''m'' = ''m-4''"
    by code_simp
  have n: "map name [marginClass 0 ''mt'' ''t'' ''4'', marginClass 1 ''mr'' ''r'' ''4'',
                     marginClass 2 ''mb'' ''b'' ''4'', marginClass 3 ''ml'' ''l'' ''4'']
           = [''mt-4'', ''mr-4'', ''mb-4'', ''ml-4'']"
    by (simp add: marginClass_def)
  have "collapseSameVariantAndValue spacingGroups sizeConfig ''Margin'' (marginClass 0 ''mt'' ''t'' ''4'')
        [marginClass 0 ''mt'' ''t'' ''4'', marginClass 1 ''mr'' ''r'' ''4'',
         marginClass 2 ''mb'' ''b'' ''4'', marginClass 3 ''ml'' ''l'' ''4'']
      = Inr ([(marginClass 0 ''mt'' ''t'' ''4'')
                \<lparr> name := patchedShorthand sizeConfig (marginClass 0 ''mt'' ''t'' ''4'') ''m'',
                  shorthand := ''all'' \<rparr>],
             [(map name [marginClass 0 ''mt'' ''t'' ''4'', marginClass 1 ''mr'' ''r'' ''4'',
                         marginClass 2 ''mb'' ''b'' ''4'', marginClass 3 ''ml'' ''l'' ''4''],
               patchedShorthand sizeConfig (marginClass 0 ''mt'' ''t'' ''4'') ''m'')])"
    using collapseSameVariantAndValue_precedence[where c = sizeConfig
        and cls = "marginClass 0 ''mt'' ''t'' ''4''", OF h1 s[symmetric] x y h2 h3 h4]
    by simp
  then have r: "collapseSameVariantAndValue spacingGroups sizeConfig ''Margin'' (marginClass 0 ''mt'' ''t'' ''4'')
        [marginClass 0 ''mt'' ''t'' ''4'', marginClass 1 ''mr'' ''r'' ''4'',
         marginClass 2 ''mb'' ''b'' ''4'', marginClass 3 ''ml'' ''l'' ''4'']
      = Inr ([(marginClass 0 ''mt'' ''t'' ''4'')\<lparr> name := ''m-4'', shorthand := ''all'' \<rparr>],
             [([''mt-4'', ''mr-4'', ''mb-4'', ''ml-4''], ''m-4'')])"
    by (simp only: p n)
  show ?thesis using h1 h2 h3 h4 s r by blast
qed

lemma shorthandCandidates_four_edges:
  "shorthandCandidates exampleHost neverSame unclassified spacingGroups sizeConfig
     [marginClass 0 ''mt'' ''t'' ''4'', marginClass 1 ''mr'' ''r'' ''4'',
      marginClass 2 ''mb'' ''b'' ''4'', marginClass 3 ''ml'' ''l'' ''4'']
   = Inr ([(marginClass 0 ''mt'' ''t'' ''4'')\<lparr> name := ''m-4'', shorthand := ''all'' \<rparr>],
          [([''mt-4'', ''mr-4'', ''mb-4'', ''ml-4''], ''m-4'')])"
  by code_simp

lemma shorthandCandidates_two_edges:
  "shorthandCandidates exampleHost neverSame unclassified spacingGroups sizeConfig
     [marginClass 0 ''mt'' ''t'' ''4'', marginClass 1 ''mr'' ''r'' ''4'']
   = Inr ([marginClass 0 ''mt'' ''t'' ''4'', marginClass 1 ''mr'' ''r'' ''4''], [])"
  by code_simp

text \<open>
  Claim C2 as stated fails on its own example: in \<open>mt-4 mr-4 mb-4\<close> the tags \<open>t\<close> and \<open>b\<close>
  are both present, so \<open>y\<close> is derivable; the rule reports \<open>mt-4\<close> and \<open>mb-4\<close> and returns
  \<open>my-4 mr-4\<close>.
\<close>

theorem collapseSameVariantAndValue_precedence_counterexample:
  "shorthandCandidates exampleHost neverSame unclassified spacingGroups sizeConfig
     [marginClass 0 ''mt'' ''t'' ''4'', marginClass 1 ''mr'' ''r'' ''4'',
      marginClass 2 ''mb'' ''b'' ''4'']
   = Inr ([(marginClass 0 ''mt'' ''t'' ''4'')\<lparr> name := ''my-4'', shorthand := ''y'' \<rparr>,
           marginClass 1 ''mr'' ''r'' ''4''],
          [([''mt-4'', ''mb-4''], ''my-4'')])
   \<and> map name [marginClass 0 ''mt'' ''t'' ''4'', marginClass 1 ''mr'' ''r'' ''4'',
               marginClass 2 ''mb'' ''b'' ''4''] = [''mt-4'', ''mr-4'', ''mb-4'']
   \<and> name ((marginClass 0 ''mt'' ''t'' ''4'')\<lparr> name := ''my-4'', shorthand := ''y'' \<rparr>) = ''my-4''"
  by code_simp

end
